theory Spec2Isabelle
  imports Complex_Main "HOL-Library.Sublist" "HOL-Library.Log_Nat"
begin

section \<open>Python string primitives used by the checkpoint loader\<close>

text \<open>
  Names of TensorFlow variables are Python strings; they are modelled as \<^typ>\<open>string\<close>.
  \<open>py_replace old new s\<close> is \<^verbatim>\<open>s.replace(old, new)\<close>: the occurrences of \<open>old\<close> are found from
  left to right, without overlap, and each is replaced by \<open>new\<close>. With an empty \<open>old\<close> Python
  puts \<open>new\<close> before every character and at the end.
\<close>

fun py_replace :: "string \<Rightarrow> string \<Rightarrow> string \<Rightarrow> string" where
  "py_replace [] new [] = new"
| "py_replace [] new (c # cs) = new @ c # py_replace [] new cs"
| "py_replace (x # xs) new [] = []"
| "py_replace (x # xs) new (c # cs) =
     (if prefix (x # xs) (c # cs)
      then new @ py_replace (x # xs) new (drop (length xs) cs)
      else c # py_replace (x # xs) new cs)"

text \<open>\<open>py_split sep s\<close> is \<^verbatim>\<open>s.split(sep)\<close> for a separator of one character.\<close>

fun py_split :: "char \<Rightarrow> string \<Rightarrow> string list" where
  "py_split sep [] = [[]]"
| "py_split sep (c # cs) =
     (if c = sep then [] # py_split sep cs
      else (case py_split sep cs of
              [] \<Rightarrow> [[c]]
            | w # ws \<Rightarrow> (c # w) # ws))"

text \<open>\<open>py_in sub s\<close> is the substring test \<^verbatim>\<open>sub in s\<close>.\<close>

fun py_in :: "string \<Rightarrow> string \<Rightarrow> bool" where
  "py_in sub [] = (sub = [])"
| "py_in sub (c # cs) = (prefix sub (c # cs) \<or> py_in sub cs)"

section \<open>Remapping of checkpoint names (\<open>load_tf_weights_in_albert\<close>)\<close>

text \<open>
  The chain of \<^verbatim>\<open>name = name.replace(...)\<close> statements of the loader, in the order of the
  source, followed by the \<^verbatim>\<open>classifier/\<close> prefix.
\<close>

definition remap_name :: "string \<Rightarrow> string" where
  "remap_name name0 =
    (let name = py_replace ''module/'' '''' name0;
         name = py_replace ''ffn_1'' ''ffn'' name;
         name = py_replace ''bert/'' ''albert/'' name;
         name = py_replace ''attention_1'' ''attention'' name;
         name = py_replace ''transform/'' '''' name;
         name = py_replace ''LayerNorm_1'' ''full_layer_layer_norm'' name;
         name = py_replace ''LayerNorm'' ''attention/LayerNorm'' name;
         name = py_replace ''transformer/'' '''' name;
         name = py_replace ''intermediate/dense/'' '''' name;
         name = py_replace ''ffn/intermediate/output/dense/'' ''ffn_output/'' name;
         name = py_replace ''/output/'' ''/'' name;
         name = py_replace ''/self/'' ''/'' name;
         name = py_replace ''pooler/dense'' ''pooler'' name;
         name = py_replace ''cls/predictions'' ''predictions'' name;
         name = py_replace ''predictions/attention'' ''predictions'' name;
         name = py_replace ''embeddings/attention'' ''embeddings'' name;
         name = py_replace ''inner_group_'' ''albert_layers/'' name;
         name = py_replace ''group_'' ''albert_layer_groups/'' name
     in if length (py_split CHR ''/'' name) = 1
           \<and> (py_in ''output_bias'' name \<or> py_in ''output_weights'' name)
        then ''classifier/'' @ name
        else name)"


section \<open>Errors and arrays\<close>

text \<open>
  Every exception the modelled code can raise is a value of \<open>error\<close>; a function that can
  raise returns \<open>error + 'a\<close> with \<open>Inl\<close> for the exception. \<open>AssertionError args\<close> carries
  the \<^verbatim>\<open>args\<close> tuple of the exception, here a tuple of shapes.
\<close>

datatype error =
    ValueError string
  | IndexError
  | TypeError
  | AttributeError
  | ZeroDivisionError
  | OverflowError
  | RuntimeError
  | AssertionError "nat list list"

text \<open>
  A numpy array or a torch tensor: its shape and its elements in row-major order.
  A well-formed tensor has as many elements as its shape says.
\<close>

record 'a tensor =
  shape :: "nat list"
  elems :: "'a list"

definition numel :: "nat list \<Rightarrow> nat" where
  "numel s = prod_list s"

definition wf_tensor :: "'a tensor \<Rightarrow> bool" where
  "wf_tensor t = (length (elems t) = numel (shape t))"

text \<open>Row-major position of an index tuple, and the index tuple of a position.\<close>

fun ravel :: "nat list \<Rightarrow> nat list \<Rightarrow> nat" where
  "ravel (d # ds) (i # is) = i * prod_list ds + ravel ds is"
| "ravel _ _ = 0"

fun unravel :: "nat list \<Rightarrow> nat \<Rightarrow> nat list" where
  "unravel [] k = []"
| "unravel (d # ds) k = (k div prod_list ds) # unravel ds (k mod prod_list ds)"

text \<open>\<^verbatim>\<open>np.transpose(array)\<close> reverses the axes.\<close>

definition np_transpose :: "'a tensor \<Rightarrow> 'a tensor" where
  "np_transpose a =
     \<lparr> shape = rev (shape a),
       elems = map (\<lambda>k. elems a ! ravel (shape a) (rev (unravel (rev (shape a)) k)))
                   [0 ..< numel (shape a)] \<rparr>"

section \<open>The model object graph\<close>

text \<open>
  The PyTorch model is a graph of objects that the loader walks with \<^verbatim>\<open>getattr\<close> and
  indexing and mutates with \<^verbatim>\<open>pointer.data = ...\<close>. Objects live in a heap indexed by
  addresses, so that two paths to one parameter (tied weights) see one object.
  Each object has a table of attributes holding sub-objects, the list of its items when it
  is subscriptable (a \<^verbatim>\<open>ModuleList\<close>), the value of its \<^verbatim>\<open>.shape\<close> when it has one (a
  parameter), and the value of its \<^verbatim>\<open>.data\<close>.
\<close>

record 'a pyobj =
  attrs :: "(string \<times> nat) list"
  items :: "nat list option"
  oshape :: "nat list option"
  odata :: "'a tensor option"

type_synonym 'a heap = "nat \<Rightarrow> 'a pyobj"

definition py_getattr :: "'a heap \<Rightarrow> nat \<Rightarrow> string \<Rightarrow> error + nat" where
  "py_getattr h p name =
     (case map_of (attrs (h p)) name of
        None \<Rightarrow> Inl AttributeError
      | Some q \<Rightarrow> Inr q)"

definition py_getitem :: "'a heap \<Rightarrow> nat \<Rightarrow> nat \<Rightarrow> error + nat" where
  "py_getitem h p num =
     (case items (h p) of
        None \<Rightarrow> Inl TypeError
      | Some qs \<Rightarrow> if num < length qs then Inr (qs ! num) else Inl IndexError)"

section \<open>Walking the object graph along a remapped name\<close>

definition is_letter :: "char \<Rightarrow> bool" where
  "is_letter c = (let n = (of_char c :: nat) in (65 \<le> n \<and> n \<le> 90) \<or> (97 \<le> n \<and> n \<le> 122))"

definition is_digit :: "char \<Rightarrow> bool" where
  "is_digit c = (let n = (of_char c :: nat) in 48 \<le> n \<and> n \<le> 57)"

text \<open>\<^verbatim>\<open>re.fullmatch(r'[A-Za-z]+_\d+', m_name)\<close>: letters, an underscore, digits.\<close>

definition fullmatch_name :: "string \<Rightarrow> bool" where
  "fullmatch_name m_name =
     (let a = takeWhile is_letter m_name; r = dropWhile is_letter m_name
      in a \<noteq> [] \<and> r \<noteq> [] \<and> hd r = CHR ''_'' \<and> tl r \<noteq> [] \<and> list_all is_digit (tl r))"

text \<open>
  \<^verbatim>\<open>re.split(r'_(\d+)', m_name)\<close> on a name that matched: the letters, the digits (the
  captured group) and the empty rest.
\<close>

definition re_split_index :: "string \<Rightarrow> string list" where
  "re_split_index m_name =
     [takeWhile is_letter m_name, tl (dropWhile is_letter m_name), []]"

text \<open>\<^verbatim>\<open>int(l[1])\<close> on a string of decimal digits.\<close>

definition py_int :: "string \<Rightarrow> nat" where
  "py_int ds = foldl (\<lambda>n c. 10 * n + ((of_char c :: nat) - 48)) 0 ds"

text \<open>
  The inner loop \<^verbatim>\<open>for m_name in name\<close>. The \<^verbatim>\<open>continue\<close> of the \<^verbatim>\<open>except AttributeError\<close>
  branch continues this inner loop: the component is dropped, its index is not applied, and
  the walk goes on from the same pointer. The other \<^verbatim>\<open>getattr\<close> calls are not guarded.
\<close>

fun resolve :: "'a heap \<Rightarrow> nat \<Rightarrow> string list \<Rightarrow> error + nat" where
  "resolve h pointer [] = Inr pointer"
| "resolve h pointer (m_name # rest) =
     (let l = (if fullmatch_name m_name then re_split_index m_name else [m_name]);
          step = (if l ! 0 = ''kernel'' \<or> l ! 0 = ''gamma'' then
                    map_sum id Some (py_getattr h pointer ''weight'')
                  else if l ! 0 = ''output_bias'' \<or> l ! 0 = ''beta'' then
                    map_sum id Some (py_getattr h pointer ''bias'')
                  else if l ! 0 = ''output_weights'' then
                    map_sum id Some (py_getattr h pointer ''weight'')
                  else if l ! 0 = ''squad'' then
                    map_sum id Some (py_getattr h pointer ''classifier'')
                  else (case py_getattr h pointer (l ! 0) of
                          Inl e \<Rightarrow> Inr None
                        | Inr q \<Rightarrow> Inr (Some q)))
      in case step of
           Inl e \<Rightarrow> Inl e
         | Inr None \<Rightarrow> resolve h pointer rest
         | Inr (Some q) \<Rightarrow>
             if length l \<ge> 2 then
               (case py_getitem h q (py_int (l ! 1)) of
                  Inl e \<Rightarrow> Inl e
                | Inr q' \<Rightarrow> resolve h q' rest)
             else resolve h q rest)"

text \<open>
  The statements between the inner loop and the assertion: a final component ending in
  \<^verbatim>\<open>_embeddings\<close> steps to the \<^verbatim>\<open>weight\<close> attribute, a final component \<^verbatim>\<open>kernel\<close> transposes
  the array. \<^verbatim>\<open>m_name[-11:]\<close> is the last eleven characters, or the whole name when shorter.
\<close>

definition locate :: "'a heap \<Rightarrow> nat \<Rightarrow> string list \<Rightarrow> 'b tensor \<Rightarrow> error + (nat \<times> 'b tensor)" where
  "locate h model name array =
     (case resolve h model name of
        Inl e \<Rightarrow> Inl e
      | Inr pointer \<Rightarrow>
          (let m_name = last name in
           if drop (length m_name - 11) m_name = ''_embeddings'' then
             (case py_getattr h pointer ''weight'' of
                Inl e \<Rightarrow> Inl e
              | Inr q \<Rightarrow> Inr (q, array))
           else if m_name = ''kernel'' then Inr (pointer, np_transpose array)
           else Inr (pointer, array)))"

text \<open>
  The assertion and the assignment. \<^verbatim>\<open>pointer.shape\<close> on an object without a shape raises
  AttributeError, which the \<^verbatim>\<open>except AssertionError\<close> clause does not catch. A failed
  \<^verbatim>\<open>assert\<close> has empty \<^verbatim>\<open>args\<close>, to which the handler appends the two shapes.
\<close>

definition assign :: "'a heap \<Rightarrow> nat \<Rightarrow> 'a tensor \<Rightarrow> error + 'a heap" where
  "assign h pointer array =
     (case oshape (h pointer) of
        None \<Rightarrow> Inl AttributeError
      | Some s \<Rightarrow>
          if s = shape array
          then Inr (h(pointer := (h pointer)\<lparr>odata := Some array\<rparr>))
          else Inl (AssertionError [s, shape array]))"

text \<open>The two tests that end the iteration for a variable with \<^verbatim>\<open>continue\<close>.\<close>

definition skipped :: "string \<Rightarrow> bool" where
  "skipped original_name =
     (let name = remap_name original_name in
      py_in ''seq_relationship'' name
      \<or> (let name = py_split CHR ''/'' name in
          ''adam_m'' \<in> set name \<or> ''adam_v'' \<in> set name \<or> ''global_step'' \<in> set name))"

text \<open>One iteration of the main loop, for the variable \<open>(original_name, array)\<close>.\<close>

definition load_variable :: "'a heap \<Rightarrow> nat \<Rightarrow> string \<times> 'a tensor \<Rightarrow> error + 'a heap" where
  "load_variable h model v =
     (let name = remap_name (fst v); array = snd v in
      if py_in ''seq_relationship'' name then Inr h
      else
        (let name = py_split CHR ''/'' name in
         if ''adam_m'' \<in> set name \<or> ''adam_v'' \<in> set name \<or> ''global_step'' \<in> set name
         then Inr h
         else (case locate h model name array of
                 Inl e \<Rightarrow> Inl e
               | Inr (pointer, array) \<Rightarrow> assign h pointer array)))"

text \<open>
  The main loop over the variables read from the checkpoint. The model is mutated in
  place, so when an exception leaves the loop the assignments made so far remain: the
  result is the heap reached and the exception, if any. Logging and printing are left out.
\<close>

fun load_tf_weights_in_albert ::
  "'a heap \<Rightarrow> nat \<Rightarrow> (string \<times> 'a tensor) list \<Rightarrow> 'a heap \<times> error option" where
  "load_tf_weights_in_albert h model [] = (h, None)"
| "load_tf_weights_in_albert h model (v # vs) =
     (case load_variable h model v of
        Inl e \<Rightarrow> (h, Some e)
      | Inr h' \<Rightarrow> load_tf_weights_in_albert h' model vs)"

subsection \<open>The remapping as the specification words it\<close>

text \<open>
  The specification lists the substitutions as a table applied in order, followed by the
  \<^verbatim>\<open>classifier/\<close> prefix for a name that is a single slash-separated component and
  contains \<^verbatim>\<open>output_bias\<close> or \<^verbatim>\<open>output_weights\<close>.
\<close>

definition name_substitutions :: "(string \<times> string) list" where
  "name_substitutions =
    [(''module/'', ''''),
     (''ffn_1'', ''ffn''),
     (''bert/'', ''albert/''),
     (''attention_1'', ''attention''),
     (''transform/'', ''''),
     (''LayerNorm_1'', ''full_layer_layer_norm''),
     (''LayerNorm'', ''attention/LayerNorm''),
     (''transformer/'', ''''),
     (''intermediate/dense/'', ''''),
     (''ffn/intermediate/output/dense/'', ''ffn_output/''),
     (''/output/'', ''/''),
     (''/self/'', ''/''),
     (''pooler/dense'', ''pooler''),
     (''cls/predictions'', ''predictions''),
     (''predictions/attention'', ''predictions''),
     (''embeddings/attention'', ''embeddings''),
     (''inner_group_'', ''albert_layers/''),
     (''group_'', ''albert_layer_groups/'')]"

definition spec_remap :: "string \<Rightarrow> string" where
  "spec_remap name =
     (let n = fold (\<lambda>(old, new). py_replace old new) name_substitutions name
      in if length (py_split CHR ''/'' n) = 1
            \<and> (py_in ''output_bias'' n \<or> py_in ''output_weights'' n)
         then ''classifier/'' @ n else n)"

subsection \<open>A small object graph for concrete runs of the loader\<close>

definition empty_obj :: "'a pyobj" where
  "empty_obj = \<lparr> attrs = [], items = None, oshape = None, odata = None \<rparr>"

text \<open>
  A model whose \<^verbatim>\<open>albert.pooler\<close> is a linear layer with a weight of shape \<open>(3, 2)\<close> at
  address 3 and a bias of shape \<open>(3)\<close> at address 4.
\<close>

definition demo_heap :: "int heap" where
  "demo_heap =
     (\<lambda>a. empty_obj)
       (0 := empty_obj \<lparr> attrs := [(''albert'', 1)] \<rparr>,
        1 := empty_obj \<lparr> attrs := [(''pooler'', 2)] \<rparr>,
        2 := empty_obj \<lparr> attrs := [(''weight'', 3), (''bias'', 4)] \<rparr>,
        3 := empty_obj \<lparr> oshape := Some [3, 2] \<rparr>,
        4 := empty_obj \<lparr> oshape := Some [3] \<rparr>)"

section \<open>Python floats\<close>

text \<open>
  \<^verbatim>\<open>AlbertTransformer.forward\<close> computes the index of a layer group with Python's true
  division, which works on IEEE 754 double-precision numbers. A finite double is modelled by
  the rational number it denotes; \<open>fl_round\<close> rounds a rational to the nearest double, ties
  to the even significand, with 53 bits of significand above the exponent \<open>-1022\<close> and the
  fixed spacing \<open>2 powi -1074\<close> below it. A result of magnitude \<open>2 ^ 1024\<close> or more has
  left the range of the finite doubles.
\<close>

datatype pyfloat = Fin rat | PInf | NInf | NaN

text \<open>The integer \<open>e\<close> with \<open>2 powi e \<le> x < 2 powi (e + 1)\<close>, for a positive \<open>x\<close>.\<close>

definition binary_exponent :: "rat \<Rightarrow> int" where
  "binary_exponent x =
     (let d = bitlen (fst (quotient_of x)) - bitlen (snd (quotient_of x))
      in if 2 powi d \<le> x then d else d - 1)"

definition round_half_even :: "rat \<Rightarrow> int" where
  "round_half_even y =
     (let n = \<lfloor>y\<rfloor>; f = y - of_int n
      in if f < 1 / 2 then n
         else if 1 / 2 < f then n + 1
         else if even n then n else n + 1)"

definition fl_round :: "rat \<Rightarrow> rat" where
  "fl_round x =
     (if x = 0 then 0
      else (let e = max (binary_exponent \<bar>x\<bar>) (- 1022);
                u = 2 powi (e - 52)
            in sgn x * of_int (round_half_even (\<bar>x\<bar> / u)) * u))"

definition fl_overflow :: "rat \<Rightarrow> bool" where
  "fl_overflow r = (2 ^ 1024 \<le> \<bar>r\<bar>)"

text \<open>\<^verbatim>\<open>float(i)\<close> for an int, as done implicitly when an int meets a float.\<close>

definition py_float_of_int :: "int \<Rightarrow> error + pyfloat" where
  "py_float_of_int i =
     (let r = fl_round (of_int i) in
      if fl_overflow r then Inl OverflowError else Inr (Fin r))"

text \<open>\<^verbatim>\<open>a / b\<close> for two ints: the correctly rounded quotient.\<close>

definition py_int_truediv :: "int \<Rightarrow> int \<Rightarrow> error + pyfloat" where
  "py_int_truediv a b =
     (if b = 0 then Inl ZeroDivisionError
      else (let r = fl_round (of_int a / of_int b) in
            if fl_overflow r then Inl OverflowError else Inr (Fin r)))"

text \<open>\<^verbatim>\<open>x / y\<close> for two floats: a zero divisor raises, an overflow gives an infinity.\<close>

fun py_float_truediv :: "pyfloat \<Rightarrow> pyfloat \<Rightarrow> error + pyfloat" where
  "py_float_truediv (Fin x) (Fin y) =
     (if y = 0 then Inl ZeroDivisionError
      else (let r = fl_round (x / y) in
            Inr (if fl_overflow r then (if 0 < r then PInf else NInf) else Fin r)))"
| "py_float_truediv NaN y = (if y = Fin 0 then Inl ZeroDivisionError else Inr NaN)"
| "py_float_truediv x NaN = Inr NaN"
| "py_float_truediv (Fin x) y = Inr (Fin 0)"
| "py_float_truediv PInf (Fin y) =
     (if y = 0 then Inl ZeroDivisionError else Inr (if 0 < y then PInf else NInf))"
| "py_float_truediv NInf (Fin y) =
     (if y = 0 then Inl ZeroDivisionError else Inr (if 0 < y then NInf else PInf))"
| "py_float_truediv x y = Inr NaN"

text \<open>\<^verbatim>\<open>i / q\<close> for an int and a float.\<close>

definition py_int_float_truediv :: "int \<Rightarrow> pyfloat \<Rightarrow> error + pyfloat" where
  "py_int_float_truediv i q =
     (case py_float_of_int i of
        Inl e \<Rightarrow> Inl e
      | Inr x \<Rightarrow> py_float_truediv x q)"

text \<open>\<^verbatim>\<open>int(x)\<close> for a float truncates towards zero.\<close>

fun py_int_of_float :: "pyfloat \<Rightarrow> error + int" where
  "py_int_of_float (Fin x) = Inr (if 0 \<le> x then \<lfloor>x\<rfloor> else \<lceil>x\<rceil>)"
| "py_int_of_float NaN = Inl (ValueError ''cannot convert float NaN to integer'')"
| "py_int_of_float _ = Inl OverflowError"

section \<open>Python sequences and torch tensors\<close>

text \<open>Sequencing of computations that can raise.\<close>

definition ebind :: "error + 'b \<Rightarrow> ('b \<Rightarrow> error + 'c) \<Rightarrow> error + 'c" where
  "ebind m f = (case m of Inl e \<Rightarrow> Inl e | Inr x \<Rightarrow> f x)"

text \<open>\<^verbatim>\<open>xs[i]\<close> and \<^verbatim>\<open>xs[a:b]\<close> on a list or tuple; a negative index counts from the end.\<close>

definition py_index :: "'b list \<Rightarrow> int \<Rightarrow> error + 'b" where
  "py_index xs i =
     (let n = int (length xs); j = (if i < 0 then i + n else i)
      in if 0 \<le> j \<and> j < n then Inr (xs ! nat j) else Inl IndexError)"

definition py_slice :: "'b list \<Rightarrow> int \<Rightarrow> int \<Rightarrow> 'b list" where
  "py_slice xs a b =
     (let n = int (length xs);
          lo = (if a < 0 then max (a + n) 0 else min a n);
          hi = (if b < 0 then max (b + n) 0 else min b n)
      in take (nat (hi - lo)) (drop (nat lo) xs))"

text \<open>
  A value that a forward pass puts into its output tuple: a tensor or a tuple of values.
\<close>

datatype 'a pyval = Ten "'a tensor" | Tup "'a pyval list"

text \<open>
  Tensors are kept contiguous: strides and memory layout are outside the model, and
  so are dtypes and devices (\<^verbatim>\<open>.to(dtype=...)\<close> is the identity). The element type is
  arbitrary; where elements are added and multiplied it is a semiring, so that the sums
  are exact: the rounding of the framework's floating-point numbers, and the order in which
  its kernels add, are not modelled.
\<close>

definition t_full :: "nat list \<Rightarrow> 'a \<Rightarrow> 'a tensor" where
  "t_full s x = \<lparr> shape = s, elems = replicate (numel s) x \<rparr>"

definition t_map :: "('a \<Rightarrow> 'b) \<Rightarrow> 'a tensor \<Rightarrow> 'b tensor" where
  "t_map f t = \<lparr> shape = shape t, elems = map f (elems t) \<rparr>"

text \<open>\<^verbatim>\<open>t.size(d)\<close>.\<close>

definition t_size :: "'a tensor \<Rightarrow> int \<Rightarrow> error + nat" where
  "t_size t d = py_index (shape t) d"

text \<open>\<^verbatim>\<open>t.squeeze(-1)\<close>: a last dimension of size one is dropped.\<close>

definition squeeze_last :: "'a tensor \<Rightarrow> 'a tensor" where
  "squeeze_last t =
     (if shape t \<noteq> [] \<and> last (shape t) = 1 then t\<lparr> shape := butlast (shape t) \<rparr> else t)"

text \<open>\<^verbatim>\<open>t.unsqueeze(d)\<close>: a dimension of size one is inserted at position \<open>d\<close>.\<close>

definition unsqueeze :: "int \<Rightarrow> 'a tensor \<Rightarrow> error + 'a tensor" where
  "unsqueeze d t =
     (let n = int (length (shape t)); j = (if d < 0 then d + n + 1 else d)
      in if 0 \<le> j \<and> j \<le> n
         then Inr (t\<lparr> shape := take (nat j) (shape t) @ [1] @ drop (nat j) (shape t) \<rparr>)
         else Inl IndexError)"

text \<open>\<^verbatim>\<open>t.view(*s)\<close> with explicit sizes, \<^verbatim>\<open>t.view(-1)\<close> and \<^verbatim>\<open>t.view(-1, n)\<close>.\<close>

definition t_view :: "nat list \<Rightarrow> 'a tensor \<Rightarrow> error + 'a tensor" where
  "t_view s t = (if numel s = numel (shape t) then Inr (t\<lparr> shape := s \<rparr>) else Inl RuntimeError)"

definition view_flat :: "'a tensor \<Rightarrow> 'a tensor" where
  "view_flat t = t\<lparr> shape := [numel (shape t)] \<rparr>"

definition view_rows :: "nat \<Rightarrow> 'a tensor \<Rightarrow> error + 'a tensor" where
  "view_rows n t =
     (if n = 0 \<or> numel (shape t) mod n \<noteq> 0 then Inl RuntimeError
      else Inr (t\<lparr> shape := [numel (shape t) div n, n] \<rparr>))"

text \<open>The consecutive blocks of \<open>k\<close> elements of a list, \<open>r\<close> of them.\<close>

definition blocks :: "nat \<Rightarrow> nat \<Rightarrow> 'b list \<Rightarrow> 'b list list" where
  "blocks r k xs = map (\<lambda>i. take k (drop (i * k) xs)) [0 ..< r]"

text \<open>The sub-tensors along the first dimension: what indexing and slicing a tensor see.\<close>

definition t_rows :: "'a tensor \<Rightarrow> 'a tensor list" where
  "t_rows t =
     (case shape t of
        [] \<Rightarrow> []
      | d # ds \<Rightarrow> map (\<lambda>b. \<lparr> shape = ds, elems = b \<rparr>) (blocks d (numel ds) (elems t)))"

definition t_stack :: "nat list \<Rightarrow> 'a tensor list \<Rightarrow> 'a tensor" where
  "t_stack ds ts = \<lparr> shape = length ts # ds, elems = concat (map elems ts) \<rparr>"

text \<open>
  \<^verbatim>\<open>t.split(1, dim=-1)\<close>: one tensor for each position of the last dimension, each with a last
  dimension of size one; a last dimension of size zero gives the tensor itself as the only
  chunk.
\<close>

definition split1_last :: "'a tensor \<Rightarrow> error + 'a tensor list" where
  "split1_last t =
     (if shape t = [] then Inl IndexError
      else (let n = last (shape t); r = numel (butlast (shape t)) in
            if n = 0 then Inr [t]
            else Inr (map (\<lambda>c. \<lparr> shape = butlast (shape t) @ [1],
                                  elems = map (\<lambda>i. elems t ! (i * n + c)) [0 ..< r] \<rparr>)
                          [0 ..< n])))"

text \<open>\<^verbatim>\<open>t[:, 0]\<close>: the first entry along the second dimension.\<close>

definition select_first :: "'a tensor \<Rightarrow> error + 'a tensor" where
  "select_first t =
     (case shape t of
        b # s # rest \<Rightarrow>
          if s = 0 then Inl IndexError
          else Inr \<lparr> shape = b # rest,
                     elems = concat (map (take (numel rest)) (blocks b (s * numel rest) (elems t))) \<rparr>
      | _ \<Rightarrow> Inl IndexError)"

text \<open>\<^verbatim>\<open>x + y\<close> for tensors of one shape; broadcasting between different shapes is not modelled.\<close>

definition t_add :: "'a::plus tensor \<Rightarrow> 'a tensor \<Rightarrow> error + 'a tensor" where
  "t_add x y =
     (if shape x = shape y then Inr \<lparr> shape = shape x, elems = map2 (+) (elems x) (elems y) \<rparr>
      else Inl RuntimeError)"

text \<open>\<^verbatim>\<open>x + b\<close> for a vector \<open>b\<close> as long as the last dimension of \<open>x\<close>.\<close>

definition add_bias :: "'a::plus tensor \<Rightarrow> 'a tensor \<Rightarrow> error + 'a tensor" where
  "add_bias x b =
     (case shape b of
        [n] \<Rightarrow>
          if shape x \<noteq> [] \<and> last (shape x) = n
          then Inr \<lparr> shape = shape x,
                     elems = concat (map (\<lambda>row. map2 (+) row (elems b))
                                         (blocks (numel (butlast (shape x))) n (elems x))) \<rparr>
          else Inl RuntimeError
      | _ \<Rightarrow> Inl RuntimeError)"

subsection \<open>Linear layers\<close>

text \<open>
  \<^verbatim>\<open>nn.Linear\<close>: a weight of shape \<open>(out_features, in_features)\<close> and a bias of shape
  \<open>(out_features)\<close>; the layer acts on the last dimension.
\<close>

record 'a Linear =
  weight :: "'a tensor"
  bias :: "'a tensor"

definition dot :: "'a::semiring_0 list \<Rightarrow> 'a list \<Rightarrow> 'a" where
  "dot xs ys = sum_list (map2 (*) xs ys)"

definition Linear_forward :: "'a::semiring_0 Linear \<Rightarrow> 'a tensor \<Rightarrow> error + 'a tensor" where
  "Linear_forward l x =
     (case shape (weight l) of
        [out_f, in_f] \<Rightarrow>
          if shape x \<noteq> [] \<and> last (shape x) = in_f \<and> shape (bias l) = [out_f]
          then Inr \<lparr> shape = butlast (shape x) @ [out_f],
                     elems = concat (map (\<lambda>row. map (\<lambda>j. dot row (take in_f (drop (j * in_f) (elems (weight l))))
                                                          + elems (bias l) ! j)
                                                    [0 ..< out_f])
                                         (blocks (numel (butlast (shape x))) in_f (elems x))) \<rparr>
          else Inl RuntimeError
      | _ \<Rightarrow> Inl RuntimeError)"

section \<open>The encoder\<close>

text \<open>
  The fields of the configuration that the modelled code reads. \<^verbatim>\<open>AlbertConfig\<close> puts no
  constraint on them.
\<close>

record AlbertConfig =
  num_hidden_layers :: int
  num_hidden_groups :: int
  inner_group_num :: int
  output_attentions :: bool
  output_hidden_states :: bool
  num_labels :: nat

text \<open>
  The head mask that travels down the encoder is a tensor (one sub-tensor for each layer
  along the first dimension), a Python list (\<^verbatim>\<open>[None] * num_hidden_layers\<close>) or
  \<^verbatim>\<open>None\<close>, the default of \<^verbatim>\<open>AlbertTransformer.forward\<close>.
\<close>

datatype 'a hmask = HMNone | HMList "'a tensor option list" | HMTensor "'a tensor"

fun hm_slice :: "'a hmask \<Rightarrow> int \<Rightarrow> int \<Rightarrow> error + 'a hmask" where
  "hm_slice HMNone a b = Inl TypeError"
| "hm_slice (HMList xs) a b = Inr (HMList (py_slice xs a b))"
| "hm_slice (HMTensor t) a b =
     (if shape t = [] then Inl IndexError
      else Inr (HMTensor (t_stack (tl (shape t)) (py_slice (t_rows t) a b))))"

fun hm_index :: "'a hmask \<Rightarrow> int \<Rightarrow> error + 'a tensor option" where
  "hm_index HMNone i = Inl TypeError"
| "hm_index (HMList xs) i = py_index xs i"
| "hm_index (HMTensor t) i =
     (if shape t = [] then Inl IndexError else map_sum id Some (py_index (t_rows t) i))"

subsection \<open>\<open>AlbertAttention\<close>\<close>

text \<open>
  \<open>attend\<close> stands for the first part of \<^verbatim>\<open>AlbertAttention.forward\<close>, up to the permuted,
  contiguous \<^verbatim>\<open>context_layer\<close> of shape \<open>(batch, seq_len, heads, head_size)\<close>: it uses the
  query, key and value layers and \<^verbatim>\<open>transpose_for_scores\<close> of \<^verbatim>\<open>BertSelfAttention\<close>, the
  softmax and the dropout of the framework. It returns the context layer and the attention
  probabilities. \<open>att_dropout\<close> and \<open>att_LayerNorm\<close> are the dropout and the layer
  normalisation modules, at a fixed state of the random generator.
\<close>

record 'a AlbertAttention =
  att_output_attentions :: bool
  num_attention_heads :: nat
  attention_head_size :: nat
  hidden_size :: nat
  all_head_size :: nat
  attend :: "'a tensor \<Rightarrow> 'a tensor option \<Rightarrow> 'a tensor option \<Rightarrow> error + ('a tensor \<times> 'a tensor)"
  dense :: "'a Linear"
  att_dropout :: "'a tensor \<Rightarrow> 'a tensor"
  att_LayerNorm :: "'a tensor \<Rightarrow> 'a tensor"

text \<open>
  \<^verbatim>\<open>dense.weight.t().view(num_attention_heads, attention_head_size, hidden_size)\<close>: the
  transposed weight has shape \<open>(in_features, out_features)\<close>; its first dimension is split
  into heads and head size. Other factorisations depend on the memory layout and raise.
\<close>

definition weight_as_heads :: "nat \<Rightarrow> nat \<Rightarrow> nat \<Rightarrow> 'a tensor \<Rightarrow> error + 'a tensor" where
  "weight_as_heads n d hs w =
     (case shape w of
        [out_f, in_f] \<Rightarrow>
          if n * d = in_f \<and> hs = out_f then Inr ((np_transpose w)\<lparr> shape := [n, d, hs] \<rparr>)
          else Inl RuntimeError
      | _ \<Rightarrow> Inl RuntimeError)"

text \<open>\<^verbatim>\<open>torch.einsum("bfnd,ndh->bfh", context_layer, w)\<close>.\<close>

definition einsum_bfnd_ndh :: "'a::semiring_0 tensor \<Rightarrow> 'a tensor \<Rightarrow> error + 'a tensor" where
  "einsum_bfnd_ndh c w =
     (case (shape c, shape w) of
        ([b, f, n, d], [n', d', h]) \<Rightarrow>
          if n = n' \<and> d = d' then
            Inr \<lparr> shape = [b, f, h],
                  elems = concat (map (\<lambda>row.
                            map (\<lambda>j. sum_list (map (\<lambda>i.
                                        sum_list (map (\<lambda>k. row ! (i * d + k) * elems w ! ((i * d + k) * h + j))
                                                      [0 ..< d]))
                                      [0 ..< n]))
                                [0 ..< h])
                            (blocks (b * f) (n * d) (elems c))) \<rparr>
          else Inl RuntimeError
      | _ \<Rightarrow> Inl RuntimeError)"

text \<open>
  The second part of \<^verbatim>\<open>AlbertAttention.forward\<close>, from \<^verbatim>\<open>new_context_layer_shape\<close> on.
  \<open>reshaped_context_layer\<close> is computed (the \<^verbatim>\<open>view\<close> can raise) and not used.
\<close>

definition project_context :: "'a::semiring_0 AlbertAttention \<Rightarrow> 'a tensor \<Rightarrow> error + 'a tensor" where
  "project_context a context_layer =
     ebind (t_view (take (length (shape context_layer) - 2) (shape context_layer) @ [all_head_size a])
                   context_layer) (\<lambda>reshaped_context_layer.
     ebind (weight_as_heads (num_attention_heads a) (attention_head_size a) (hidden_size a)
                            (weight (dense a))) (\<lambda>w.
     ebind (einsum_bfnd_ndh context_layer w) (\<lambda>p.
     add_bias p (bias (dense a)))))"

definition AlbertAttention_forward ::
  "'a::semiring_0 AlbertAttention \<Rightarrow> 'a tensor \<Rightarrow> 'a tensor option \<Rightarrow> 'a tensor option
     \<Rightarrow> error + 'a tensor list" where
  "AlbertAttention_forward a input_ids attention_mask head_mask =
     ebind (attend a input_ids attention_mask head_mask) (\<lambda>(context_layer, attention_probs).
     ebind (project_context a context_layer) (\<lambda>projected_context_layer.
     ebind (t_add input_ids (att_dropout a projected_context_layer)) (\<lambda>s.
     Inr ([att_LayerNorm a s] @ (if att_output_attentions a then [attention_probs] else [])))))"

subsection \<open>\<open>AlbertLayer\<close>\<close>

record 'a AlbertLayer =
  full_layer_layer_norm :: "'a tensor \<Rightarrow> 'a tensor"
  attention :: "'a AlbertAttention"
  ffn :: "'a Linear"
  ffn_output :: "'a Linear"
  activation :: "'a tensor \<Rightarrow> 'a tensor"

definition AlbertLayer_forward ::
  "'a::semiring_0 AlbertLayer \<Rightarrow> 'a tensor \<Rightarrow> 'a tensor option \<Rightarrow> 'a tensor option
     \<Rightarrow> error + 'a tensor list" where
  "AlbertLayer_forward l hidden_states attention_mask head_mask =
     ebind (AlbertAttention_forward (attention l) hidden_states attention_mask head_mask)
       (\<lambda>attention_output.
     ebind (py_index attention_output 0) (\<lambda>a0.
     ebind (Linear_forward (ffn l) a0) (\<lambda>x.
     ebind (Linear_forward (ffn_output l) (activation l x)) (\<lambda>y.
     ebind (t_add y a0) (\<lambda>s.
     Inr ([full_layer_layer_norm l s] @ tl attention_output))))))"

subsection \<open>\<open>AlbertLayerGroup\<close>\<close>

record 'a AlbertLayerGroup =
  lg_output_attentions :: bool
  lg_output_hidden_states :: bool
  albert_layers :: "'a AlbertLayer list"

text \<open>
  \<open>mk\<close> gives the freshly created layer for each position: every call of
  \<^verbatim>\<open>AlbertLayer(config)\<close> makes a module with parameters of its own.
\<close>

definition AlbertLayerGroup_init :: "AlbertConfig \<Rightarrow> (nat \<Rightarrow> 'a AlbertLayer) \<Rightarrow> 'a AlbertLayerGroup" where
  "AlbertLayerGroup_init config mk =
     \<lparr> lg_output_attentions = output_attentions config,
       lg_output_hidden_states = output_hidden_states config,
       albert_layers = map mk [0 ..< nat (inner_group_num config)] \<rparr>"

text \<open>
  The loop of \<^verbatim>\<open>AlbertLayerGroup.forward\<close> over \<^verbatim>\<open>enumerate(self.albert_layers)\<close>; the state
  is \<open>(hidden_states, layer_attentions, layer_hidden_states)\<close>.
\<close>

fun group_loop ::
  "'a::semiring_0 AlbertLayerGroup \<Rightarrow> 'a tensor option \<Rightarrow> 'a hmask \<Rightarrow> (nat \<times> 'a AlbertLayer) list
     \<Rightarrow> 'a tensor \<times> 'a tensor list \<times> 'a tensor list
     \<Rightarrow> error + ('a tensor \<times> 'a tensor list \<times> 'a tensor list)" where
  "group_loop g attention_mask head_mask [] st = Inr st"
| "group_loop g attention_mask head_mask ((layer_index, albert_layer) # rest)
       (hidden_states, layer_attentions, layer_hidden_states) =
     ebind (hm_index head_mask (int layer_index)) (\<lambda>hm.
     ebind (AlbertLayer_forward albert_layer hidden_states attention_mask hm) (\<lambda>layer_output.
     ebind (py_index layer_output 0) (\<lambda>hidden_states.
     ebind (if lg_output_attentions g
            then map_sum id (\<lambda>a. layer_attentions @ [a]) (py_index layer_output 1)
            else Inr layer_attentions) (\<lambda>layer_attentions.
     group_loop g attention_mask head_mask rest
       (hidden_states, layer_attentions,
        if lg_output_hidden_states g then layer_hidden_states @ [hidden_states]
        else layer_hidden_states)))))"

definition AlbertLayerGroup_forward ::
  "'a::semiring_0 AlbertLayerGroup \<Rightarrow> 'a tensor \<Rightarrow> 'a tensor option \<Rightarrow> 'a hmask
     \<Rightarrow> error + 'a pyval list" where
  "AlbertLayerGroup_forward g hidden_states attention_mask head_mask =
     ebind (group_loop g attention_mask head_mask (enumerate 0 (albert_layers g))
              (hidden_states, [], []))
       (\<lambda>(hidden_states, layer_attentions, layer_hidden_states).
     Inr ([Ten hidden_states]
          @ (if lg_output_hidden_states g then [Tup (map Ten layer_hidden_states)] else [])
          @ (if lg_output_attentions g then [Tup (map Ten layer_attentions)] else [])))"

subsection \<open>\<open>AlbertTransformer\<close>\<close>

record 'a AlbertTransformer =
  tr_config :: AlbertConfig
  tr_output_attentions :: bool
  tr_output_hidden_states :: bool
  embedding_hidden_mapping_in :: "'a Linear"
  albert_layer_groups :: "'a AlbertLayerGroup list"

text \<open>
  \<open>mk g j\<close> is the layer created at position \<open>j\<close> of group \<open>g\<close>. There is one group for each
  element of \<^verbatim>\<open>range(config.num_hidden_groups)\<close>.
\<close>

definition AlbertTransformer_init ::
  "AlbertConfig \<Rightarrow> 'a Linear \<Rightarrow> (nat \<Rightarrow> nat \<Rightarrow> 'a AlbertLayer) \<Rightarrow> 'a AlbertTransformer" where
  "AlbertTransformer_init config mapping_in mk =
     \<lparr> tr_config = config,
       tr_output_attentions = output_attentions config,
       tr_output_hidden_states = output_hidden_states config,
       embedding_hidden_mapping_in = mapping_in,
       albert_layer_groups =
         map (\<lambda>g. AlbertLayerGroup_init config (mk g)) [0 ..< nat (num_hidden_groups config)] \<rparr>"

text \<open>
  \<^verbatim>\<open>int(self.config.num_hidden_layers / self.config.num_hidden_groups)\<close> and
  \<^verbatim>\<open>int(i / (self.config.num_hidden_layers / self.config.num_hidden_groups))\<close>.
\<close>

definition layers_per_group_of :: "AlbertConfig \<Rightarrow> error + int" where
  "layers_per_group_of config =
     ebind (py_int_truediv (num_hidden_layers config) (num_hidden_groups config)) py_int_of_float"

definition group_idx_of :: "AlbertConfig \<Rightarrow> int \<Rightarrow> error + int" where
  "group_idx_of config i =
     ebind (py_int_truediv (num_hidden_layers config) (num_hidden_groups config)) (\<lambda>q.
     ebind (py_int_float_truediv i q) py_int_of_float)"

text \<open>
  The body of the loop \<^verbatim>\<open>for i in range(self.config.num_hidden_layers)\<close>; the state is
  \<open>(hidden_states, all_attentions, all_hidden_states)\<close>. \<open>apply_group\<close> is the part of
  the body after the indices have been computed: the module is looked up before its
  arguments are evaluated, it is called on the slice of the head mask, and the state is
  updated from its output.
\<close>

definition apply_group ::
  "'a::semiring_0 AlbertTransformer \<Rightarrow> 'a tensor option \<Rightarrow> 'a hmask \<Rightarrow> int \<Rightarrow> int
     \<Rightarrow> 'a tensor \<times> 'a pyval list \<times> 'a pyval list
     \<Rightarrow> error + ('a tensor \<times> 'a pyval list \<times> 'a pyval list)" where
  "apply_group t attention_mask head_mask layers_per_group group_idx st =
     (case st of (hidden_states, all_attentions, all_hidden_states) \<Rightarrow>
     ebind (py_index (albert_layer_groups t) group_idx) (\<lambda>group.
     ebind (hm_slice head_mask (group_idx * layers_per_group) ((group_idx + 1) * layers_per_group))
       (\<lambda>hm.
     ebind (AlbertLayerGroup_forward group hidden_states attention_mask hm) (\<lambda>layer_group_output.
     ebind (py_index layer_group_output 0) (\<lambda>h.
     case h of
       Tup _ \<Rightarrow> Inl TypeError
     | Ten hidden_states \<Rightarrow>
     ebind (if tr_output_attentions t
            then ebind (py_index layer_group_output (- 1)) (\<lambda>last_output.
                   case last_output of
                     Tup atts \<Rightarrow> Inr (all_attentions @ atts)
                   | Ten _ \<Rightarrow> Inl TypeError)
            else Inr all_attentions) (\<lambda>all_attentions.
     Inr (hidden_states, all_attentions,
          if tr_output_hidden_states t then all_hidden_states @ [Ten hidden_states]
          else all_hidden_states)))))))"

text \<open>The whole body: \<open>layer_idx\<close> is computed and not used.\<close>

definition transformer_step ::
  "'a::semiring_0 AlbertTransformer \<Rightarrow> 'a tensor option \<Rightarrow> 'a hmask \<Rightarrow> int
     \<Rightarrow> 'a tensor \<times> 'a pyval list \<times> 'a pyval list
     \<Rightarrow> error + ('a tensor \<times> 'a pyval list \<times> 'a pyval list)" where
  "transformer_step t attention_mask head_mask i st =
     ebind (layers_per_group_of (tr_config t)) (\<lambda>layers_per_group.
     ebind (group_idx_of (tr_config t) i) (\<lambda>group_idx.
     let layer_idx = i - group_idx * layers_per_group in
     apply_group t attention_mask head_mask layers_per_group group_idx st))"

fun transformer_loop ::
  "'a::semiring_0 AlbertTransformer \<Rightarrow> 'a tensor option \<Rightarrow> 'a hmask \<Rightarrow> int list
     \<Rightarrow> 'a tensor \<times> 'a pyval list \<times> 'a pyval list
     \<Rightarrow> error + ('a tensor \<times> 'a pyval list \<times> 'a pyval list)" where
  "transformer_loop t attention_mask head_mask [] st = Inr st"
| "transformer_loop t attention_mask head_mask (i # rest) st =
     ebind (transformer_step t attention_mask head_mask i st)
           (transformer_loop t attention_mask head_mask rest)"

text \<open>\<^verbatim>\<open>range(n)\<close> for an int \<open>n\<close>: empty when \<open>n \<le> 0\<close>.\<close>

definition py_range :: "int \<Rightarrow> int list" where
  "py_range n = map int [0 ..< nat n]"

definition AlbertTransformer_forward ::
  "'a::semiring_0 AlbertTransformer \<Rightarrow> 'a tensor \<Rightarrow> 'a tensor option \<Rightarrow> 'a hmask
     \<Rightarrow> error + 'a pyval list" where
  "AlbertTransformer_forward t hidden_states attention_mask head_mask =
     ebind (Linear_forward (embedding_hidden_mapping_in t) hidden_states) (\<lambda>hidden_states.
     ebind (transformer_loop t attention_mask head_mask
              (py_range (num_hidden_layers (tr_config t)))
              (hidden_states, [], if tr_output_hidden_states t then [Ten hidden_states] else []))
       (\<lambda>(hidden_states, all_attentions, all_hidden_states).
     Inr ([Ten hidden_states]
          @ (if tr_output_hidden_states t then [Tup all_hidden_states] else [])
          @ (if tr_output_attentions t then [Tup all_attentions] else []))))"


subsection \<open>The run of the encoder as a sequence of group applications\<close>

text \<open>
  \<open>apply_groups\<close> applies the group modules at the given indices one after the other,
  with a given number of layers per group: the words "iteration \<open>i\<close> uses the group
  module with index \<open>gs ! i\<close>" as a function.
\<close>

fun apply_groups ::
  "'a::semiring_0 AlbertTransformer \<Rightarrow> 'a tensor option \<Rightarrow> 'a hmask \<Rightarrow> int \<Rightarrow> int list
     \<Rightarrow> 'a tensor \<times> 'a pyval list \<times> 'a pyval list
     \<Rightarrow> error + ('a tensor \<times> 'a pyval list \<times> 'a pyval list)" where
  "apply_groups t attention_mask head_mask layers_per_group [] st = Inr st"
| "apply_groups t attention_mask head_mask layers_per_group (g # gs) st =
     ebind (apply_group t attention_mask head_mask layers_per_group g st)
           (apply_groups t attention_mask head_mask layers_per_group gs)"

text \<open>The output tuple of \<^verbatim>\<open>AlbertTransformer.forward\<close> for a final state of the loop.\<close>

definition transformer_outputs ::
  "'a AlbertTransformer \<Rightarrow> 'a tensor \<times> 'a pyval list \<times> 'a pyval list \<Rightarrow> 'a pyval list" where
  "transformer_outputs t st =
     (case st of (hidden_states, all_attentions, all_hidden_states) \<Rightarrow>
        [Ten hidden_states]
        @ (if tr_output_hidden_states t then [Tup all_hidden_states] else [])
        @ (if tr_output_attentions t then [Tup all_attentions] else []))"

section \<open>\<open>AlbertModel\<close>\<close>

text \<open>The keyword arguments shared by the forward passes of the models; \<open>None\<close> is the default.\<close>

record 'a inputs =
  in_input_ids :: "int tensor option"
  in_attention_mask :: "'a tensor option"
  in_token_type_ids :: "int tensor option"
  in_position_ids :: "int tensor option"
  in_head_mask :: "'a tensor option"
  in_inputs_embeds :: "'a tensor option"

text \<open>
  \<open>embeddings\<close> stands for the forward pass of \<^verbatim>\<open>AlbertEmbeddings\<close>, inherited from
  \<^verbatim>\<open>BertEmbeddings\<close>, with the arguments \<open>input_ids\<close>, \<open>position_ids\<close>, \<open>token_type_ids\<close> and
  \<open>inputs_embeds\<close>; \<open>pooler_activation\<close> is \<^verbatim>\<open>nn.Tanh()\<close>.
\<close>

record 'a AlbertModel =
  am_config :: AlbertConfig
  embeddings :: "int tensor option \<Rightarrow> int tensor option \<Rightarrow> int tensor \<Rightarrow> 'a tensor option
                   \<Rightarrow> error + 'a tensor"
  encoder :: "'a AlbertTransformer"
  pooler :: "'a Linear"
  pooler_activation :: "'a tensor \<Rightarrow> 'a tensor"

text \<open>
  \<^verbatim>\<open>t.expand(n, -1, -1, -1, -1)\<close> on a tensor whose first dimension has size one: \<open>-1\<close>
  keeps the size.
\<close>

definition expand_first :: "int \<Rightarrow> 'a tensor \<Rightarrow> error + 'a tensor" where
  "expand_first n t =
     (case shape t of
        d # ds \<Rightarrow>
          if n = - 1 then Inr t
          else if n < 0 \<or> d \<noteq> 1 then Inl RuntimeError
          else Inr \<lparr> shape = nat n # ds, elems = concat (replicate (nat n) (elems t)) \<rparr>
      | [] \<Rightarrow> Inl RuntimeError)"

text \<open>The treatment of the \<open>head_mask\<close> argument.\<close>

definition prepare_head_mask :: "AlbertConfig \<Rightarrow> 'a tensor option \<Rightarrow> error + 'a hmask" where
  "prepare_head_mask config head_mask =
     (case head_mask of
        Some hm \<Rightarrow>
          if length (shape hm) = 1 then
            ebind (unsqueeze 0 hm) (\<lambda>hm.
            ebind (unsqueeze 0 hm) (\<lambda>hm.
            ebind (unsqueeze (- 1) hm) (\<lambda>hm.
            ebind (unsqueeze (- 1) hm) (\<lambda>hm.
            ebind (expand_first (num_hidden_layers config) hm) (\<lambda>hm.
            Inr (HMTensor hm))))))
          else if length (shape hm) = 2 then
            ebind (unsqueeze 1 hm) (\<lambda>hm.
            ebind (unsqueeze (- 1) hm) (\<lambda>hm.
            ebind (unsqueeze (- 1) hm) (\<lambda>hm.
            Inr (HMTensor hm))))
          else Inr (HMTensor hm)
      | None \<Rightarrow> Inr (HMList (replicate (nat (num_hidden_layers config)) None)))"

definition AlbertModel_forward ::
  "'a::ring_1 AlbertModel \<Rightarrow> 'a inputs \<Rightarrow> error + 'a pyval list" where
  "AlbertModel_forward m inp =
     ebind (if in_input_ids inp \<noteq> None \<and> in_inputs_embeds inp \<noteq> None then
              Inl (ValueError ''You cannot specify both input_ids and inputs_embeds at the same time'')
            else (case in_input_ids inp of
                    Some input_ids \<Rightarrow> Inr (shape input_ids)
                  | None \<Rightarrow>
                      (case in_inputs_embeds inp of
                         Some inputs_embeds \<Rightarrow> Inr (butlast (shape inputs_embeds))
                       | None \<Rightarrow>
                           Inl (ValueError ''You have to specify either input_ids or inputs_embeds''))))
       (\<lambda>input_shape.
     let attention_mask = (case in_attention_mask inp of
                             None \<Rightarrow> t_full input_shape 1
                           | Some am \<Rightarrow> am);
         token_type_ids = (case in_token_type_ids inp of
                             None \<Rightarrow> t_full input_shape 0
                           | Some tt \<Rightarrow> tt)
     in
     ebind (unsqueeze 1 attention_mask) (\<lambda>extended_attention_mask.
     ebind (unsqueeze 2 extended_attention_mask) (\<lambda>extended_attention_mask.
     let extended_attention_mask = t_map (\<lambda>x. (1 - x) * (- 10000)) extended_attention_mask in
     ebind (prepare_head_mask (am_config m) (in_head_mask inp)) (\<lambda>head_mask.
     ebind (embeddings m (in_input_ids inp) (in_position_ids inp) token_type_ids
                         (in_inputs_embeds inp)) (\<lambda>embedding_output.
     ebind (AlbertTransformer_forward (encoder m) embedding_output
              (Some extended_attention_mask) head_mask) (\<lambda>encoder_outputs.
     ebind (py_index encoder_outputs 0) (\<lambda>s.
     case s of
       Tup _ \<Rightarrow> Inl TypeError
     | Ten sequence_output \<Rightarrow>
     ebind (select_first sequence_output) (\<lambda>first_token.
     ebind (Linear_forward (pooler m) first_token) (\<lambda>p.
     let pooled_output = pooler_activation m p in
     Inr ([Ten sequence_output, Ten pooled_output] @ tl encoder_outputs))))))))))"

section \<open>Task heads\<close>

text \<open>
  The loss modules of the framework: \<open>CrossEntropyLoss ignore_index input target\<close> and
  \<open>MSELoss input target\<close>, both with the default reduction. The default \<open>ignore_index\<close>
  of \<^verbatim>\<open>CrossEntropyLoss()\<close> is \<open>-100\<close>.
\<close>

record ('a, 'l) loss_functions =
  CrossEntropyLoss :: "int \<Rightarrow> 'a tensor \<Rightarrow> 'l tensor \<Rightarrow> error + 'a tensor"
  MSELoss :: "'a tensor \<Rightarrow> 'l tensor \<Rightarrow> error + 'a tensor"

subsection \<open>\<open>AlbertForSequenceClassification\<close>\<close>

record 'a AlbertForSequenceClassification =
  sc_num_labels :: nat
  sc_albert :: "'a AlbertModel"
  sc_dropout :: "'a tensor \<Rightarrow> 'a tensor"
  classifier :: "'a Linear"

definition AlbertForSequenceClassification_forward ::
  "('a::ring_1, 'l) loss_functions \<Rightarrow> 'a AlbertForSequenceClassification \<Rightarrow> 'a inputs
     \<Rightarrow> 'l tensor option \<Rightarrow> error + 'a pyval list" where
  "AlbertForSequenceClassification_forward nn m inp labels =
     ebind (AlbertModel_forward (sc_albert m) inp) (\<lambda>outputs.
     ebind (py_index outputs 1) (\<lambda>p.
     case p of
       Tup _ \<Rightarrow> Inl TypeError
     | Ten pooled_output \<Rightarrow>
     let pooled_output = sc_dropout m pooled_output in
     ebind (Linear_forward (classifier m) pooled_output) (\<lambda>logits.
     let outputs = [Ten logits] @ drop 2 outputs in
     case labels of
       None \<Rightarrow> Inr outputs
     | Some labels \<Rightarrow>
         ebind (if sc_num_labels m = 1
                then MSELoss nn (view_flat logits) (view_flat labels)
                else ebind (view_rows (sc_num_labels m) logits) (\<lambda>l.
                       CrossEntropyLoss nn (- 100) l (view_flat labels))) (\<lambda>loss.
         Inr ([Ten loss] @ outputs)))))"

subsection \<open>\<open>AlbertForQuestionAnswering\<close>\<close>

text \<open>
  The label tensors are passed by reference and clamped in place, so they are modelled as
  views onto a store of integers: a view lists the addresses of its elements in row-major
  order and has a shape. Two views can share addresses.
\<close>

record tref =
  cells :: "nat list"
  ref_shape :: "nat list"

definition t_read :: "(nat \<Rightarrow> 'l) \<Rightarrow> tref \<Rightarrow> 'l tensor" where
  "t_read st r = \<lparr> shape = ref_shape r, elems = map st (cells r) \<rparr>"

text \<open>\<^verbatim>\<open>r.squeeze(-1)\<close> returns a new view onto the same elements.\<close>

definition ref_squeeze_last :: "tref \<Rightarrow> tref" where
  "ref_squeeze_last r =
     (if ref_shape r \<noteq> [] \<and> last (ref_shape r) = 1 then r\<lparr> ref_shape := butlast (ref_shape r) \<rparr>
      else r)"

text \<open>\<^verbatim>\<open>r.clamp_(lo, hi)\<close> overwrites the elements of the view.\<close>

definition clamp_inplace :: "int \<Rightarrow> int \<Rightarrow> tref \<Rightarrow> (nat \<Rightarrow> int) \<Rightarrow> (nat \<Rightarrow> int)" where
  "clamp_inplace lo hi r st = (\<lambda>a. if a \<in> set (cells r) then min (max (st a) lo) hi else st a)"

record 'a AlbertForQuestionAnswering =
  qa_num_labels :: nat
  qa_albert :: "'a AlbertModel"
  qa_outputs :: "'a Linear"

text \<open>
  The part of the forward pass before the labels are looked at: the two logit tensors and
  the output tuple. Unpacking the result of \<^verbatim>\<open>split\<close> into two names raises ValueError
  unless there are exactly two chunks.
\<close>

definition qa_logits ::
  "'a::ring_1 AlbertForQuestionAnswering \<Rightarrow> 'a inputs
     \<Rightarrow> error + ('a tensor \<times> 'a tensor \<times> 'a pyval list)" where
  "qa_logits m inp =
     ebind (AlbertModel_forward (qa_albert m) inp) (\<lambda>outputs.
     ebind (py_index outputs 0) (\<lambda>s.
     case s of
       Tup _ \<Rightarrow> Inl TypeError
     | Ten sequence_output \<Rightarrow>
     ebind (Linear_forward (qa_outputs m) sequence_output) (\<lambda>logits.
     ebind (split1_last logits) (\<lambda>chunks.
     case chunks of
       [start_logits, end_logits] \<Rightarrow>
         (let start_logits = squeeze_last start_logits;
              end_logits = squeeze_last end_logits
          in Inr (start_logits, end_logits,
                  [Ten start_logits, Ten end_logits] @ drop 2 outputs))
     | _ \<Rightarrow> Inl (ValueError ''unpack'')))))"

text \<open>
  The forward pass takes the store and returns the store it leaves behind together with
  its result; an exception raised after the clamping leaves the clamped store.
\<close>

definition AlbertForQuestionAnswering_forward ::
  "('a::field, int) loss_functions \<Rightarrow> 'a AlbertForQuestionAnswering \<Rightarrow> 'a inputs
     \<Rightarrow> tref option \<Rightarrow> tref option \<Rightarrow> (nat \<Rightarrow> int)
     \<Rightarrow> (nat \<Rightarrow> int) \<times> (error + 'a pyval list)" where
  "AlbertForQuestionAnswering_forward nn m inp start_positions end_positions st =
     (case qa_logits m inp of
        Inl e \<Rightarrow> (st, Inl e)
      | Inr (start_logits, end_logits, outputs) \<Rightarrow>
          (case (start_positions, end_positions) of
             (Some start_positions, Some end_positions) \<Rightarrow>
               (let start_positions = (if length (ref_shape start_positions) > 1
                                       then ref_squeeze_last start_positions else start_positions);
                    end_positions = (if length (ref_shape end_positions) > 1
                                     then ref_squeeze_last end_positions else end_positions)
                in case t_size start_logits 1 of
                     Inl e \<Rightarrow> (st, Inl e)
                   | Inr ignored_index \<Rightarrow>
                       (let st = clamp_inplace 0 (int ignored_index) start_positions st;
                            st = clamp_inplace 0 (int ignored_index) end_positions st
                        in (st,
                            ebind (CrossEntropyLoss nn (int ignored_index) start_logits
                                     (t_read st start_positions)) (\<lambda>start_loss.
                            ebind (CrossEntropyLoss nn (int ignored_index) end_logits
                                     (t_read st end_positions)) (\<lambda>end_loss.
                            ebind (t_add start_loss end_loss) (\<lambda>s.
                            let total_loss = t_map (\<lambda>x. x / 2) s in
                            Inr ([Ten total_loss] @ outputs)))))))
           | _ \<Rightarrow> (st, Inr outputs)))"

section \<open>Auxiliary notions for the statements\<close>

text \<open>
  The input shape that \<^verbatim>\<open>AlbertModel.forward\<close> derives when exactly one of \<open>input_ids\<close> and
  \<open>inputs_embeds\<close> is given.
\<close>

definition input_shape_of :: "'a inputs \<Rightarrow> nat list option" where
  "input_shape_of inp =
     (case (in_input_ids inp, in_inputs_embeds inp) of
        (Some input_ids, None) \<Rightarrow> Some (shape input_ids)
      | (None, Some inputs_embeds) \<Rightarrow> Some (butlast (shape inputs_embeds))
      | _ \<Rightarrow> None)"

text \<open>The view of a label tensor that the question-answering head clamps and reads.\<close>

definition label_view :: "tref \<Rightarrow> tref" where
  "label_view r = (if length (ref_shape r) > 1 then ref_squeeze_last r else r)"

text \<open>
  The entries of a head mask along its first dimension, which indexing hands to the
  layers, and a head mask that has an entry for each of \<open>L\<close> layers.
\<close>

definition head_mask_entries :: "'a hmask \<Rightarrow> 'a tensor option list" where
  "head_mask_entries hm =
     (case hm of HMNone \<Rightarrow> [] | HMList xs \<Rightarrow> xs | HMTensor t \<Rightarrow> map Some (t_rows t))"

definition head_mask_covers :: "'a hmask \<Rightarrow> int \<Rightarrow> bool" where
  "head_mask_covers hm L =
     (case hm of
        HMNone \<Rightarrow> False
      | HMList xs \<Rightarrow> L \<le> int (length xs)
      | HMTensor t \<Rightarrow> wf_tensor t \<and> shape t \<noteq> [] \<and> L \<le> int (hd (shape t)))"

text \<open>
  The layers that the encoder creates return on what this call hands them: layer \<open>j\<close> of
  group \<open>g\<close> is called with the attention mask of the call and with entry
  \<open>g * (L div G) + j\<close> of the head mask. On these, and on every hidden state that satisfies
  \<open>P\<close> (a shape, say), it returns a tuple whose first component satisfies \<open>P\<close> again; and it
  has been created to output its attention probabilities when the configuration asks for
  them. Nothing is said of other masks.
\<close>

definition layers_return ::
  "AlbertConfig \<Rightarrow> (nat \<Rightarrow> nat \<Rightarrow> 'a::semiring_0 AlbertLayer) \<Rightarrow> 'a tensor option
     \<Rightarrow> 'a tensor option list \<Rightarrow> ('a tensor \<Rightarrow> bool) \<Rightarrow> bool" where
  "layers_return config mk attention_mask masks P =
     (\<forall>g < nat (num_hidden_groups config). \<forall>j < nat (inner_group_num config).
        (output_attentions config \<longrightarrow> att_output_attentions (attention (mk g j)))
      \<and> (\<forall>x. P x \<longrightarrow>
            (\<exists>out. AlbertLayer_forward (mk g j) x attention_mask
                       (masks ! (g * nat (num_hidden_layers config div num_hidden_groups config) + j))
                     = Inr out
                 \<and> P (out ! 0))))"
section \<open>A small concrete model\<close>

text \<open>
  A model with hidden size one, one attention head, four hidden layers in two groups of
  one layer each, over the rationals. Its attention context is the input itself, the
  normalisations, dropouts and activations are the identity, and the feed-forward layer
  of group \<open>g\<close> adds \<open>g + 1\<close>: a layer of group \<open>g\<close> maps a hidden state \<open>x\<close> to
  \<open>4 * x + g + 1\<close>, so that the output shows which groups have been applied.
\<close>

definition demo_linear :: "rat \<Rightarrow> rat Linear" where
  "demo_linear c = \<lparr> weight = \<lparr> shape = [1, 1], elems = [1] \<rparr>,
                     bias = \<lparr> shape = [1], elems = [c] \<rparr> \<rparr>"

definition demo_attention :: "rat AlbertAttention" where
  "demo_attention =
     \<lparr> att_output_attentions = False,
       num_attention_heads = 1,
       attention_head_size = 1,
       hidden_size = 1,
       all_head_size = 1,
       attend = (\<lambda>x am hm. Inr (x\<lparr> shape := shape x @ [1] \<rparr>, x)),
       dense = demo_linear 0,
       att_dropout = (\<lambda>x. x),
       att_LayerNorm = (\<lambda>x. x) \<rparr>"

definition demo_layer :: "rat \<Rightarrow> rat AlbertLayer" where
  "demo_layer c =
     \<lparr> full_layer_layer_norm = (\<lambda>x. x),
       attention = demo_attention,
       ffn = demo_linear c,
       ffn_output = demo_linear 0,
       activation = (\<lambda>x. x) \<rparr>"

definition demo_mk :: "nat \<Rightarrow> nat \<Rightarrow> rat AlbertLayer" where
  "demo_mk g j = demo_layer (of_nat g + 1)"

definition demo_config :: AlbertConfig where
  "demo_config =
     \<lparr> num_hidden_layers = 4, num_hidden_groups = 2, inner_group_num = 1,
       output_attentions = False, output_hidden_states = False, num_labels = 2 \<rparr>"

definition demo_transformer :: "rat AlbertTransformer" where
  "demo_transformer = AlbertTransformer_init demo_config (demo_linear 0) demo_mk"

definition demo_embeddings ::
  "int tensor option \<Rightarrow> int tensor option \<Rightarrow> int tensor \<Rightarrow> rat tensor option \<Rightarrow> error + rat tensor" where
  "demo_embeddings input_ids position_ids token_type_ids inputs_embeds =
     (case input_ids of
        Some t \<Rightarrow> Inr \<lparr> shape = shape t @ [1], elems = map of_int (elems t) \<rparr>
      | None \<Rightarrow> (case inputs_embeds of Some e \<Rightarrow> Inr e | None \<Rightarrow> Inl TypeError))"

definition demo_model :: "rat AlbertModel" where
  "demo_model =
     \<lparr> am_config = demo_config, embeddings = demo_embeddings, encoder = demo_transformer,
       pooler = demo_linear 0, pooler_activation = (\<lambda>x. x) \<rparr>"

definition demo_head :: "rat Linear" where
  "demo_head = \<lparr> weight = \<lparr> shape = [2, 1], elems = [1, 2] \<rparr>,
                  bias = \<lparr> shape = [2], elems = [0, 0] \<rparr> \<rparr>"

definition demo_qa :: "rat AlbertForQuestionAnswering" where
  "demo_qa = \<lparr> qa_num_labels = 2, qa_albert = demo_model, qa_outputs = demo_head \<rparr>"

definition demo_sc :: "rat AlbertForSequenceClassification" where
  "demo_sc = \<lparr> sc_num_labels = 2, sc_albert = demo_model, sc_dropout = (\<lambda>x. x),
                classifier = demo_head \<rparr>"

text \<open>
  Stand-ins for the loss modules: the "cross-entropy" is the sum of the input plus the
  sum of the targets that differ from \<open>ignore_index\<close>, the "mean-squared error" is the sum
  of the input minus the sum of the targets.
\<close>

definition demo_losses :: "(rat, int) loss_functions" where
  "demo_losses =
     \<lparr> CrossEntropyLoss = (\<lambda>ignore_index x y.
         Inr \<lparr> shape = [],
               elems = [sum_list (elems x)
                        + of_int (sum_list (filter (\<lambda>t. t \<noteq> ignore_index) (elems y)))] \<rparr>),
       MSELoss = (\<lambda>x y.
         Inr \<lparr> shape = [], elems = [sum_list (elems x) - of_int (sum_list (elems y))] \<rparr>) \<rparr>"

definition demo_inputs :: "rat inputs" where
  "demo_inputs =
     \<lparr> in_input_ids = Some \<lparr> shape = [1, 2], elems = [1, 2] \<rparr>,
       in_attention_mask = None, in_token_type_ids = None, in_position_ids = None,
       in_head_mask = None, in_inputs_embeds = None \<rparr>"

text \<open>
  Two label tensors in a store: the start positions have shape \<open>(1, 1)\<close> and hold 5, the
  end positions have shape \<open>(1)\<close> and hold -3; every other cell holds 7.
\<close>

definition demo_store :: "nat \<Rightarrow> int" where
  "demo_store = (\<lambda>a. 7)(0 := 5, 1 := - 3)"

definition demo_start :: tref where
  "demo_start = \<lparr> cells = [0], ref_shape = [1, 1] \<rparr>"

definition demo_end :: tref where
  "demo_end = \<lparr> cells = [1], ref_shape = [1] \<rparr>"

text \<open>A regression head on the same model: one label.\<close>

definition demo_sc1 :: "rat AlbertForSequenceClassification" where
  "demo_sc1 = \<lparr> sc_num_labels = 1, sc_albert = demo_model, sc_dropout = (\<lambda>x. x),
                 classifier = demo_linear 0 \<rparr>"

text \<open>
  An attention module with two heads of size one over the integers, for the output
  projection.
\<close>

definition demo_projection :: "int AlbertAttention" where
  "demo_projection =
     \<lparr> att_output_attentions = False,
       num_attention_heads = 2,
       attention_head_size = 1,
       hidden_size = 2,
       all_head_size = 2,
       attend = (\<lambda>x am hm. Inr (x\<lparr> shape := butlast (shape x) @ [2, 1] \<rparr>, x)),
       dense = \<lparr> weight = \<lparr> shape = [2, 2], elems = [1, 2, 3, 4] \<rparr>,
                 bias = \<lparr> shape = [2], elems = [10, 20] \<rparr> \<rparr>,
       att_dropout = (\<lambda>x. x),
       att_LayerNorm = (\<lambda>x. x) \<rparr>"

text \<open>A configuration whose number of groups does not divide its number of layers.\<close>

definition float_config :: AlbertConfig where
  "float_config = demo_config\<lparr> num_hidden_layers := 18, num_hidden_groups := 14 \<rparr>"

text \<open>
  The hidden states of the small model, and two configurations on which the forward pass
  of the encoder raises: no group at all, and more groups than layers.
\<close>

definition demo_state :: "rat tensor \<Rightarrow> bool" where
  "demo_state x = (shape x = [1, 2, 1] \<and> length (elems x) = 2)"

definition zero_groups_config :: AlbertConfig where
  "zero_groups_config = demo_config\<lparr> num_hidden_layers := 1, num_hidden_groups := 0 \<rparr>"

definition many_groups_config :: AlbertConfig where
  "many_groups_config = demo_config\<lparr> num_hidden_layers := 1, num_hidden_groups := 2 \<rparr>"


text \<open>
  A variant of the small model that shows what it is given: its attention context is the
  input plus the extended attention mask, and its embeddings are the token ids plus ten
  times the token type ids.
\<close>

definition probe_attention :: "rat AlbertAttention" where
  "probe_attention =
     demo_attention\<lparr> attend := (\<lambda>x am hm.
       case am of
         None \<Rightarrow> Inr (x\<lparr> shape := shape x @ [1] \<rparr>, x)
       | Some m \<Rightarrow>
           if length (elems m) = length (elems x)
           then Inr (\<lparr> shape = shape x @ [1], elems = map2 (+) (elems x) (elems m) \<rparr>, x)
           else Inl RuntimeError) \<rparr>"

definition probe_mk :: "nat \<Rightarrow> nat \<Rightarrow> rat AlbertLayer" where
  "probe_mk g j = (demo_mk g j)\<lparr> attention := probe_attention \<rparr>"

definition probe_embeddings ::
  "int tensor option \<Rightarrow> int tensor option \<Rightarrow> int tensor \<Rightarrow> rat tensor option \<Rightarrow> error + rat tensor" where
  "probe_embeddings input_ids position_ids token_type_ids inputs_embeds =
     (case input_ids of
        Some t \<Rightarrow>
          if shape token_type_ids = shape t \<and> length (elems token_type_ids) = length (elems t)
          then Inr \<lparr> shape = shape t @ [1],
                     elems = map2 (\<lambda>i k. of_int (i + 10 * k)) (elems t) (elems token_type_ids) \<rparr>
          else Inl RuntimeError
      | None \<Rightarrow> (case inputs_embeds of Some e \<Rightarrow> Inr e | None \<Rightarrow> Inl TypeError))"

definition probe_model :: "rat AlbertModel" where
  "probe_model =
     demo_model\<lparr> embeddings := probe_embeddings,
                 encoder := AlbertTransformer_init demo_config (demo_linear 0) probe_mk \<rparr>"
section \<open>Properties of the checkpoint loader\<close>

text \<open>
  Claim C2. The name that the loader derives from a TensorFlow variable name is the result
  of the listed literal substitutions, applied in the listed order, followed by the
  \<^verbatim>\<open>classifier/\<close> prefix when the result is one slash-separated component containing
  \<^verbatim>\<open>output_bias\<close> or \<^verbatim>\<open>output_weights\<close>. It is a function of the input name alone.
\<close>

theorem remap_name_refines_spec: "remap_name name = spec_remap name"
  by (simp add: remap_name_def spec_remap_def name_substitutions_def Let_def)

theorem remap_name_refines_spec_witness:
  "spec_remap ''bert/pooler/dense/kernel'' = ''albert/pooler/kernel''"
  using remap_name_refines_spec [of "''bert/pooler/dense/kernel''"]
  by (simp add: remap_name_def)

lemma load_variable_skipped: "skipped (fst v) \<Longrightarrow> load_variable h model v = Inr h"
  by (auto simp: skipped_def load_variable_def Let_def)

lemma load_filter:
  "load_tf_weights_in_albert h model vs =
   load_tf_weights_in_albert h model (filter (\<lambda>v. \<not> skipped (fst v)) vs)"
proof (induction vs arbitrary: h)
  case Nil
  show ?case by simp
next
  case (Cons v vs)
  show ?case
  proof (cases "skipped (fst v)")
    case True
    then show ?thesis using Cons.IH by (simp add: load_variable_skipped)
  next
    case False
    then show ?thesis using Cons.IH by (simp split: sum.splits)
  qed
qed

lemma demo_path:
  "py_split CHR ''/'' (remap_name ''bert/pooler/dense/kernel'') = [''albert'', ''pooler'', ''kernel'']"
  by (simp add: remap_name_def)

lemma demo_not_skipped: "\<not> skipped ''bert/pooler/dense/kernel''"
  by (simp add: skipped_def remap_name_def)

lemma demo_no_index:
  "\<not> fullmatch_name ''albert''" "\<not> fullmatch_name ''pooler''" "\<not> fullmatch_name ''kernel''"
  by (simp_all add: fullmatch_name_def is_letter_def)

lemma demo_locate:
  "locate demo_heap 0 [''albert'', ''pooler'', ''kernel''] arr = Inr (3, np_transpose arr)"
  by (simp add: locate_def demo_no_index py_getattr_def demo_heap_def empty_obj_def)

text \<open>
  Claim C3. For a variable that is not skipped and whose name resolves to the object \<open>p\<close>
  with the array \<open>a\<close> (the source array, transposed when the final component is
  \<^verbatim>\<open>kernel\<close>): when the shape of \<open>p\<close> equals the shape of \<open>a\<close> the data of \<open>p\<close> becomes \<open>a\<close>
  and nothing else changes; when the shapes differ the loader raises an AssertionError
  whose arguments are the two shapes, and the model is left as it was before this variable.
\<close>

theorem shape_guard_on_conversion:
  assumes "\<not> skipped (fst v)"
    and "locate h model (py_split CHR ''/'' (remap_name (fst v))) (snd v) = Inr (p, a)"
    and "oshape (h p) = Some s"
  shows "(last (py_split CHR ''/'' (remap_name (fst v))) = ''kernel'' \<longrightarrow> a = np_transpose (snd v))
       \<and> (s = shape a \<longrightarrow>
            load_variable h model v = Inr (h(p := (h p)\<lparr>odata := Some a\<rparr>)))
       \<and> (s \<noteq> shape a \<longrightarrow>
            load_variable h model v = Inl (AssertionError [s, shape a])
            \<and> load_tf_weights_in_albert h model (v # vs) = (h, Some (AssertionError [s, shape a])))"
proof -
  have kernel: "last (py_split CHR ''/'' (remap_name (fst v))) = ''kernel'' \<longrightarrow> a = np_transpose (snd v)"
    using assms(2) by (auto simp: locate_def Let_def split: sum.splits if_splits)
  have lv: "load_variable h model v = assign h p a"
    using assms(1,2) by (simp add: load_variable_def skipped_def Let_def)
  have as: "assign h p a = (if s = shape a then Inr (h(p := (h p)\<lparr>odata := Some a\<rparr>))
                            else Inl (AssertionError [s, shape a]))"
    using assms(3) by (simp add: assign_def)
  show ?thesis using kernel lv as by simp
qed

theorem shape_guard_on_conversion_witness:
  "load_variable demo_heap 0 (''bert/pooler/dense/kernel'', \<lparr>shape = [2, 3], elems = [1, 2, 3, 4, 5, 6]\<rparr>)
     = Inr (demo_heap (3 := (demo_heap 3)\<lparr>odata := Some \<lparr>shape = [3, 2], elems = [1, 4, 2, 5, 3, 6]\<rparr>\<rparr>))
   \<and> load_tf_weights_in_albert demo_heap 0
        [(''bert/pooler/dense/kernel'', \<lparr>shape = [3, 2], elems = [1, 2, 3, 4, 5, 6]\<rparr>)]
     = (demo_heap, Some (AssertionError [[3, 2], [2, 3]]))"
proof -
  let ?v1 = "(''bert/pooler/dense/kernel'', \<lparr>shape = [2, 3], elems = [1, 2, 3, 4, 5, 6::int]\<rparr>)"
  let ?v2 = "(''bert/pooler/dense/kernel'', \<lparr>shape = [3, 2], elems = [1, 2, 3, 4, 5, 6::int]\<rparr>)"
  have s: "oshape (demo_heap 3) = Some [3, 2]"
    by (simp add: demo_heap_def empty_obj_def)
  have t1: "np_transpose (snd ?v1) = \<lparr>shape = [3, 2], elems = [1, 4, 2, 5, 3, 6]\<rparr>"
    by (simp add: np_transpose_def numel_def upt_rec)
  have t2: "shape (np_transpose (snd ?v2)) = [2, 3]"
    by (simp add: np_transpose_def)
  have l1: "locate demo_heap 0 (py_split CHR ''/'' (remap_name (fst ?v1))) (snd ?v1)
            = Inr (3, np_transpose (snd ?v1))"
    by (simp only: fst_conv demo_path demo_locate)
  have l2: "locate demo_heap 0 (py_split CHR ''/'' (remap_name (fst ?v2))) (snd ?v2)
            = Inr (3, np_transpose (snd ?v2))"
    by (simp only: fst_conv demo_path demo_locate)
  have n1: "\<not> skipped (fst ?v1)" and n2: "\<not> skipped (fst ?v2)"
    using demo_not_skipped by simp_all
  show ?thesis
    using shape_guard_on_conversion [OF n1 l1 s, of "[]"]
          shape_guard_on_conversion [OF n2 l2 s, of "[]"]
    by (simp only: t1 t2) simp
qed

text \<open>
  Claim C4. A variable whose remapped name contains \<^verbatim>\<open>seq_relationship\<close>, or whose path has
  a component \<^verbatim>\<open>adam_m\<close>, \<^verbatim>\<open>adam_v\<close> or \<^verbatim>\<open>global_step\<close>, leaves the model as it is and the
  loop goes on with the next variable; the whole run gives the result of the run over the
  remaining variables alone.
\<close>

theorem skipped_entries_leave_model_unchanged:
  "(skipped (fst v) \<longrightarrow>
      load_variable h model v = Inr h
      \<and> load_tf_weights_in_albert h model (v # vs) = load_tf_weights_in_albert h model vs)
   \<and> load_tf_weights_in_albert h model vs =
       load_tf_weights_in_albert h model (filter (\<lambda>v. \<not> skipped (fst v)) vs)"
  using load_filter [of h model vs] by (simp add: load_variable_skipped)

lemma demo_skipped:
  "skipped ''bert/encoder/adam_m''" "skipped ''cls/seq_relationship/output_bias''"
  by (simp_all add: skipped_def remap_name_def)

theorem skipped_entries_leave_model_unchanged_witness:
  "skipped (fst (''cls/seq_relationship/output_bias'', \<lparr>shape = [2], elems = [7, 8]\<rparr>))
   \<and> load_variable demo_heap 0 (''cls/seq_relationship/output_bias'', \<lparr>shape = [2], elems = [7, 8]\<rparr>) = Inr demo_heap
   \<and> load_tf_weights_in_albert demo_heap 0
        [(''bert/encoder/adam_m'', \<lparr>shape = [2], elems = [7, 8]\<rparr>),
         (''bert/pooler/dense/kernel'', \<lparr>shape = [3, 2], elems = [1, 2, 3, 4, 5, 6]\<rparr>)]
     = load_tf_weights_in_albert demo_heap 0
        [(''bert/pooler/dense/kernel'', \<lparr>shape = [3, 2], elems = [1, 2, 3, 4, 5, 6]\<rparr>)]"
  using skipped_entries_leave_model_unchanged
          [of "(''cls/seq_relationship/output_bias'', \<lparr>shape = [2], elems = [7, 8]\<rparr>)" demo_heap 0 "[]"]
        skipped_entries_leave_model_unchanged
          [of "(''bert/encoder/adam_m'', \<lparr>shape = [2], elems = [7, 8]\<rparr>)" demo_heap 0
              "[(''bert/pooler/dense/kernel'', \<lparr>shape = [3, 2], elems = [1, 2, 3, 4, 5, 6]\<rparr>)]"]
  by (simp add: demo_skipped)

section \<open>Properties of the float model\<close>

text \<open>
  The exponent computed from the bit lengths is the binary exponent; rounding is exact on
  the integers below \<open>2 ^ 53\<close>; and the truncated rounded quotient of two such
  integers is their integer quotient.
\<close>

lemma quotient_of_pos:
  assumes "0 < x" and "quotient_of x = (a, b)"
  shows "0 < a" and "0 < b" and "x = of_int a / of_int b"
proof -
  show b: "0 < b" using assms(2) by (rule quotient_of_denom_pos)
  show x: "x = of_int a / of_int b" using assms(2) by (rule quotient_of_div)
  show "0 < a"
  proof (rule ccontr)
    assume "\<not> 0 < a"
    then have "of_int a \<le> (0::rat)" by simp
    then have "of_int a / of_int b \<le> (0::rat)" using b by (simp add: divide_nonpos_pos)
    then show False using assms(1) x by simp
  qed
qed

lemma bitlen_powi_bounds:
  assumes "0 < (a::int)"
  shows "(2::rat) powi (bitlen a - 1) \<le> of_int a" and "of_int a < (2::rat) powi (bitlen a)"
proof -
  have b: "2 ^ nat (bitlen a - 1) \<le> a \<and> a < 2 ^ nat (bitlen a)"
    using assms by (rule bitlen_bounds)
  have ge1: "1 \<le> bitlen a" using assms by (simp add: bitlen_alt_def)
  have "(of_int (2 ^ nat (bitlen a - 1)) :: rat) \<le> of_int a" using b by (simp only: of_int_le_iff)
  then show "(2::rat) powi (bitlen a - 1) \<le> of_int a"
    using ge1 by (simp add: power_int_def)
  have "(of_int a :: rat) < of_int (2 ^ nat (bitlen a))" using b by (simp only: of_int_less_iff)
  then show "of_int a < (2::rat) powi (bitlen a)"
    using ge1 by (simp add: power_int_def)
qed

lemma binary_exponent_bounds:
  assumes "0 < x"
  shows "2 powi (binary_exponent x) \<le> x" and "x < 2 powi (binary_exponent x + 1)"
proof -
  obtain a b where q: "quotient_of x = (a, b)" by (cases "quotient_of x")
  note ab = quotient_of_pos [OF assms q]
  let ?d = "bitlen a - bitlen b"
  have la: "(2::rat) powi (bitlen a - 1) \<le> of_int a" "of_int a < (2::rat) powi (bitlen a)"
    using bitlen_powi_bounds [OF ab(1)] by simp_all
  have lb: "(2::rat) powi (bitlen b - 1) \<le> of_int b" "of_int b < (2::rat) powi (bitlen b)"
    using bitlen_powi_bounds [OF ab(2)] by simp_all
  have bpos: "(0::rat) < of_int b" using ab(2) by simp
  have apos: "(0::rat) < of_int a" using ab(1) by simp
  have lo: "(2::rat) powi (?d - 1) \<le> x"
  proof -
    have "(2::rat) powi (?d - 1) = 2 powi (bitlen a - 1) / 2 powi (bitlen b)"
      by (simp add: power_int_diff)
    also have "\<dots> \<le> of_int a / 2 powi (bitlen b)"
      using la(1) by (simp add: divide_right_mono)
    also have "\<dots> \<le> of_int a / of_int b"
      using lb(2) apos bpos by (simp add: frac_le)
    finally show ?thesis using ab(3) by simp
  qed
  have hi: "x < (2::rat) powi (?d + 1)"
  proof -
    have p: "(0::rat) < 2 powi (bitlen b - 1)" by simp
    have "x = of_int a / of_int b" by (rule ab(3))
    also have "\<dots> \<le> of_int a / 2 powi (bitlen b - 1)"
      using lb(1) apos p by (simp add: frac_le)
    also have "\<dots> < 2 powi (bitlen a) / 2 powi (bitlen b - 1)"
      using la(2) p by (simp add: divide_strict_right_mono)
    also have "\<dots> = 2 powi (?d + 1)"
      by (simp add: power_int_diff power_int_add)
    finally show ?thesis .
  qed
  show "2 powi (binary_exponent x) \<le> x"
    using lo q by (simp add: binary_exponent_def Let_def)
  show "x < 2 powi (binary_exponent x + 1)"
    using hi q by (auto simp add: binary_exponent_def Let_def not_le)
qed

lemma round_half_even_of_int: "round_half_even (of_int k) = k"
  by (simp add: round_half_even_def)

lemma round_half_even_ge:
  assumes "of_int k \<le> y" shows "k \<le> round_half_even y"
proof -
  have "k \<le> \<lfloor>y\<rfloor>" using assms by (simp add: le_floor_iff)
  then show ?thesis by (simp add: round_half_even_def Let_def)
qed

lemma round_half_even_le: "of_int (round_half_even y) \<le> y + 1 / 2"
proof -
  have f: "of_int \<lfloor>y\<rfloor> \<le> y" by simp
  consider "y - of_int \<lfloor>y\<rfloor> < 1 / 2" | "1 / 2 \<le> y - of_int \<lfloor>y\<rfloor>" by linarith
  then show ?thesis
  proof cases
    case 1
    then have "round_half_even y = \<lfloor>y\<rfloor>" by (simp add: round_half_even_def Let_def)
    then show ?thesis using f by linarith
  next
    case 2
    have "round_half_even y \<le> \<lfloor>y\<rfloor> + 1" by (simp add: round_half_even_def Let_def)
    then have "(of_int (round_half_even y) :: rat) \<le> of_int (\<lfloor>y\<rfloor> + 1)" by (simp only: of_int_le_iff)
    then show ?thesis using 2 by simp
  qed
qed



lemma fl_round_pos_eq:
  assumes "0 < x"
  shows "fl_round x = of_int (round_half_even (x / 2 powi (max (binary_exponent x) (- 1022) - 52)))
                      * 2 powi (max (binary_exponent x) (- 1022) - 52)"
  using assms by (simp add: fl_round_def Let_def)

lemma two_powi_53: "(2::rat) powi 53 = 2 ^ 53"
  by simp

lemma binary_exponent_le_52:
  assumes "0 < x" and "x < 2 ^ 53"
  shows "binary_exponent x \<le> 52"
proof -
  have "(2::rat) powi (binary_exponent x) \<le> x"
    using binary_exponent_bounds(1) [OF assms(1)] .
  then have "(2::rat) powi (binary_exponent x) < 2 powi 53"
    using assms(2) by simp
  then have "binary_exponent x < 53"
    by (rule power_int_le_imp_less_exp [rotated]) simp_all
  then show ?thesis by simp
qed

lemma powi_neg_as_power:
  assumes "e \<le> 52"
  shows "(2::rat) powi (e - 52) = 1 / 2 ^ nat (52 - e)"
proof -
  have "(2::rat) powi (e - 52) = 2 powi (- (52 - e))" by simp
  also have "\<dots> = 1 / 2 powi (52 - e)" by (rule power_int_minus_divide)
  also have "\<dots> = 1 / 2 ^ nat (52 - e)" using assms by (simp add: power_int_nonneg_exp)
  finally show ?thesis .
qed

lemma fl_round_of_int_exact:
  assumes "0 \<le> n" and "n < 2 ^ 53"
  shows "fl_round (of_int n) = of_int n"
proof (cases "n = 0")
  case True
  then show ?thesis by (simp add: fl_round_def)
next
  case False
  let ?x = "of_int n :: rat"
  let ?e = "max (binary_exponent ?x) (- 1022)"
  let ?k = "nat (52 - ?e)"
  have xpos: "0 < ?x" using assms(1) False by simp
  have xlt: "?x < 2 ^ 53"
  proof -
    have "(of_int n :: rat) < of_int (2 ^ 53)" using assms(2) by (simp only: of_int_less_iff)
    then show ?thesis by simp
  qed
  have e52: "?e \<le> 52" using binary_exponent_le_52 [OF xpos xlt] by simp
  have u: "(2::rat) powi (?e - 52) = 1 / 2 ^ ?k" using e52 by (rule powi_neg_as_power)
  have "?x / (2 powi (?e - 52)) = of_int (n * 2 ^ ?k)" by (simp only: u) simp
  then have "round_half_even (?x / (2 powi (?e - 52))) = n * 2 ^ ?k"
    by (simp only: round_half_even_of_int)
  then have "fl_round ?x = of_int (n * 2 ^ ?k) * (1 / 2 ^ ?k)"
    using fl_round_pos_eq [OF xpos] u by simp
  then show ?thesis by simp
qed

lemma int_div_bounds:
  assumes "0 < (q::int)"
  shows "(of_int (i div q) :: rat) \<le> of_int i / of_int q"
    and "(of_int i :: rat) / of_int q + 1 / of_int q \<le> of_int (i div q) + 1"
proof -
  have qpos: "(0::rat) < of_int q" using assms by simp
  have eq: "i div q * q + i mod q = i" by simp
  have m0: "0 \<le> i mod q" and m1: "i mod q < q" using assms by simp_all
  have "i div q * q \<le> i" using eq m0 by linarith
  then have "(of_int (i div q * q) :: rat) \<le> of_int i" by (simp only: of_int_le_iff)
  then have "(of_int (i div q) :: rat) * of_int q \<le> of_int i" by simp
  then show "(of_int (i div q) :: rat) \<le> of_int i / of_int q"
    using qpos by (simp add: pos_le_divide_eq)
  have "i < i div q * q + q" using eq m1 by linarith
  then have "i < (i div q + 1) * q" by (simp add: distrib_right)
  then have "i + 1 \<le> (i div q + 1) * q" by simp
  then have "(of_int (i + 1) :: rat) \<le> of_int ((i div q + 1) * q)" by (simp only: of_int_le_iff)
  then have "(of_int i :: rat) + 1 \<le> (of_int (i div q) + 1) * of_int q" by simp
  then have "((of_int i :: rat) + 1) / of_int q \<le> of_int (i div q) + 1"
    using qpos by (simp add: pos_divide_le_eq)
  then show "(of_int i :: rat) / of_int q + 1 / of_int q \<le> of_int (i div q) + 1"
    by (simp add: add_divide_distrib)
qed




lemma fl_round_quotient_floor:
  assumes i: "0 \<le> i" "i < 2 ^ 53" and q: "1 \<le> q" "q < 2 ^ 53"
  shows "\<lfloor>fl_round (of_int i / of_int q)\<rfloor> = i div q"
    and "0 \<le> fl_round (of_int i / of_int q)"
    and "fl_round (of_int i / of_int q) < 2 ^ 53"
proof -
  let ?x = "of_int i / of_int q :: rat"
  let ?m = "i div q"
  have qpos: "(0::rat) < of_int q" using q(1) by simp
  have q0: "0 < q" using q(1) by simp
  have main: "of_int ?m \<le> fl_round ?x \<and> fl_round ?x < of_int ?m + 1"
  proof (cases "i = 0")
    case True
    then show ?thesis by (simp add: fl_round_def)
  next
    case False
    then have ipos: "(0::rat) < of_int i" using i(1) by simp
    have xpos: "0 < ?x" using ipos qpos by simp
    let ?e = "max (binary_exponent ?x) (- 1022)"
    let ?u = "(2::rat) powi (?e - 52)"
    let ?k = "nat (52 - ?e)"
    have ilt: "(of_int i :: rat) < 2 ^ 53"
    proof -
      have "(of_int i :: rat) < of_int (2 ^ 53)" using i(2) by (simp only: of_int_less_iff)
      then show ?thesis by simp
    qed
    have qlt: "(of_int q :: rat) < 2 ^ 53"
    proof -
      have "(of_int q :: rat) < of_int (2 ^ 53)" using q(2) by (simp only: of_int_less_iff)
      then show ?thesis by simp
    qed
    have q1: "(1::rat) \<le> of_int q" using q(1) by simp
    have xle: "?x \<le> of_int i"
      using q1 ipos by (simp add: pos_divide_le_eq mult_le_cancel_left1 less_imp_le)
    have xlt: "?x < 2 ^ 53" using xle ilt by simp
    have e52: "?e \<le> 52" using binary_exponent_le_52 [OF xpos xlt] by simp
    have u: "?u = 1 / 2 ^ ?k" using e52 by (rule powi_neg_as_power)
    have upos: "0 < ?u" by simp
    have fl: "fl_round ?x = of_int (round_half_even (?x / ?u)) * ?u"
      using fl_round_pos_eq [OF xpos] .
    \<comment> \<open>lower bound\<close>
    define r where "r = round_half_even (?x / ?u)"
    have flr: "fl_round ?x = of_int r * ?u" using fl by (simp only: r_def)
    have mx: "of_int ?m \<le> ?x" using int_div_bounds(1) [OF q0] .
    have mk: "(of_int (?m * 2 ^ ?k) :: rat) = of_int ?m / ?u" by (simp only: u) simp
    have "of_int ?m / ?u \<le> ?x / ?u" using mx upos by (simp only: divide_right_mono less_imp_le)
    then have "(of_int (?m * 2 ^ ?k) :: rat) \<le> ?x / ?u" by (simp only: mk)
    then have "?m * 2 ^ ?k \<le> r" unfolding r_def by (rule round_half_even_ge)
    then have "(of_int (?m * 2 ^ ?k) :: rat) \<le> of_int r" by (simp only: of_int_le_iff)
    then have "of_int ?m / ?u \<le> of_int r" by (simp only: mk)
    then have "of_int ?m \<le> of_int r * ?u" using upos by (simp only: pos_divide_le_eq)
    then have lower: "of_int ?m \<le> fl_round ?x" by (simp only: flr)
    \<comment> \<open>upper bound\<close>
    have "of_int r \<le> ?x / ?u + 1 / 2" unfolding r_def by (rule round_half_even_le)
    then have "of_int r * ?u \<le> (?x / ?u + 1 / 2) * ?u"
      using upos by (simp only: mult_le_cancel_right_pos)
    moreover have "(?x / ?u + 1 / 2) * ?u = ?x + ?u / 2" using upos by (simp add: distrib_right)
    ultimately have up1: "fl_round ?x \<le> ?x + ?u / 2" by (simp only: flr)
    have qu: "of_int q * ?u < 2"
    proof (cases "binary_exponent ?x \<le> - 1022")
      case True
      then have "?e = - 1022" by simp
      then have "?u = 2 powi (- 1074)" by simp
      also have "\<dots> = 1 / 2 ^ 1074" by (simp add: power_int_minus_divide)
      finally have "of_int q * ?u = of_int q / 2 ^ 1074" by simp
      also have "\<dots> < 2 ^ 53 / 2 ^ 1074" using qlt by (simp add: divide_strict_right_mono)
      also have "\<dots> < 2" by simp
      finally show ?thesis .
    next
      case False
      then have e: "?e = binary_exponent ?x" by simp
      have "2 powi (binary_exponent ?x) \<le> ?x" using binary_exponent_bounds(1) [OF xpos] .
      then have "of_int q * 2 powi (binary_exponent ?x) \<le> (of_int i :: rat)"
        using qpos by (simp add: pos_le_divide_eq mult.commute)
      then have lt: "of_int q * 2 powi (binary_exponent ?x) < (2::rat) ^ 53" using ilt by linarith
      have "?u = 2 powi (binary_exponent ?x) / 2 ^ 52"
        by (simp only: e) (simp add: power_int_diff)
      then have "of_int q * ?u = (of_int q * 2 powi (binary_exponent ?x)) / (2::rat) ^ 52" by simp
      also have "\<dots> < 2 ^ 53 / 2 ^ 52" using lt by (simp only: divide_strict_right_mono zero_less_power zero_less_numeral)
      also have "\<dots> = 2" by simp
      finally show ?thesis .
    qed
    then have "?u / 2 < 1 / of_int q" using qpos by (simp add: pos_less_divide_eq mult.commute)
    then have "?x + ?u / 2 < ?x + 1 / of_int q" by simp
    also have "\<dots> \<le> of_int ?m + 1" using int_div_bounds(2) [OF q0] .
    finally have "fl_round ?x < of_int ?m + 1" using up1 by simp
    then show ?thesis using lower by simp
  qed
  show "\<lfloor>fl_round ?x\<rfloor> = ?m"
    using main by (simp add: floor_unique)
  have m0: "0 \<le> ?m" using i(1) q0 by (simp add: pos_imp_zdiv_nonneg_iff)
  then have "(0::rat) \<le> of_int ?m" by simp
  then show "0 \<le> fl_round ?x" using main by linarith
  have "?m * 1 \<le> ?m * q" using q(1) m0 by (rule mult_left_mono)
  moreover have "?m * q + i mod q = i" by simp
  moreover have "0 \<le> i mod q" using q0 by simp
  ultimately have "?m \<le> i" by linarith
  then have "?m + 1 \<le> 2 ^ 53" using i(2) by simp
  then have "(of_int (?m + 1) :: rat) \<le> of_int (2 ^ 53)" by (simp only: of_int_le_iff)
  then have "(of_int ?m :: rat) + 1 \<le> 2 ^ 53" by simp
  then show "fl_round ?x < 2 ^ 53" using main by linarith
qed

lemma not_overflow_small:
  assumes "0 \<le> r" and "r < 2 ^ 53"
  shows "\<not> fl_overflow r"
proof -
  have "(2::rat) ^ 53 \<le> 2 ^ 1024" by (rule power_increasing) simp_all
  then show ?thesis using assms by (simp add: fl_overflow_def)
qed

lemma py_float_of_int_exact:
  assumes "0 \<le> i" and "i < 2 ^ 53"
  shows "py_float_of_int i = Inr (Fin (of_int i))"
proof -
  have r: "fl_round (of_int i) = of_int i" using assms by (rule fl_round_of_int_exact)
  have "(of_int i :: rat) < of_int (2 ^ 53)" using assms(2) by (simp only: of_int_less_iff)
  then have "(of_int i :: rat) < 2 ^ 53" by simp
  moreover have "(0::rat) \<le> of_int i" using assms(1) by simp
  ultimately have "\<not> fl_overflow (of_int i)" by (intro not_overflow_small)
  then show ?thesis by (simp add: py_float_of_int_def r)
qed

lemma py_int_truediv_floor:
  assumes "0 \<le> a" "a < 2 ^ 53" "1 \<le> b" "b < 2 ^ 53"
  shows "\<exists>r. py_int_truediv a b = Inr (Fin r) \<and> py_int_of_float (Fin r) = Inr (a div b)"
proof -
  let ?r = "fl_round (of_int a / of_int b)"
  note f = fl_round_quotient_floor [OF assms]
  have "\<not> fl_overflow ?r" using f(2,3) by (rule not_overflow_small)
  then have "py_int_truediv a b = Inr (Fin ?r)" using assms(3) by (simp add: py_int_truediv_def)
  moreover have "py_int_of_float (Fin ?r) = Inr (a div b)" using f(1,2) by simp
  ultimately show ?thesis by blast
qed

lemma py_int_truediv_dvd:
  assumes "1 \<le> b" "b dvd a" "0 \<le> a" "a < 2 ^ 53"
  shows "py_int_truediv a b = Inr (Fin (of_int (a div b)))"
proof -
  have b0: "b \<noteq> 0" using assms(1) by simp
  have eq: "(of_int a :: rat) / of_int b = of_int (a div b)"
    using assms(2) b0 by (simp add: of_int_divide_in_Ints flip: of_int_div)
  have q0: "0 \<le> a div b" using assms(1,3) by (simp add: pos_imp_zdiv_nonneg_iff)
  have "(a div b) * 1 \<le> (a div b) * b" using assms(1) q0 by (rule mult_left_mono)
  moreover have "(a div b) * b = a" using assms(2) by simp
  ultimately have qlt: "a div b < 2 ^ 53" using assms(4) by linarith
  have r: "fl_round (of_int (a div b)) = of_int (a div b)" using q0 qlt by (rule fl_round_of_int_exact)
  have "(of_int (a div b) :: rat) < of_int (2 ^ 53)" using qlt by (simp only: of_int_less_iff)
  then have "(of_int (a div b) :: rat) < 2 ^ 53" by simp
  moreover have "(0::rat) \<le> of_int (a div b)" using q0 by simp
  ultimately have "\<not> fl_overflow (of_int (a div b))" by (intro not_overflow_small)
  then show ?thesis using b0 by (simp add: py_int_truediv_def eq r)
qed

lemma layers_per_group_floor:
  assumes "0 \<le> num_hidden_layers config" "num_hidden_layers config < 2 ^ 53"
    and "1 \<le> num_hidden_groups config" "num_hidden_groups config < 2 ^ 53"
  shows "layers_per_group_of config = Inr (num_hidden_layers config div num_hidden_groups config)"
proof -
  obtain r where "py_int_truediv (num_hidden_layers config) (num_hidden_groups config) = Inr (Fin r)"
    and "py_int_of_float (Fin r) = Inr (num_hidden_layers config div num_hidden_groups config)"
    using py_int_truediv_floor [OF assms] by blast
  then show ?thesis by (simp add: layers_per_group_of_def ebind_def)
qed

lemma group_idx_dvd:
  assumes G: "1 \<le> num_hidden_groups config" "num_hidden_groups config dvd num_hidden_layers config"
    and L: "num_hidden_layers config < 2 ^ 53"
    and i: "0 \<le> i" "i < num_hidden_layers config"
  shows "group_idx_of config i
         = Inr (i div (num_hidden_layers config div num_hidden_groups config))"
proof -
  let ?L = "num_hidden_layers config" and ?G = "num_hidden_groups config"
  let ?q = "?L div ?G"
  have L0: "0 \<le> ?L" using i by simp
  have d: "py_int_truediv ?L ?G = Inr (Fin (of_int ?q))"
    using G L0 L by (rule py_int_truediv_dvd)
  have Lpos: "0 < ?L" using i by simp
  have qG: "?q * ?G = ?L" using G(2) by simp
  have q1: "1 \<le> ?q"
  proof (rule ccontr)
    assume "\<not> 1 \<le> ?q"
    then have "?q \<le> 0" by simp
    then have "?q * ?G \<le> 0" using G(1) by (simp add: mult_le_0_iff)
    then show False using qG Lpos by simp
  qed
  have "?q * 1 \<le> ?q * ?G" using G(1) q1 by (intro mult_left_mono) simp_all
  then have qlt: "?q < 2 ^ 53" using qG L by linarith
  have ilt: "i < 2 ^ 53" using i(2) L by simp
  note f = fl_round_quotient_floor [OF i(1) ilt q1 qlt]
  have fi: "py_float_of_int i = Inr (Fin (of_int i))" using i(1) ilt by (rule py_float_of_int_exact)
  have no: "\<not> fl_overflow (fl_round (of_int i / of_int ?q))" using f(2,3) by (rule not_overflow_small)
  have q0: "(of_int ?q :: rat) \<noteq> 0" using q1 by simp
  have "py_int_float_truediv i (Fin (of_int ?q)) = Inr (Fin (fl_round (of_int i / of_int ?q)))"
    using no q0 by (simp add: py_int_float_truediv_def fi)
  then show ?thesis
    using f(1,2) by (simp add: group_idx_of_def d ebind_def)
qed

lemma binary_exponent_unique:
  assumes "0 < x" and "2 powi e \<le> x" and "x < 2 powi (e + 1)"
  shows "binary_exponent x = e"
proof -
  note b = binary_exponent_bounds [OF assms(1)]
  have "\<not> e + 1 \<le> binary_exponent x"
  proof
    assume "e + 1 \<le> binary_exponent x"
    then have "(2::rat) powi (e + 1) \<le> 2 powi (binary_exponent x)"
      by (rule power_int_increasing) simp
    then show False using b(1) assms(3) by linarith
  qed
  moreover have "\<not> binary_exponent x + 1 \<le> e"
  proof
    assume "binary_exponent x + 1 \<le> e"
    then have "(2::rat) powi (binary_exponent x + 1) \<le> 2 powi e"
      by (rule power_int_increasing) simp
    then show False using b(2) assms(2) by linarith
  qed
  ultimately show ?thesis by linarith
qed

lemma round_half_even_unique:
  assumes "of_int n - 1 / 2 < y" and "y < of_int n + 1 / 2"
  shows "round_half_even y = n"
proof -
  have lo: "n - 1 \<le> \<lfloor>y\<rfloor>" using assms(1) by (simp add: le_floor_iff)
  have hi: "\<lfloor>y\<rfloor> \<le> n" using assms(2) by (simp add: floor_le_iff)
  consider "\<lfloor>y\<rfloor> = n" | "\<lfloor>y\<rfloor> = n - 1" using lo hi by linarith
  then show ?thesis
  proof cases
    case 1
    then have "y - of_int \<lfloor>y\<rfloor> < 1 / 2" using assms(2) by simp
    then show ?thesis using 1 by (simp add: round_half_even_def Let_def)
  next
    case 2
    then have "1 / 2 < y - of_int \<lfloor>y\<rfloor>" using assms(1) by simp
    then show ?thesis using 2 by (simp add: round_half_even_def Let_def)
  qed
qed

lemma fl_round_eval:
  assumes "0 < x" and "2 powi e \<le> x" and "x < 2 powi (e + 1)" and "- 1022 \<le> e"
    and "of_int n - 1 / 2 < x / 2 powi (e - 52)" and "x / 2 powi (e - 52) < of_int n + 1 / 2"
  shows "fl_round x = of_int n * 2 powi (e - 52)"
proof -
  have e: "binary_exponent x = e" using assms(1-3) by (rule binary_exponent_unique)
  have m: "max e (- 1022) = e" using assms(4) by simp
  have r: "round_half_even (x / 2 powi (e - 52)) = n" using assms(5,6) by (rule round_half_even_unique)
  show ?thesis using fl_round_pos_eq [OF assms(1)] by (simp only: e m r)
qed

lemma fl_round_9_7: "fl_round (9 / 7) = 5790342378047781 / 2 ^ 52"
proof -
  have "fl_round (9 / 7) = of_int 5790342378047781 * 2 powi (0 - 52)"
    by (rule fl_round_eval) (simp_all add: power_int_minus_divide)
  then show ?thesis by (simp add: power_int_minus_divide)
qed

lemma fl_round_9_q:
  "fl_round (9 / (5790342378047781 / 2 ^ 52)) = 7881299347898367 / 2 ^ 50"
proof -
  have "fl_round (9 / (5790342378047781 / 2 ^ 52)) = of_int 7881299347898367 * 2 powi (2 - 52)"
    by (rule fl_round_eval) (simp_all add: power_int_minus_divide)
  then show ?thesis by (simp add: power_int_minus_divide)
qed


lemma fl_round_pos:
  assumes "0 < x" and "2 powi (- 1074) \<le> x"
  shows "0 < fl_round x"
proof -
  let ?e = "max (binary_exponent x) (- 1022)"
  let ?u = "(2::rat) powi (?e - 52)"
  have upos: "0 < ?u" by simp
  have "?u \<le> x"
  proof (cases "binary_exponent x \<le> - 1022")
    case True
    then have "?e - 52 = - 1074" by simp
    then show ?thesis using assms(2) by simp
  next
    case False
    then have e: "?e = binary_exponent x" by simp
    have "(2::rat) powi (binary_exponent x - 52) \<le> 2 powi (binary_exponent x)"
      by (rule power_int_increasing) simp_all
    also have "\<dots> \<le> x" using binary_exponent_bounds(1) [OF assms(1)] .
    finally show ?thesis by (simp only: e)
  qed
  then have "of_int 1 \<le> x / ?u" using upos by (simp add: pos_le_divide_eq)
  then have "1 \<le> round_half_even (x / ?u)" by (rule round_half_even_ge)
  then have "(0::rat) < of_int (round_half_even (x / ?u))" by simp
  then have "0 < of_int (round_half_even (x / ?u)) * ?u" using upos by simp
  then show ?thesis using fl_round_pos_eq [OF assms(1)] by simp
qed

lemma py_int_truediv_pos:
  assumes "1 \<le> a" "a < 2 ^ 53" "1 \<le> b" "b < 2 ^ 53"
  shows "\<exists>r. py_int_truediv a b = Inr (Fin r) \<and> 0 < r"
proof -
  let ?x = "of_int a / of_int b :: rat"
  have a0: "0 \<le> a" using assms(1) by simp
  note f = fl_round_quotient_floor [OF a0 assms(2,3,4)]
  have "\<not> fl_overflow (fl_round ?x)" using f(2,3) by (rule not_overflow_small)
  then have d: "py_int_truediv a b = Inr (Fin (fl_round ?x))"
    using assms(3) by (simp add: py_int_truediv_def)
  have xpos: "0 < ?x" using assms(1,3) by simp
  have "(of_int b :: rat) < of_int (2 ^ 53)" using assms(4) by (simp only: of_int_less_iff)
  then have blt: "(of_int b :: rat) < 2 ^ 53" by simp
  have bpos: "(0::rat) < of_int b" using assms(3) by simp
  have "(1::rat) \<le> of_int a" using assms(1) by simp
  then have "1 / of_int b \<le> ?x" using bpos by (simp add: divide_right_mono)
  moreover have "(1::rat) / 2 ^ 53 < 1 / of_int b" using blt bpos by (simp add: frac_less2)
  moreover have "(2::rat) powi (- 1074) \<le> 1 / 2 ^ 53"
    by (simp add: power_int_minus_divide frac_le power_increasing)
  ultimately have "2 powi (- 1074) \<le> ?x" by linarith
  with xpos have "0 < fl_round ?x" by (rule fl_round_pos)
  then show ?thesis using d by blast
qed

section \<open>Properties of the forward passes\<close>

lemma ebind_Inr_iff: "ebind m f = Inr y \<longleftrightarrow> (\<exists>x. m = Inr x \<and> f x = Inr y)"
  by (cases m) (simp_all add: ebind_def)

lemma ebind_Inr [simp]: "ebind (Inr x) f = f x"
  by (simp add: ebind_def)

lemma ebind_Inl [simp]: "ebind (Inl e) f = Inl e"
  by (simp add: ebind_def)

lemma AlbertModel_forward_outputs:
  assumes "AlbertModel_forward m inp = Inr outs"
  shows "\<exists>sequence_output pooled_output rest. outs = Ten sequence_output # Ten pooled_output # rest"
proof -
  from assms obtain encoder_outputs h where
      h: "py_index encoder_outputs 0 = Inr h"
      and r: "(case h of
                 Tup _ \<Rightarrow> Inl TypeError
               | Ten sequence_output \<Rightarrow>
                   ebind (select_first sequence_output) (\<lambda>first_token.
                   ebind (Linear_forward (pooler m) first_token) (\<lambda>p.
                   let pooled_output = pooler_activation m p in
                   Inr ([Ten sequence_output, Ten pooled_output] @ tl encoder_outputs)))) = Inr outs"
    unfolding AlbertModel_forward_def Let_def ebind_Inr_iff by blast
  show ?thesis
  proof (cases h)
    case (Ten so)
    then show ?thesis using r by (auto simp add: ebind_Inr_iff Let_def)
  next
    case (Tup xs)
    then show ?thesis using r by simp
  qed
qed

lemma clamp_range:
  assumes "a \<in> set (cells r)"
  shows "0 \<le> clamp_inplace 0 (int S) r st a" and "clamp_inplace 0 (int S) r st a \<le> int S"
  using assms by (simp_all add: clamp_inplace_def)

lemma clamp_keeps_range:
  assumes "0 \<le> st a" and "st a \<le> int S"
  shows "0 \<le> clamp_inplace 0 (int S) r st a" and "clamp_inplace 0 (int S) r st a \<le> int S"
  using assms by (simp_all add: clamp_inplace_def)

lemma clamp_twice:
  "clamp_inplace 0 (int S) r2 (clamp_inplace 0 (int S) r1 st)
   = (\<lambda>a. if a \<in> set (cells r1) \<union> set (cells r2) then min (max (st a) 0) (int S) else st a)"
  by (rule ext) (auto simp add: clamp_inplace_def)

lemma cells_label_view [simp]: "cells (label_view r) = cells r"
  by (simp add: label_view_def ref_squeeze_last_def)

lemma qa_forward_both:
  assumes "qa_logits m inp = Inr (start_logits, end_logits, outputs)"
    and "shape start_logits = [B, S]"
  shows "AlbertForQuestionAnswering_forward nn m inp (Some sp) (Some ep) st =
          (let st' = clamp_inplace 0 (int S) (label_view ep) (clamp_inplace 0 (int S) (label_view sp) st)
           in (st',
               ebind (CrossEntropyLoss nn (int S) start_logits (t_read st' (label_view sp))) (\<lambda>start_loss.
               ebind (CrossEntropyLoss nn (int S) end_logits (t_read st' (label_view ep))) (\<lambda>end_loss.
               ebind (t_add start_loss end_loss) (\<lambda>s.
               Inr ([Ten (t_map (\<lambda>x. x / 2) s)] @ outputs))))))"
  using assms
  by (simp add: AlbertForQuestionAnswering_forward_def label_view_def t_size_def py_index_def Let_def)

lemma qa_forward_absent:
  assumes "qa_logits m inp = Inr (start_logits, end_logits, outputs)"
    and "sp = None \<or> ep = None"
  shows "AlbertForQuestionAnswering_forward nn m inp sp ep st = (st, Inr outputs)"
  using assms
  by (auto simp add: AlbertForQuestionAnswering_forward_def split: option.splits)

lemma upt_2: "[0 ..< 2] = [0, Suc 0]"
  by (simp add: upt_rec numeral_2_eq_2)


lemma qa_forward_error:
  assumes "qa_logits m inp = Inl e"
  shows "AlbertForQuestionAnswering_forward nn m inp sp ep st = (st, Inl e)"
  using assms by (simp add: AlbertForQuestionAnswering_forward_def)

subsection \<open>Running the small concrete model\<close>

lemma demo_layer_forward:
  "AlbertLayer_forward (demo_layer c) \<lparr>shape = [Suc 0, 2, Suc 0], elems = [a, b]\<rparr> am hm
   = Inr [\<lparr>shape = [Suc 0, 2, Suc 0], elems = [4 * a + c, 4 * b + c]\<rparr>]"
  by (simp add: AlbertLayer_forward_def AlbertAttention_forward_def project_context_def
        demo_layer_def demo_attention_def demo_linear_def t_view_def numel_def
        weight_as_heads_def np_transpose_def einsum_bfnd_ndh_def add_bias_def blocks_def
        t_add_def py_index_def Linear_forward_def dot_def upt_2)

lemma demo_groups:
  "albert_layer_groups demo_transformer
   = [\<lparr> lg_output_attentions = False, lg_output_hidden_states = False,
         albert_layers = [demo_layer 1] \<rparr>,
      \<lparr> lg_output_attentions = False, lg_output_hidden_states = False,
         albert_layers = [demo_layer 2] \<rparr>]"
  by (simp add: demo_transformer_def AlbertTransformer_init_def AlbertLayerGroup_init_def
        demo_config_def demo_mk_def upt_2)

lemma demo_group_forward:
  "AlbertLayerGroup_forward
     \<lparr> lg_output_attentions = False, lg_output_hidden_states = False,
       albert_layers = [demo_layer c] \<rparr>
     \<lparr>shape = [Suc 0, 2, Suc 0], elems = [a, b]\<rparr> am (HMList (None # ms))
   = Inr [Ten \<lparr>shape = [Suc 0, 2, Suc 0], elems = [4 * a + c, 4 * b + c]\<rparr>]"
  by (simp add: AlbertLayerGroup_forward_def py_index_def demo_layer_forward)

lemma demo_indices:
  assumes "0 \<le> i" and "i < 4"
  shows "layers_per_group_of demo_config = Inr 2"
    and "group_idx_of demo_config i = Inr (i div 2)"
proof -
  have "layers_per_group_of demo_config
        = Inr (num_hidden_layers demo_config div num_hidden_groups demo_config)"
    by (rule layers_per_group_floor) (simp_all add: demo_config_def)
  then show "layers_per_group_of demo_config = Inr 2" by (simp add: demo_config_def)
  have "group_idx_of demo_config i
        = Inr (i div (num_hidden_layers demo_config div num_hidden_groups demo_config))"
    using assms by (intro group_idx_dvd) (simp_all add: demo_config_def)
  then show "group_idx_of demo_config i = Inr (i div 2)" by (simp add: demo_config_def)
qed

lemma demo_flags:
  "tr_config demo_transformer = demo_config"
  "tr_output_attentions demo_transformer = False"
  "tr_output_hidden_states demo_transformer = False"
  "embedding_hidden_mapping_in demo_transformer = demo_linear 0"
  by (simp_all add: demo_transformer_def AlbertTransformer_init_def demo_config_def)

lemma demo_step:
  assumes "0 \<le> i" and "i < 4"
  shows "transformer_step demo_transformer am (HMList [None, None, None, None]) i
           (\<lparr>shape = [Suc 0, 2, Suc 0], elems = [a, b]\<rparr>, atts, hs)
         = Inr (\<lparr>shape = [Suc 0, 2, Suc 0],
                  elems = [4 * a + of_int (i div 2) + 1, 4 * b + of_int (i div 2) + 1]\<rparr>, atts, hs)"
proof -
  have "i div 2 = 0 \<or> i div 2 = 1" using assms by auto
  then show ?thesis
    by (auto simp add: transformer_step_def apply_group_def demo_flags demo_indices [OF assms] demo_groups
          py_index_def py_slice_def demo_group_forward)
qed

lemma demo_transformer_forward:
  "AlbertTransformer_forward demo_transformer \<lparr>shape = [Suc 0, 2, Suc 0], elems = [1, 2]\<rparr> am
     (HMList [None, None, None, None])
   = Inr [Ten \<lparr>shape = [Suc 0, 2, Suc 0], elems = [346, 602]\<rparr>]"
proof -
  have r: "py_range (num_hidden_layers demo_config) = [0, 1, 2, 3]"
    by (simp add: py_range_def demo_config_def upt_rec)
  have m: "Linear_forward (demo_linear 0) \<lparr>shape = [Suc 0, 2, Suc 0], elems = [1, 2]\<rparr>
           = Inr \<lparr>shape = [Suc 0, 2, Suc 0], elems = [1, 2]\<rparr>"
    by (simp add: Linear_forward_def demo_linear_def numel_def blocks_def dot_def upt_2)
  show ?thesis
    by (simp add: AlbertTransformer_forward_def demo_flags m r demo_step)
qed

lemma demo_model_forward:
  "AlbertModel_forward demo_model demo_inputs
   = Inr [Ten \<lparr>shape = [Suc 0, 2, Suc 0], elems = [346, 602]\<rparr>, Ten \<lparr>shape = [Suc 0, Suc 0], elems = [346]\<rparr>]"
proof -
  have hm: "prepare_head_mask demo_config None = Inr (HMList [None, None, None, None])"
    by (simp add: prepare_head_mask_def demo_config_def eval_nat_numeral)
  have p: "Linear_forward (demo_linear 0) \<lparr>shape = [Suc 0, Suc 0], elems = [346]\<rparr>
           = Inr \<lparr>shape = [Suc 0, Suc 0], elems = [346]\<rparr>"
    by (simp add: Linear_forward_def demo_linear_def numel_def blocks_def dot_def)
  show ?thesis
    by (simp add: AlbertModel_forward_def demo_model_def demo_inputs_def unsqueeze_def t_full_def
          hm demo_embeddings_def demo_transformer_forward py_index_def select_first_def
          numel_def blocks_def p)
qed

lemma demo_head_forward:
  "Linear_forward demo_head \<lparr>shape = [Suc 0, 2, Suc 0], elems = [a, b]\<rparr>
   = Inr \<lparr>shape = [Suc 0, 2, 2], elems = [a, 2 * a, b, 2 * b]\<rparr>"
  "Linear_forward demo_head \<lparr>shape = [Suc 0, Suc 0], elems = [a]\<rparr>
   = Inr \<lparr>shape = [Suc 0, 2], elems = [a, 2 * a]\<rparr>"
  by (simp_all add: Linear_forward_def demo_head_def numel_def blocks_def dot_def upt_2)

lemma demo_qa_logits:
  "qa_logits demo_qa demo_inputs
   = Inr (\<lparr>shape = [Suc 0, 2], elems = [346, 602]\<rparr>, \<lparr>shape = [Suc 0, 2], elems = [692, 1204]\<rparr>,
          [Ten \<lparr>shape = [Suc 0, 2], elems = [346, 602]\<rparr>, Ten \<lparr>shape = [Suc 0, 2], elems = [692, 1204]\<rparr>])"
  by (simp add: qa_logits_def demo_qa_def demo_model_forward py_index_def demo_head_forward
        split1_last_def numel_def upt_2 squeeze_last_def Let_def)

lemma demo_views:
  "label_view demo_start = \<lparr> cells = [0], ref_shape = [Suc 0] \<rparr>"
  "label_view demo_end = \<lparr> cells = [1], ref_shape = [Suc 0] \<rparr>"
  by (simp_all add: label_view_def ref_squeeze_last_def demo_start_def demo_end_def)

lemma demo_clamped:
  "clamp_inplace 0 (int 2) (label_view demo_end) (clamp_inplace 0 (int 2) (label_view demo_start) demo_store)
   = (\<lambda>a. 7)(0 := 2, 1 := 0)"
  by (rule ext) (simp add: clamp_inplace_def demo_views demo_store_def)

lemma demo_label_reads:
  "t_read ((\<lambda>a. 7)(0 := 2, 1 := 0)) (label_view demo_start) = \<lparr>shape = [Suc 0], elems = [2]\<rparr>"
  "t_read ((\<lambda>a. 7)(0 := 2, 1 := 0)) (label_view demo_end) = \<lparr>shape = [Suc 0], elems = [0]\<rparr>"
  by (simp_all add: t_read_def demo_views)

lemma demo_cross_entropies:
  "CrossEntropyLoss demo_losses (int 2) \<lparr>shape = [Suc 0, 2], elems = [346, 602]\<rparr>
     \<lparr>shape = [Suc 0], elems = [2]\<rparr> = Inr \<lparr>shape = [], elems = [948]\<rparr>"
  "CrossEntropyLoss demo_losses (int 2) \<lparr>shape = [Suc 0, 2], elems = [692, 1204]\<rparr>
     \<lparr>shape = [Suc 0], elems = [0]\<rparr> = Inr \<lparr>shape = [], elems = [1896]\<rparr>"
  by (simp_all add: demo_losses_def)

lemma demo_mapping:
  "Linear_forward (demo_linear 0) \<lparr>shape = [Suc 0, 2, Suc 0], elems = [a, b]\<rparr>
   = Inr \<lparr>shape = [Suc 0, 2, Suc 0], elems = [a, b]\<rparr>"
  by (simp add: Linear_forward_def demo_linear_def numel_def blocks_def dot_def upt_2)

lemma failing_configs:
  "num_hidden_layers zero_groups_config = 1" "num_hidden_groups zero_groups_config = 0"
  "output_hidden_states zero_groups_config = False" "output_attentions zero_groups_config = False"
  "num_hidden_layers many_groups_config = 1" "num_hidden_groups many_groups_config = 2"
  "output_hidden_states many_groups_config = False" "output_attentions many_groups_config = False"
  "inner_group_num many_groups_config = 1"
  by (simp_all add: zero_groups_config_def many_groups_config_def demo_config_def)

lemma list4:
  assumes "length xs = 4"
  shows "xs = [xs ! 0, xs ! 1, xs ! 2, xs ! 3]"
proof (rule nth_equalityI)
  show "length xs = length [xs ! 0, xs ! 1, xs ! 2, xs ! 3]" using assms by simp
next
  fix i assume "i < length xs"
  then have "i = 0 \<or> i = 1 \<or> i = 2 \<or> i = 3" using assms by auto
  then show "xs ! i = [xs ! 0, xs ! 1, xs ! 2, xs ! 3] ! i" by auto
qed


lemma probe_layer_forward:
  "AlbertLayer_forward (probe_mk g j) \<lparr>shape = [Suc 0, 2, Suc 0], elems = [a, b]\<rparr>
     (Some \<lparr>shape = [Suc 0, Suc 0, Suc 0, 2], elems = [u, v]\<rparr>) hm
   = Inr [\<lparr>shape = [Suc 0, 2, Suc 0], elems = [4 * a + 2 * u + (of_nat g + 1), 4 * b + 2 * v + (of_nat g + 1)]\<rparr>]"
  by (simp add: AlbertLayer_forward_def AlbertAttention_forward_def project_context_def
        probe_mk_def demo_mk_def probe_attention_def
        demo_layer_def demo_attention_def demo_linear_def t_view_def numel_def
        weight_as_heads_def np_transpose_def einsum_bfnd_ndh_def add_bias_def blocks_def
        t_add_def py_index_def Linear_forward_def dot_def upt_2)

lemma probe_groups:
  "albert_layer_groups (AlbertTransformer_init demo_config (demo_linear 0) probe_mk)
   = [\<lparr> lg_output_attentions = False, lg_output_hidden_states = False,
         albert_layers = [probe_mk 0 0] \<rparr>,
      \<lparr> lg_output_attentions = False, lg_output_hidden_states = False,
         albert_layers = [probe_mk 1 0] \<rparr>]"
  by (simp add: AlbertTransformer_init_def AlbertLayerGroup_init_def demo_config_def upt_2)

lemma probe_group_forward:
  "AlbertLayerGroup_forward
     \<lparr> lg_output_attentions = False, lg_output_hidden_states = False,
       albert_layers = [probe_mk g j] \<rparr>
     \<lparr>shape = [Suc 0, 2, Suc 0], elems = [a, b]\<rparr>
     (Some \<lparr>shape = [Suc 0, Suc 0, Suc 0, 2], elems = [u, v]\<rparr>) (HMList (None # ms))
   = Inr [Ten \<lparr>shape = [Suc 0, 2, Suc 0],
               elems = [4 * a + 2 * u + (of_nat g + 1), 4 * b + 2 * v + (of_nat g + 1)]\<rparr>]"
  by (simp add: AlbertLayerGroup_forward_def py_index_def probe_layer_forward)

lemma probe_flags:
  "tr_config (AlbertTransformer_init demo_config (demo_linear 0) probe_mk) = demo_config"
  "tr_output_attentions (AlbertTransformer_init demo_config (demo_linear 0) probe_mk) = False"
  "tr_output_hidden_states (AlbertTransformer_init demo_config (demo_linear 0) probe_mk) = False"
  "embedding_hidden_mapping_in (AlbertTransformer_init demo_config (demo_linear 0) probe_mk) = demo_linear 0"
  by (simp_all add: AlbertTransformer_init_def demo_config_def)

lemma probe_step:
  assumes "0 \<le> i" and "i < 4"
  shows "transformer_step (AlbertTransformer_init demo_config (demo_linear 0) probe_mk)
           (Some \<lparr>shape = [Suc 0, Suc 0, Suc 0, 2], elems = [u, v]\<rparr>)
           (HMList [None, None, None, None]) i
           (\<lparr>shape = [Suc 0, 2, Suc 0], elems = [a, b]\<rparr>, atts, hs)
         = Inr (\<lparr>shape = [Suc 0, 2, Suc 0],
                  elems = [4 * a + 2 * u + (of_int (i div 2) + 1),
                           4 * b + 2 * v + (of_int (i div 2) + 1)]\<rparr>, atts, hs)"
proof -
  have "i div 2 = 0 \<or> i div 2 = 1" using assms by auto
  then show ?thesis
    by (auto simp add: transformer_step_def apply_group_def probe_flags demo_indices [OF assms]
          probe_groups py_index_def py_slice_def probe_group_forward)
qed

lemma probe_transformer_forward:
  "AlbertTransformer_forward (AlbertTransformer_init demo_config (demo_linear 0) probe_mk)
     \<lparr>shape = [Suc 0, 2, Suc 0], elems = [a, b]\<rparr>
     (Some \<lparr>shape = [Suc 0, Suc 0, Suc 0, 2], elems = [u, v]\<rparr>)
     (HMList [None, None, None, None])
   = Inr [Ten \<lparr>shape = [Suc 0, 2, Suc 0],
               elems = [256 * a + 170 * u + 90, 256 * b + 170 * v + 90]\<rparr>]"
proof -
  have r: "py_range (num_hidden_layers demo_config) = [0, 1, 2, 3]"
    by (simp add: py_range_def demo_config_def upt_rec)
  show ?thesis
    by (simp add: AlbertTransformer_forward_def probe_flags demo_mapping r probe_step)
qed

lemma probe_model_forward:
  "AlbertModel_forward probe_model
     (demo_inputs\<lparr> in_attention_mask := Some \<lparr>shape = [Suc 0, 2], elems = [ma, mb]\<rparr>,
                   in_token_type_ids := Some \<lparr>shape = [Suc 0, 2], elems = [ta, tb]\<rparr> \<rparr>)
   = Inr [Ten \<lparr>shape = [Suc 0, 2, Suc 0],
               elems = [256 * of_int (1 + 10 * ta) + 170 * ((1 - ma) * (- 10000)) + 90,
                        256 * of_int (2 + 10 * tb) + 170 * ((1 - mb) * (- 10000)) + 90]\<rparr>,
          Ten \<lparr>shape = [Suc 0, Suc 0],
               elems = [256 * of_int (1 + 10 * ta) + 170 * ((1 - ma) * (- 10000)) + 90]\<rparr>]"
proof -
  have hm: "prepare_head_mask demo_config None = Inr (HMList [None, None, None, None])"
    by (simp add: prepare_head_mask_def demo_config_def eval_nat_numeral)
  have p: "\<And>x. Linear_forward (demo_linear 0) \<lparr>shape = [Suc 0, Suc 0], elems = [x]\<rparr>
           = Inr \<lparr>shape = [Suc 0, Suc 0], elems = [x]\<rparr>"
    by (simp add: Linear_forward_def demo_linear_def numel_def blocks_def dot_def)
  show ?thesis
    by (simp add: AlbertModel_forward_def probe_model_def demo_model_def demo_inputs_def
          unsqueeze_def t_map_def hm probe_embeddings_def probe_transformer_forward py_index_def
          select_first_def numel_def blocks_def p)
qed

lemma probe_layers_return:
  "layers_return demo_config probe_mk (Some \<lparr>shape = [Suc 0, Suc 0, Suc 0, 2], elems = [u, v]\<rparr>)
     masks demo_state"
  unfolding layers_return_def
proof (intro allI impI conjI)
  fix g j :: nat
  assume "output_attentions demo_config"
  then show "att_output_attentions (attention (probe_mk g j))" by (simp add: demo_config_def)
next
  fix g j :: nat and x :: "rat tensor"
  assume "demo_state x"
  then obtain a b where x: "x = \<lparr>shape = [Suc 0, 2, Suc 0], elems = [a, b]\<rparr>"
    by (cases x) (auto simp add: demo_state_def length_Suc_conv eval_nat_numeral)
  show "\<exists>out. AlbertLayer_forward (probe_mk g j) x
                (Some \<lparr>shape = [Suc 0, Suc 0, Suc 0, 2], elems = [u, v]\<rparr>)
                (masks ! (g * nat (num_hidden_layers demo_config div num_hidden_groups demo_config) + j))
              = Inr out \<and> demo_state (out ! 0)"
    by (simp add: x probe_layer_forward demo_state_def)
qed

lemma probe_layer_raises:
  "AlbertLayer_forward (probe_mk 0 0) \<lparr>shape = [Suc 0, 2, Suc 0], elems = [1, 2]\<rparr>
     (Some \<lparr>shape = [Suc 0, Suc 0, Suc 0, 3], elems = [0, 0, 0]\<rparr>) None = Inl RuntimeError"
  by (simp add: AlbertLayer_forward_def AlbertAttention_forward_def probe_mk_def
        probe_attention_def)
subsection \<open>Sums over heads and head positions\<close>

lemma nested_sum:
  fixes g :: "nat \<Rightarrow> 'a::monoid_add"
  shows "sum_list (map (\<lambda>i. sum_list (map (\<lambda>k. g (i * d + k)) [0 ..< d])) [0 ..< n])
         = sum_list (map g [0 ..< n * d])"
proof (induction n)
  case 0
  show ?case by simp
next
  case (Suc n)
  have "[0 ..< n * d + d] = [0 ..< n * d] @ [n * d ..< n * d + d]"
    by (rule upt_add_eq_append) simp
  moreover have "[n * d ..< n * d + d] = map (\<lambda>k. n * d + k) [0 ..< d]"
    using map_add_upt [of "n * d" d] by (simp add: add.commute)
  ultimately have split: "[0 ..< Suc n * d] = [0 ..< n * d] @ map (\<lambda>k. n * d + k) [0 ..< d]"
    by (simp add: add.commute)
  have "sum_list (map (\<lambda>i. sum_list (map (\<lambda>k. g (i * d + k)) [0 ..< d])) [0 ..< Suc n])
        = sum_list (map (\<lambda>i. sum_list (map (\<lambda>k. g (i * d + k)) [0 ..< d])) [0 ..< n])
          + sum_list (map (\<lambda>k. g (n * d + k)) [0 ..< d])"
    by simp
  also have "\<dots> = sum_list (map g [0 ..< n * d]) + sum_list (map (\<lambda>k. g (n * d + k)) [0 ..< d])"
    by (simp only: Suc.IH)
  also have "\<dots> = sum_list (map g ([0 ..< n * d] @ map (\<lambda>k. n * d + k) [0 ..< d]))"
    by (simp add: comp_def)
  also have "\<dots> = sum_list (map g [0 ..< Suc n * d])"
    by (simp only: split)
  finally show ?case .
qed

lemma blocks_concat:
  assumes "\<forall>xs \<in> set xss. length xs = k"
  shows "blocks (length xss) k (concat xss) = xss"
  using assms
proof (induction xss rule: rev_induct)
  case Nil
  show ?case by (simp add: blocks_def)
next
  case (snoc ys xss)
  have len: "length (concat xss) = length xss * k"
    using snoc.prems by (induction xss) simp_all
  have ih: "blocks (length xss) k (concat xss) = xss" using snoc by simp
  have eq: "map (\<lambda>i. take k (drop (i * k) (concat xss @ ys))) [0 ..< length xss]
        = map (\<lambda>i. take k (drop (i * k) (concat xss))) [0 ..< length xss]"
  proof (rule map_cong [OF refl])
    fix i assume "i \<in> set [0 ..< length xss]"
    then have "i < length xss" by simp
    then have "Suc i \<le> length xss" by simp
    then have "Suc i * k \<le> length xss * k" by (rule mult_le_mono1)
    then have "i * k + k \<le> length (concat xss)" using len by simp
    then show "take k (drop (i * k) (concat xss @ ys)) = take k (drop (i * k) (concat xss))"
      by simp
  qed
  have first: "map (\<lambda>i. take k (drop (i * k) (concat xss @ ys))) [0 ..< length xss] = xss"
    using eq ih [unfolded blocks_def] by (rule trans)
  have last: "take k (drop (length xss * k) (concat xss @ ys)) = ys"
    using len snoc.prems by simp
  have "blocks (length (xss @ [ys])) k (concat (xss @ [ys]))
        = map (\<lambda>i. take k (drop (i * k) (concat xss @ ys))) [0 ..< length xss]
          @ [take k (drop (length xss * k) (concat xss @ ys))]"
    by (simp add: blocks_def)
  then show ?case by (simp only: first last)
qed

lemma blocks_lengths:
  assumes "length xs = r * k" and "row \<in> set (blocks r k xs)"
  shows "length row = k"
proof -
  from assms(2) obtain i where i: "i < r" and row: "row = take k (drop (i * k) xs)"
    by (auto simp add: blocks_def)
  have "Suc i * k \<le> r * k" using i by (intro mult_le_mono1) simp
  then have "i * k + k \<le> length xs" using assms(1) by simp
  then show ?thesis using row by simp
qed

lemma dot_indexed:
  fixes xs :: "'a::semiring_0 list"
  assumes "length xs = K" and "off + K \<le> length ws"
  shows "dot xs (take K (drop off ws)) = sum_list (map (\<lambda>m. xs ! m * ws ! (off + m)) [0 ..< K])"
proof -
  have l: "length (take K (drop off ws)) = K" using assms(2) by simp
  have "map2 (*) xs (take K (drop off ws))
        = map (\<lambda>m. xs ! m * take K (drop off ws) ! m) [0 ..< K]"
    using assms(1) l by (intro nth_equalityI) simp_all
  also have "\<dots> = map (\<lambda>m. xs ! m * ws ! (off + m)) [0 ..< K]"
    using assms(2) by (intro map_cong [OF refl]) simp
  finally show ?thesis by (simp add: dot_def)
qed

lemma transpose_index:
  assumes "shape w = [out_f, in_f]" and "m < in_f" and "j < out_f"
  shows "elems (np_transpose w) ! (m * out_f + j) = elems w ! (j * in_f + m)"
proof -
  have "m * out_f + j < Suc m * out_f" using assms(3) by simp
  also have "\<dots> \<le> in_f * out_f" using assms(2) by (intro mult_le_mono1) simp
  finally have lt: "m * out_f + j < out_f * in_f" by (simp add: mult.commute)
  show ?thesis
    using assms lt by (simp add: np_transpose_def numel_def)
qed


lemma map2_add_indexed:
  assumes "length bs = n"
  shows "map2 (+) (map e [0 ..< n]) bs = map (\<lambda>j. e j + bs ! j) [0 ..< n]"
  using assms by (intro nth_equalityI) simp_all

lemma projection_row:
  fixes row :: "'a::semiring_0 list"
  assumes w: "shape w = [hs, n * d]" "length (elems w) = hs * (n * d)"
    and row: "length row = n * d" and j: "j < hs"
  shows "sum_list (map (\<lambda>i. sum_list (map (\<lambda>k. row ! (i * d + k)
                                   * elems (np_transpose w) ! ((i * d + k) * hs + j)) [0 ..< d]))
                       [0 ..< n])
         = dot row (take (n * d) (drop (j * (n * d)) (elems w)))"
proof -
  have "sum_list (map (\<lambda>i. sum_list (map (\<lambda>k. row ! (i * d + k)
                                   * elems (np_transpose w) ! ((i * d + k) * hs + j)) [0 ..< d]))
                       [0 ..< n])
        = sum_list (map (\<lambda>m. row ! m * elems (np_transpose w) ! (m * hs + j)) [0 ..< n * d])"
    by (rule nested_sum)
  also have "\<dots> = sum_list (map (\<lambda>m. row ! m * elems w ! (j * (n * d) + m)) [0 ..< n * d])"
  proof -
    have "map (\<lambda>m. row ! m * elems (np_transpose w) ! (m * hs + j)) [0 ..< n * d]
          = map (\<lambda>m. row ! m * elems w ! (j * (n * d) + m)) [0 ..< n * d]"
    proof (rule map_cong [OF refl])
      fix m assume "m \<in> set [0 ..< n * d]"
      then have "m < n * d" by simp
      then show "row ! m * elems (np_transpose w) ! (m * hs + j) = row ! m * elems w ! (j * (n * d) + m)"
        using transpose_index [OF w(1) _ j] by simp
    qed
    then show ?thesis by (rule arg_cong)
  qed
  also have "\<dots> = dot row (take (n * d) (drop (j * (n * d)) (elems w)))"
  proof -
    have "Suc j * (n * d) \<le> hs * (n * d)" using j by (intro mult_le_mono1) simp
    then have "j * (n * d) + n * d \<le> length (elems w)" using w(2) by simp
    then show ?thesis using dot_indexed [OF row] by simp
  qed
  finally show ?thesis .
qed

subsection \<open>The loop of the encoder\<close>

lemma round_half_even_nonneg:
  assumes "0 \<le> y" shows "0 \<le> round_half_even y"
  using round_half_even_ge [of 0 y] assms by simp

lemma fl_round_nonneg:
  assumes "0 \<le> x" shows "0 \<le> fl_round x"
proof (cases "x = 0")
  case True
  then show ?thesis by (simp add: fl_round_def)
next
  case False
  then have xpos: "0 < x" using assms by simp
  let ?u = "(2::rat) powi (max (binary_exponent x) (- 1022) - 52)"
  have "0 \<le> x / ?u" using assms by simp
  then have "0 \<le> round_half_even (x / ?u)" by (rule round_half_even_nonneg)
  then have "(0::rat) \<le> of_int (round_half_even (x / ?u)) * ?u" by simp
  then show ?thesis using fl_round_pos_eq [OF xpos] by simp
qed

lemma group_idx_nonneg:
  assumes "group_idx_of config i = Inr g"
    and "0 \<le> i" and "0 < num_hidden_layers config" and "0 < num_hidden_groups config"
  shows "0 \<le> g"
proof -
  let ?L = "num_hidden_layers config" and ?G = "num_hidden_groups config"
  from assms(1) obtain q x where q: "py_int_truediv ?L ?G = Inr q"
    and x: "py_int_float_truediv i q = Inr x" and g: "py_int_of_float x = Inr g"
    by (auto simp add: group_idx_of_def ebind_Inr_iff)
  have lg: "(0::rat) \<le> of_int ?L / of_int ?G" using assms(3,4) by simp
  from q have qv: "q = Fin (fl_round (of_int ?L / of_int ?G))"
    by (auto simp add: py_int_truediv_def Let_def split: if_splits)
  have q0: "0 \<le> fl_round (of_int ?L / of_int ?G)" using lg by (rule fl_round_nonneg)
  have i0: "(0::rat) \<le> fl_round (of_int i)" using assms(2) by (intro fl_round_nonneg) simp
  let ?q = "fl_round (of_int ?L / of_int ?G)"
  let ?r = "fl_round (fl_round (of_int i) / ?q)"
  have r0: "0 \<le> ?r" using q0 i0 by (intro fl_round_nonneg) simp
  have ov: "fl_overflow ?r \<Longrightarrow> 0 < ?r"
    using r0 by (simp add: fl_overflow_def)
  from x have "x = Fin ?r \<or> x = PInf"
    using ov unfolding qv
    by (auto simp add: py_int_float_truediv_def py_float_of_int_def Let_def ebind_Inr_iff
          split: if_splits sum.splits)
  then show ?thesis using g r0 by auto
qed


lemma py_index_Inr:
  assumes "py_index xs i = Inr x"
  shows "- int (length xs) \<le> i" and "i < int (length xs)"
  using assms by (auto simp add: py_index_def Let_def split: if_splits)

lemma py_index_nth:
  assumes "0 \<le> i" and "i < int (length xs)"
  shows "py_index xs i = Inr (xs ! nat i)"
  using assms by (simp add: py_index_def)

lemma transformer_step_Inr:
  assumes "transformer_step t am hm i st = Inr st1"
  shows "\<exists>lpg g. layers_per_group_of (tr_config t) = Inr lpg
               \<and> group_idx_of (tr_config t) i = Inr g
               \<and> apply_group t am hm lpg g st = Inr st1"
  using assms by (auto simp add: transformer_step_def ebind_Inr_iff Let_def)

lemma apply_group_index:
  assumes "apply_group t am hm lpg g st = Inr st1"
  shows "\<exists>group. py_index (albert_layer_groups t) g = Inr group"
  using assms by (cases st) (auto simp add: apply_group_def ebind_Inr_iff)

lemma loop_trace:
  assumes "transformer_loop t am hm is st = Inr st'"
    and "\<forall>i \<in> set is. 0 \<le> i \<and> i < num_hidden_layers (tr_config t)"
    and "length (albert_layer_groups t) = nat (num_hidden_groups (tr_config t))"
  shows "\<exists>gs lpg. length gs = length is
           \<and> (\<forall>k < length is. group_idx_of (tr_config t) (is ! k) = Inr (gs ! k)
                   \<and> 0 \<le> gs ! k \<and> gs ! k < num_hidden_groups (tr_config t))
           \<and> (is \<noteq> [] \<longrightarrow> layers_per_group_of (tr_config t) = Inr lpg)
           \<and> apply_groups t am hm lpg gs st = Inr st'"
  using assms(1,2)
proof (induction "is" arbitrary: st)
  case Nil
  then have "apply_groups t am hm 0 [] st = Inr st'" by simp
  then show ?case by (intro exI [of _ "[]"] exI [of _ 0]) simp
next
  case (Cons i rest)
  from Cons.prems(1) obtain st1 where s1: "transformer_step t am hm i st = Inr st1"
    and r: "transformer_loop t am hm rest st1 = Inr st'"
    by (auto simp add: ebind_Inr_iff)
  from s1 obtain lpg g where lpg: "layers_per_group_of (tr_config t) = Inr lpg"
    and g: "group_idx_of (tr_config t) i = Inr g"
    and ag: "apply_group t am hm lpg g st = Inr st1"
    using transformer_step_Inr by blast
  from ag obtain group where "py_index (albert_layer_groups t) g = Inr group"
    using apply_group_index by blast
  then have lo: "- int (length (albert_layer_groups t)) \<le> g"
    and hi: "g < int (length (albert_layer_groups t))"
    by (rule py_index_Inr)+
  have i: "0 \<le> i" "i < num_hidden_layers (tr_config t)" using Cons.prems(2) by simp_all
  have Gpos: "0 < num_hidden_groups (tr_config t)"
    using lo hi assms(3) by (cases "0 < num_hidden_groups (tr_config t)") simp_all
  have Lpos: "0 < num_hidden_layers (tr_config t)" using i by simp
  have g0: "0 \<le> g" using g i(1) Lpos Gpos by (rule group_idx_nonneg)
  have gG: "g < num_hidden_groups (tr_config t)" using hi assms(3) Gpos by simp
  from Cons.IH [OF r] Cons.prems(2)
  obtain gs lpg' where len: "length gs = length rest"
    and idx: "\<forall>k < length rest. group_idx_of (tr_config t) (rest ! k) = Inr (gs ! k)
                   \<and> 0 \<le> gs ! k \<and> gs ! k < num_hidden_groups (tr_config t)"
    and lp: "rest \<noteq> [] \<longrightarrow> layers_per_group_of (tr_config t) = Inr lpg'"
    and run: "apply_groups t am hm lpg' gs st1 = Inr st'"
    by auto
  have run': "apply_groups t am hm lpg gs st1 = Inr st'"
  proof (cases "rest = []")
    case True
    then have "gs = []" using len by simp
    then show ?thesis using run by simp
  next
    case False
    then have "lpg' = lpg" using lp lpg by simp
    then show ?thesis using run by simp
  qed
  have all: "\<forall>k < length (i # rest). group_idx_of (tr_config t) ((i # rest) ! k) = Inr ((g # gs) ! k)
                   \<and> 0 \<le> (g # gs) ! k \<and> (g # gs) ! k < num_hidden_groups (tr_config t)"
  proof (intro allI impI)
    fix k assume "k < length (i # rest)"
    then show "group_idx_of (tr_config t) ((i # rest) ! k) = Inr ((g # gs) ! k)
                   \<and> 0 \<le> (g # gs) ! k \<and> (g # gs) ! k < num_hidden_groups (tr_config t)"
      using g g0 gG idx by (cases k) simp_all
  qed
  have "apply_groups t am hm lpg (g # gs) st = Inr st'" using ag run' by simp
  then show ?case
    using len all lpg by (intro exI [of _ "g # gs"] exI [of _ lpg]) simp
qed

lemma pigeonhole_indices:
  assumes "\<forall>k < length gs. 0 \<le> gs ! k \<and> gs ! k < (G::int)"
    and "0 \<le> G" and "G < int (length gs)"
  shows "\<exists>i j. i < j \<and> j < length gs \<and> gs ! i = gs ! j"
proof (rule ccontr)
  assume no: "\<not> (\<exists>i j. i < j \<and> j < length gs \<and> gs ! i = gs ! j)"
  have "distinct gs"
    unfolding distinct_conv_nth
  proof (intro allI impI)
    fix i j assume ij: "i < length gs" "j < length gs" "i \<noteq> j"
    show "gs ! i \<noteq> gs ! j"
    proof (cases "i < j")
      case True
      then show ?thesis using no ij by blast
    next
      case False
      then have "j < i" using ij(3) by simp
      then show ?thesis using no ij by metis
    qed
  qed
  then have c: "card (set gs) = length gs" by (rule distinct_card)
  have "set gs \<subseteq> {0 ..< G}"
    using assms(1) by (auto simp add: in_set_conv_nth)
  then have "card (set gs) \<le> card {0 ..< G}" by (intro card_mono) simp_all
  then have "length gs \<le> nat G" using c by simp
  then show False using assms(2,3) by simp
qed

lemma init_groups:
  "length (albert_layer_groups (AlbertTransformer_init config mapping_in mk))
     = nat (num_hidden_groups config)"
  "tr_config (AlbertTransformer_init config mapping_in mk) = config"
  "tr_output_attentions (AlbertTransformer_init config mapping_in mk) = output_attentions config"
  "tr_output_hidden_states (AlbertTransformer_init config mapping_in mk) = output_hidden_states config"
  "embedding_hidden_mapping_in (AlbertTransformer_init config mapping_in mk) = mapping_in"
  "0 \<le> g \<Longrightarrow> g < num_hidden_groups config \<Longrightarrow>
     py_index (albert_layer_groups (AlbertTransformer_init config mapping_in mk)) g
       = Inr (AlbertLayerGroup_init config (mk (nat g)))"
  by (simp_all add: AlbertTransformer_init_def py_index_def)

lemma floor_quotient_dvd:
  assumes "G \<noteq> 0" and "G dvd L"
  shows "\<lfloor>(of_int i :: rat) / (of_int L / of_int G)\<rfloor> = i div (L div G)"
proof -
  have "(of_int L :: rat) / of_int G = of_int (L div G)"
    using assms by (simp add: of_int_divide_in_Ints flip: of_int_div)
  then show ?thesis by (simp add: floor_divide_of_int_eq)
qed

lemma group_idx_zero:
  assumes "1 \<le> num_hidden_layers config" "num_hidden_layers config < 2 ^ 53"
    and "1 \<le> num_hidden_groups config" "num_hidden_groups config < 2 ^ 53"
  shows "group_idx_of config 0 = Inr 0"
proof -
  obtain r where d: "py_int_truediv (num_hidden_layers config) (num_hidden_groups config) = Inr (Fin r)"
    and r: "0 < r"
    using py_int_truediv_pos [OF assms] by blast
  have z: "py_float_of_int 0 = Inr (Fin 0)" by (simp add: py_float_of_int_def fl_round_def fl_overflow_def)
  have "\<not> fl_overflow 0" by (simp add: fl_overflow_def)
  then have "py_int_float_truediv 0 (Fin r) = Inr (Fin 0)"
    using r by (simp add: py_int_float_truediv_def z fl_round_def)
  then show ?thesis by (simp add: group_idx_of_def d)
qed

lemma group_idx_18_14_9: "group_idx_of float_config 9 = Inr 6"
proof -
  define Q :: rat where "Q = 5790342378047781 / 2 ^ 52"
  define R :: rat where "R = 7881299347898367 / 2 ^ 50"
  have q: "fl_round (of_int 18 / of_int 14) = Q"
    using fl_round_9_7 by (simp add: Q_def)
  have qo: "\<not> fl_overflow Q" by (simp add: Q_def fl_overflow_def)
  have q0: "Q \<noteq> 0" by (simp add: Q_def)
  have r: "fl_round (9 / Q) = R" unfolding Q_def R_def by (rule fl_round_9_q)
  have ro: "\<not> fl_overflow R" by (simp add: R_def fl_overflow_def)
  have r0: "0 \<le> R" by (simp add: R_def)
  have f: "\<lfloor>R\<rfloor> = 6" unfolding R_def by (rule floor_unique) simp_all
  have d: "py_int_truediv 18 14 = Inr (Fin Q)"
    using qo by (simp only: py_int_truediv_def Let_def q) simp
  have n: "py_float_of_int 9 = Inr (Fin 9)"
    using py_float_of_int_exact [of 9] by simp
  have t: "py_int_float_truediv 9 (Fin Q) = Inr (Fin R)"
    using q0 ro by (simp add: py_int_float_truediv_def n r)
  have "group_idx_of float_config 9 = Inr \<lfloor>R\<rfloor>"
    using r0 by (simp add: group_idx_of_def float_config_def demo_config_def d t)
  then show ?thesis by (simp only: f)
qed

lemma py_slice_length:
  assumes "0 \<le> a" and "a \<le> b" and "b \<le> int (length xs)"
  shows "length (py_slice xs a b) = nat (b - a)"
proof -
  have "py_slice xs a b = take (nat (b - a)) (drop (nat a) xs)"
    using assms by (simp add: py_slice_def Let_def min_def)
  moreover have "nat (b - a) \<le> length xs - nat a" using assms by linarith
  ultimately show ?thesis by simp
qed

lemma quotient_index_bounds:
  assumes "1 \<le> (G::int)" and "G dvd L" and "0 \<le> i" and "i < L"
  shows "1 \<le> L div G" and "0 \<le> i div (L div G)" and "i div (L div G) < G"
    and "(i div (L div G) + 1) * (L div G) \<le> L"
proof -
  let ?q = "L div G"
  have qG: "?q * G = L" using assms(2) by simp
  have Lpos: "0 < L" using assms(3,4) by simp
  show q1: "1 \<le> ?q"
  proof (rule ccontr)
    assume "\<not> 1 \<le> ?q"
    then have "?q \<le> 0" by simp
    then have "?q * G \<le> 0" using assms(1) by (simp add: mult_le_0_iff)
    then show False using qG Lpos by simp
  qed
  then have q0: "0 < ?q" by simp
  show g0: "0 \<le> i div ?q" using assms(3) q0 by (simp add: pos_imp_zdiv_nonneg_iff)
  have eq: "i div ?q * ?q + i mod ?q = i" by (rule div_mult_mod_eq)
  have m0: "0 \<le> i mod ?q" using q0 by simp
  have "i div ?q * ?q \<le> i" using eq m0 by linarith
  then have "i div ?q * ?q < G * ?q" using assms(4) qG by (simp add: mult.commute)
  then show lt: "i div ?q < G" using q0 by (simp add: mult_less_cancel_right)
  then have "i div ?q + 1 \<le> G" by simp
  then have "(i div ?q + 1) * ?q \<le> G * ?q" using q0 by (intro mult_right_mono) simp_all
  then show "(i div ?q + 1) * ?q \<le> L" using qG by (simp add: mult.commute)
qed

lemma layer_output:
  assumes "AlbertLayer_forward l x am m = Inr out"
  shows "out \<noteq> []" and "att_output_attentions (attention l) \<Longrightarrow> 2 \<le> length out"
  using assms
  by (auto simp add: AlbertLayer_forward_def AlbertAttention_forward_def ebind_Inr_iff
        split: prod.splits if_splits)

lemma t_rows_stack:
  assumes "\<forall>r \<in> set rs. shape r = ds \<and> length (elems r) = numel ds"
  shows "t_rows (t_stack ds rs) = rs"
proof -
  have "blocks (length (map elems rs)) (numel ds) (concat (map elems rs)) = map elems rs"
    using assms by (intro blocks_concat) auto
  then have "t_rows (t_stack ds rs) = map (\<lambda>b. \<lparr> shape = ds, elems = b \<rparr>) (map elems rs)"
    by (simp add: t_rows_def t_stack_def)
  also have "\<dots> = map (\<lambda>r. r) rs"
    unfolding map_map using assms by (intro map_cong) auto
  finally show ?thesis by simp
qed

lemma t_rows_wf:
  assumes "wf_tensor t" and "shape t = d # ds"
  shows "length (t_rows t) = d"
    and "\<forall>r \<in> set (t_rows t). shape r = ds \<and> length (elems r) = numel ds"
proof -
  show "length (t_rows t) = d" using assms(2) by (simp add: t_rows_def blocks_def)
  have len: "length (elems t) = d * numel ds"
    using assms by (simp add: wf_tensor_def numel_def)
  show "\<forall>r \<in> set (t_rows t). shape r = ds \<and> length (elems r) = numel ds"
    using assms(2) blocks_lengths [OF len] by (auto simp add: t_rows_def)
qed

lemma py_slice_nth:
  assumes "0 \<le> a" and "a \<le> b" and "b \<le> int (length xs)" and "j < nat (b - a)"
  shows "py_index (py_slice xs a b) (int j) = Inr (xs ! (nat a + j))"
proof -
  have s: "py_slice xs a b = take (nat (b - a)) (drop (nat a) xs)"
    using assms by (simp add: py_slice_def Let_def min_def)
  have l: "length (py_slice xs a b) = nat (b - a)" using assms(1-3) by (rule py_slice_length)
  have "nat a + j < length xs" using assms by linarith
  then have "py_slice xs a b ! j = xs ! (nat a + j)" using assms(4) by (simp add: s)
  moreover have "j < length (py_slice xs a b)" using l assms(4) by simp
  ultimately show ?thesis by (simp add: py_index_def)
qed

lemma slice_index:
  assumes cov: "head_mask_covers hm L"
    and a: "0 \<le> a" "a \<le> b" "b \<le> L" and j: "j < nat (b - a)"
  shows "\<exists>hm'. hm_slice hm a b = Inr hm'
               \<and> hm_index hm' (int j) = Inr (head_mask_entries hm ! (nat a + j))"
proof (cases hm)
  case HMNone
  then show ?thesis using cov by (simp add: head_mask_covers_def)
next
  case (HMList xs)
  then have "b \<le> int (length xs)" using cov a(3) by (simp add: head_mask_covers_def)
  from py_slice_nth [OF a(1,2) this j] show ?thesis
    using HMList by (simp add: head_mask_entries_def)
next
  case (HMTensor t)
  then have wf: "wf_tensor t" and ne: "shape t \<noteq> []" and L: "L \<le> int (hd (shape t))"
    using cov by (simp_all add: head_mask_covers_def)
  obtain d ds where sh: "shape t = d # ds" using ne by (cases "shape t") auto
  note rows = t_rows_wf [OF wf sh]
  have b: "b \<le> int (length (t_rows t))" using a(3) L sh rows(1) by simp
  let ?rs = "py_slice (t_rows t) a b"
  have "set ?rs \<subseteq> set (t_rows t)"
    by (auto simp add: py_slice_def Let_def dest: in_set_takeD in_set_dropD)
  then have "\<forall>r \<in> set ?rs. shape r = ds \<and> length (elems r) = numel ds" using rows(2) by blast
  then have st: "t_rows (t_stack ds ?rs) = ?rs" by (rule t_rows_stack)
  have "nat a + j < length (t_rows t)" using a b j by linarith
  then have e: "head_mask_entries hm ! (nat a + j) = Some (t_rows t ! (nat a + j))"
    using HMTensor by (simp add: head_mask_entries_def)
  have "hm_index (HMTensor (t_stack ds ?rs)) (int j) = Inr (Some (t_rows t ! (nat a + j)))"
    using py_slice_nth [OF a(1,2) b j] by (simp add: st) (simp add: t_stack_def)
  then show ?thesis using HMTensor sh e by simp
qed

lemma group_loop_returns:
  assumes "\<forall>(j, l) \<in> set ls. \<exists>m. hm_index hm (int j) = Inr m
             \<and> (lg_output_attentions g \<longrightarrow> att_output_attentions (attention l))
             \<and> (\<forall>x. P x \<longrightarrow> (\<exists>out. AlbertLayer_forward l x am m = Inr out \<and> P (out ! 0)))"
    and "P (fst st)"
  shows "\<exists>st'. group_loop g am hm ls st = Inr st' \<and> P (fst st')"
  using assms
proof (induction ls arbitrary: st)
  case Nil
  then show ?case by (intro exI [of _ st]) simp
next
  case (Cons p rest)
  obtain j l where p: "p = (j, l)" by (cases p)
  obtain h atts hs where st: "st = (h, atts, hs)" by (cases st)
  have Ph: "P h" using Cons.prems(2) st by simp
  obtain m where hm: "hm_index hm (int j) = Inr m"
    and fl: "lg_output_attentions g \<longrightarrow> att_output_attentions (attention l)"
    and ret: "\<forall>x. P x \<longrightarrow> (\<exists>out. AlbertLayer_forward l x am m = Inr out \<and> P (out ! 0))"
    using Cons.prems(1) p by auto
  obtain out where out: "AlbertLayer_forward l h am m = Inr out" "P (out ! 0)"
    using ret Ph by blast
  note lo = layer_output [OF out(1)]
  have i0: "py_index out 0 = Inr (out ! 0)" using lo(1) by (simp add: py_index_def)
  have i1: "lg_output_attentions g \<Longrightarrow> py_index out 1 = Inr (out ! 1)"
    using lo(2) fl by (simp add: py_index_def)
  have rest: "\<forall>(j, l) \<in> set rest. \<exists>m. hm_index hm (int j) = Inr m
             \<and> (lg_output_attentions g \<longrightarrow> att_output_attentions (attention l))
             \<and> (\<forall>x. P x \<longrightarrow> (\<exists>out. AlbertLayer_forward l x am m = Inr out \<and> P (out ! 0)))"
    using Cons.prems(1) by simp
  show ?case
  proof (cases "lg_output_attentions g")
    case True
    have "P (fst (out ! 0, atts @ [out ! 1],
                  if lg_output_hidden_states g then hs @ [out ! 0] else hs))"
      using out(2) by simp
    from Cons.IH [OF rest this] show ?thesis
      using True by (simp add: p st hm out(1) i0 i1)
  next
    case False
    have "P (fst (out ! 0, atts, if lg_output_hidden_states g then hs @ [out ! 0] else hs))"
      using out(2) by simp
    from Cons.IH [OF rest this] show ?thesis
      using False by (simp add: p st hm out(1) i0)
  qed
qed

lemma group_forward_returns:
  assumes "\<forall>j < nat (inner_group_num config). \<exists>m. hm_index hm (int j) = Inr m
             \<and> (output_attentions config \<longrightarrow> att_output_attentions (attention (mk j)))
             \<and> (\<forall>x. P x \<longrightarrow> (\<exists>out. AlbertLayer_forward (mk j) x am m = Inr out \<and> P (out ! 0)))"
    and "P x"
  shows "\<exists>h rest. AlbertLayerGroup_forward (AlbertLayerGroup_init config mk) x am hm
                    = Inr (Ten h # rest) \<and> P h
           \<and> (output_attentions config \<longrightarrow> (\<exists>atts. last (Ten h # rest) = Tup atts))"
proof -
  let ?g = "AlbertLayerGroup_init config mk"
  have a: "\<forall>(j, l) \<in> set (enumerate 0 (albert_layers ?g)). \<exists>m. hm_index hm (int j) = Inr m
             \<and> (lg_output_attentions ?g \<longrightarrow> att_output_attentions (attention l))
             \<and> (\<forall>x. P x \<longrightarrow> (\<exists>out. AlbertLayer_forward l x am m = Inr out \<and> P (out ! 0)))"
    using assms(1)
    by (auto simp add: AlbertLayerGroup_init_def in_set_enumerate_eq)
  have b: "P (fst (x, [], []))" using assms(2) by simp
  obtain st' where "group_loop ?g am hm (enumerate 0 (albert_layers ?g)) (x, [], []) = Inr st'"
    and "P (fst st')"
    using group_loop_returns [OF a b] by blast
  then show ?thesis
    by (cases st') (simp add: AlbertLayerGroup_forward_def AlbertLayerGroup_init_def)
qed

lemma apply_group_returns:
  assumes t: "t = AlbertTransformer_init config mapping_in mk"
    and lr: "layers_return config mk am (head_mask_entries hm) P"
    and cov: "head_mask_covers hm (num_hidden_layers config)"
    and g: "0 \<le> g" "g < num_hidden_groups config"
    and q: "q = num_hidden_layers config div num_hidden_groups config"
    and lpg: "0 \<le> q" "inner_group_num config \<le> q" "(g + 1) * q \<le> num_hidden_layers config"
    and P: "P (fst st)"
  shows "\<exists>st'. apply_group t am hm q g st = Inr st' \<and> P (fst st')"
proof -
  obtain h atts hs where st: "st = (h, atts, hs)" by (cases st)
  have Ph: "P h" using P st by simp
  have idx: "py_index (albert_layer_groups t) g = Inr (AlbertLayerGroup_init config (mk (nat g)))"
    using g by (simp add: t init_groups)
  have le: "g * q \<le> (g + 1) * q" using lpg(1) by (simp add: distrib_right)
  have nn: "0 \<le> g * q" using g(1) lpg(1) by simp
  have w: "nat ((g + 1) * q - g * q) = nat q" by (simp add: distrib_right)
  have na: "nat (g * q) = nat g * nat q" using g(1) lpg(1) by (simp add: nat_mult_distrib)
  have gn: "nat g < nat (num_hidden_groups config)" using g by simp
  have sl: "\<exists>hm'. hm_slice hm (g * q) ((g + 1) * q) = Inr hm'
            \<and> (\<forall>j < nat (inner_group_num config). hm_index hm' (int j)
                   = Inr (head_mask_entries hm ! (nat g * nat q + j)))"
  proof (cases "nat (inner_group_num config)")
    case 0
    have "\<exists>hm'. hm_slice hm (g * q) ((g + 1) * q) = Inr hm'"
      using cov by (cases hm) (simp_all add: head_mask_covers_def)
    then show ?thesis using 0 by simp
  next
    case (Suc k)
    then have "0 < nat ((g + 1) * q - g * q)" using lpg(2) w by simp
    from slice_index [OF cov nn le lpg(3) this]
    obtain hm' where s: "hm_slice hm (g * q) ((g + 1) * q) = Inr hm'" by blast
    have "\<forall>j < nat (inner_group_num config). hm_index hm' (int j)
                   = Inr (head_mask_entries hm ! (nat g * nat q + j))"
    proof (intro allI impI)
      fix j assume "j < nat (inner_group_num config)"
      then have "j < nat ((g + 1) * q - g * q)" using lpg(2) w by simp
      from slice_index [OF cov nn le lpg(3) this] s
      show "hm_index hm' (int j) = Inr (head_mask_entries hm ! (nat g * nat q + j))"
        by (simp add: na)
    qed
    then show ?thesis using s by blast
  qed
  then obtain hm' where s: "hm_slice hm (g * q) ((g + 1) * q) = Inr hm'"
    and e: "\<forall>j < nat (inner_group_num config). hm_index hm' (int j)
                   = Inr (head_mask_entries hm ! (nat g * nat q + j))"
    by blast
  have a: "\<forall>j < nat (inner_group_num config). \<exists>m. hm_index hm' (int j) = Inr m
             \<and> (output_attentions config \<longrightarrow> att_output_attentions (attention (mk (nat g) j)))
             \<and> (\<forall>x. P x \<longrightarrow> (\<exists>out. AlbertLayer_forward (mk (nat g) j) x am m = Inr out \<and> P (out ! 0)))"
    using lr gn e unfolding layers_return_def q by simp
  obtain h' rest where gf: "AlbertLayerGroup_forward (AlbertLayerGroup_init config (mk (nat g))) h am hm'
                              = Inr (Ten h' # rest)"
    and Ph': "P h'"
    and la: "output_attentions config \<longrightarrow> (\<exists>a. last (Ten h' # rest) = Tup a)"
    using group_forward_returns [OF a Ph] by blast
  have i0: "py_index (Ten h' # rest) 0 = Inr (Ten h')" by (simp add: py_index_def)
  have il: "py_index (Ten h' # rest) (- 1) = Inr (last (Ten h' # rest))"
    by (simp add: py_index_def last_conv_nth nat_diff_distrib)
  have fl: "tr_output_attentions t = output_attentions config"
    by (simp add: t init_groups)
  show ?thesis
  proof (cases "output_attentions config")
    case True
    then obtain a where "last (Ten h' # rest) = Tup a" using la by blast
    then show ?thesis
      using True Ph' by (simp add: apply_group_def st idx s gf i0 il fl del: last.simps)
  next
    case False
    then show ?thesis
      using Ph' by (simp add: apply_group_def st idx s gf i0 fl)
  qed
qed

lemma transformer_loop_returns:
  assumes t: "t = AlbertTransformer_init config mapping_in mk"
    and lr: "layers_return config mk am (head_mask_entries hm) P"
    and G: "1 \<le> num_hidden_groups config" "num_hidden_groups config dvd num_hidden_layers config"
    and L: "num_hidden_layers config < 2 ^ 53"
    and inner: "inner_group_num config \<le> num_hidden_layers config div num_hidden_groups config"
    and cov: "head_mask_covers hm (num_hidden_layers config)"
    and rng: "\<forall>i \<in> set is. 0 \<le> i \<and> i < num_hidden_layers config"
    and P: "P (fst st)"
  shows "\<exists>st'. transformer_loop t am hm is st = Inr st'"
  using rng P
proof (induction "is" arbitrary: st)
  case Nil
  show ?case by (intro exI [of _ st]) simp
next
  case (Cons i rest)
  let ?L = "num_hidden_layers config" and ?G = "num_hidden_groups config"
  have i: "0 \<le> i" "i < ?L" using Cons.prems by simp_all
  note b = quotient_index_bounds [OF G i]
  have cfg: "tr_config t = config" by (simp add: t init_groups)
  have Lpos: "0 < ?L" using i by simp
  have GL: "?G \<le> ?L" using G(2) Lpos by (rule zdvd_imp_le)
  have lpg: "layers_per_group_of config = Inr (?L div ?G)"
    using Lpos L G(1) GL by (intro layers_per_group_floor) simp_all
  have gi: "group_idx_of config i = Inr (i div (?L div ?G))"
    using G L i by (rule group_idx_dvd)
  have q0: "0 \<le> ?L div ?G" using b(1) by simp
  from apply_group_returns [OF t lr cov b(2) b(3) refl q0 inner b(4) Cons.prems(2)]
  obtain st1 where a: "apply_group t am hm (?L div ?G) (i div (?L div ?G)) st = Inr st1"
    and P1: "P (fst st1)"
    by blast
  have step: "transformer_step t am hm i st = Inr st1"
    by (simp add: transformer_step_def cfg lpg gi a)
  obtain st' where "transformer_loop t am hm rest st1 = Inr st'"
    using Cons.IH [OF _ P1] Cons.prems(1) by auto
  then show ?case by (intro exI [of _ st']) (simp add: step)
qed

lemma forward_returns:
  assumes t: "t = AlbertTransformer_init config mapping_in mk"
    and lr: "layers_return config mk attention_mask (head_mask_entries head_mask) P"
    and G: "1 \<le> num_hidden_groups config" "num_hidden_groups config dvd num_hidden_layers config"
    and L: "num_hidden_layers config < 2 ^ 53"
    and inner: "inner_group_num config \<le> num_hidden_layers config div num_hidden_groups config"
    and cov: "head_mask_covers head_mask (num_hidden_layers config)"
    and lin: "Linear_forward mapping_in hidden_states = Inr h0" "P h0"
  shows "\<exists>outputs. AlbertTransformer_forward t hidden_states attention_mask head_mask = Inr outputs"
proof -
  have rng: "\<forall>i \<in> set (py_range (num_hidden_layers config)). 0 \<le> i \<and> i < num_hidden_layers config"
    by (auto simp add: py_range_def)
  have P0: "P (fst (h0, [], if tr_output_hidden_states t then [Ten h0] else []))"
    using lin(2) by simp
  obtain st' where "transformer_loop t attention_mask head_mask (py_range (num_hidden_layers config))
                      (h0, [], if tr_output_hidden_states t then [Ten h0] else []) = Inr st'"
    using transformer_loop_returns [OF t lr G L inner cov rng P0] by blast
  then show ?thesis
    using lin(1) by (cases st') (simp add: AlbertTransformer_forward_def t init_groups)
qed

lemma forward_zero_groups:
  assumes t: "t = AlbertTransformer_init config mapping_in mk"
    and G: "num_hidden_groups config = 0" and L: "1 \<le> num_hidden_layers config"
    and lin: "Linear_forward mapping_in hidden_states = Inr h0"
  shows "AlbertTransformer_forward t hidden_states attention_mask head_mask = Inl ZeroDivisionError"
proof -
  have "nat (num_hidden_layers config) = Suc (nat (num_hidden_layers config) - 1)" using L by simp
  then have "[0 ..< nat (num_hidden_layers config)] = 0 # [Suc 0 ..< nat (num_hidden_layers config)]"
    by (simp add: upt_conv_Cons)
  then have r: "py_range (num_hidden_layers config)
                = 0 # map int [Suc 0 ..< nat (num_hidden_layers config)]"
    by (simp add: py_range_def)
  have z: "layers_per_group_of config = Inl ZeroDivisionError"
    by (simp add: layers_per_group_of_def py_int_truediv_def G)
  show ?thesis
    by (simp add: AlbertTransformer_forward_def t init_groups lin r transformer_step_def z)
qed

lemma forward_trace:
  fixes t :: "'a::semiring_0 AlbertTransformer"
  assumes t: "t = AlbertTransformer_init config mapping_in mk"
    and run: "AlbertTransformer_forward t hidden_states attention_mask head_mask = Inr outputs"
  shows "\<exists>gs layers_per_group h0 st.
           length gs = nat (num_hidden_layers config)
         \<and> (\<forall>i < nat (num_hidden_layers config).
                group_idx_of config (int i) = Inr (gs ! i)
              \<and> 0 \<le> gs ! i \<and> gs ! i < num_hidden_groups config
              \<and> py_index (albert_layer_groups t) (gs ! i)
                  = Inr (AlbertLayerGroup_init config (mk (nat (gs ! i)))))
         \<and> Linear_forward mapping_in hidden_states = Inr h0
         \<and> apply_groups t attention_mask head_mask layers_per_group gs
               (h0, [], if output_hidden_states config then [Ten h0] else []) = Inr st
         \<and> outputs = transformer_outputs t st
         \<and> (0 \<le> num_hidden_groups config \<and> num_hidden_groups config < num_hidden_layers config \<longrightarrow>
               (\<exists>i j. i < j \<and> j < nat (num_hidden_layers config) \<and> gs ! i = gs ! j))
         \<and> (1 \<le> num_hidden_groups config \<and> num_hidden_groups config dvd num_hidden_layers config
              \<and> num_hidden_layers config < 2 ^ 53 \<longrightarrow>
               (\<forall>i < nat (num_hidden_layers config).
                  gs ! i = int i div (num_hidden_layers config div num_hidden_groups config)
                \<and> gs ! i = \<lfloor>(of_int (int i) :: rat)
                               / (of_int (num_hidden_layers config) / of_int (num_hidden_groups config))\<rfloor>))"
proof -
  let ?L = "num_hidden_layers config" and ?G = "num_hidden_groups config"
  have cfg: "tr_config t = config" and len: "length (albert_layer_groups t) = nat ?G"
    and flags: "tr_output_hidden_states t = output_hidden_states config"
    and emb: "embedding_hidden_mapping_in t = mapping_in"
    by (simp_all add: t init_groups)
  from run obtain h0 st where h0: "Linear_forward mapping_in hidden_states = Inr h0"
    and loop: "transformer_loop t attention_mask head_mask (py_range ?L)
                 (h0, [], if output_hidden_states config then [Ten h0] else []) = Inr st"
    and out: "outputs = transformer_outputs t st"
    by (auto simp add: AlbertTransformer_forward_def ebind_Inr_iff cfg flags emb
          transformer_outputs_def split: prod.splits)
  have rng: "\<forall>i \<in> set (py_range ?L). 0 \<le> i \<and> i < num_hidden_layers (tr_config t)"
    by (auto simp add: py_range_def cfg)
  have len': "length (albert_layer_groups t) = nat (num_hidden_groups (tr_config t))"
    using len cfg by simp
  from loop_trace [OF loop rng len']
  obtain gs lpg where gl: "length gs = nat ?L"
    and idx: "\<forall>k < nat ?L. group_idx_of config (int k) = Inr (gs ! k) \<and> 0 \<le> gs ! k \<and> gs ! k < ?G"
    and ag: "apply_groups t attention_mask head_mask lpg gs
               (h0, [], if output_hidden_states config then [Ten h0] else []) = Inr st"
    by (auto simp add: py_range_def cfg)
  have mods: "\<forall>i < nat ?L. group_idx_of config (int i) = Inr (gs ! i)
              \<and> 0 \<le> gs ! i \<and> gs ! i < ?G
              \<and> py_index (albert_layer_groups t) (gs ! i)
                  = Inr (AlbertLayerGroup_init config (mk (nat (gs ! i))))"
    using idx by (simp add: t init_groups)
  have share: "0 \<le> ?G \<and> ?G < ?L \<longrightarrow> (\<exists>i j. i < j \<and> j < nat ?L \<and> gs ! i = gs ! j)"
  proof
    assume a: "0 \<le> ?G \<and> ?G < ?L"
    have b: "\<forall>k < length gs. 0 \<le> gs ! k \<and> gs ! k < ?G" using idx gl by simp
    have c: "?G < int (length gs)" using a gl by simp
    show "\<exists>i j. i < j \<and> j < nat ?L \<and> gs ! i = gs ! j"
      using pigeonhole_indices [OF b _ c] a gl by simp
  qed
  have formula: "1 \<le> ?G \<and> ?G dvd ?L \<and> ?L < 2 ^ 53 \<longrightarrow>
               (\<forall>i < nat ?L. gs ! i = int i div (?L div ?G)
                \<and> gs ! i = \<lfloor>(of_int (int i) :: rat) / (of_int ?L / of_int ?G)\<rfloor>)"
  proof (intro impI allI)
    fix i assume a: "1 \<le> ?G \<and> ?G dvd ?L \<and> ?L < 2 ^ 53" and i: "i < nat ?L"
    have "group_idx_of config (int i) = Inr (int i div (?L div ?G))"
      using a i by (intro group_idx_dvd) simp_all
    then have e: "gs ! i = int i div (?L div ?G)" using idx i by simp
    have "\<lfloor>(of_int (int i) :: rat) / (of_int ?L / of_int ?G)\<rfloor> = int i div (?L div ?G)"
      using a by (intro floor_quotient_dvd) simp_all
    then show "gs ! i = int i div (?L div ?G)
                \<and> gs ! i = \<lfloor>(of_int (int i) :: rat) / (of_int ?L / of_int ?G)\<rfloor>"
      using e by simp
  qed
  show ?thesis
    using gl mods h0 ag out share formula
    by (intro exI [of _ gs] exI [of _ lpg] exI [of _ h0] exI [of _ st]) blast
qed

text \<open>
  Claim C8. \<^verbatim>\<open>AlbertModel.forward\<close> raises ValueError when both \<open>input_ids\<close> and
  \<open>inputs_embeds\<close> are given and when neither is given. When exactly one is given, so that
  the input shape is \<open>s\<close>, leaving out the attention mask gives the result of passing the
  tensor of shape \<open>s\<close> whose elements are all one, and leaving out the token type ids gives
  the result of passing the tensor of shape \<open>s\<close> whose elements are all zero, whatever the
  embeddings, the encoder and the pooler of the model are.
\<close>

theorem input_selection_and_defaults:
  "(in_input_ids inp \<noteq> None \<and> in_inputs_embeds inp \<noteq> None \<longrightarrow>
      AlbertModel_forward m inp
      = Inl (ValueError ''You cannot specify both input_ids and inputs_embeds at the same time''))
   \<and> (in_input_ids inp = None \<and> in_inputs_embeds inp = None \<longrightarrow>
      AlbertModel_forward m inp
      = Inl (ValueError ''You have to specify either input_ids or inputs_embeds''))
   \<and> (input_shape_of inp = Some s \<longrightarrow>
        AlbertModel_forward m (inp\<lparr>in_attention_mask := None\<rparr>)
        = AlbertModel_forward m
            (inp\<lparr>in_attention_mask := Some \<lparr>shape = s, elems = replicate (prod_list s) 1\<rparr>\<rparr>)
      \<and> AlbertModel_forward m (inp\<lparr>in_token_type_ids := None\<rparr>)
        = AlbertModel_forward m
            (inp\<lparr>in_token_type_ids := Some \<lparr>shape = s, elems = replicate (prod_list s) 0\<rparr>\<rparr>)
      \<and> AlbertModel_forward m (inp\<lparr>in_attention_mask := None, in_token_type_ids := None\<rparr>)
        = AlbertModel_forward m
            (inp\<lparr>in_attention_mask := Some \<lparr>shape = s, elems = replicate (prod_list s) 1\<rparr>,
                 in_token_type_ids := Some \<lparr>shape = s, elems = replicate (prod_list s) 0\<rparr>\<rparr>))"
proof (intro conjI impI)
  assume "in_input_ids inp \<noteq> None \<and> in_inputs_embeds inp \<noteq> None"
  then show "AlbertModel_forward m inp
      = Inl (ValueError ''You cannot specify both input_ids and inputs_embeds at the same time'')"
    by (simp add: AlbertModel_forward_def ebind_def)
next
  assume "in_input_ids inp = None \<and> in_inputs_embeds inp = None"
  then show "AlbertModel_forward m inp
      = Inl (ValueError ''You have to specify either input_ids or inputs_embeds'')"
    by (simp add: AlbertModel_forward_def ebind_def)
next
  assume s: "input_shape_of inp = Some s"
  show "AlbertModel_forward m (inp\<lparr>in_attention_mask := None\<rparr>)
        = AlbertModel_forward m
            (inp\<lparr>in_attention_mask := Some \<lparr>shape = s, elems = replicate (prod_list s) 1\<rparr>\<rparr>)"
    using s by (auto simp add: input_shape_of_def AlbertModel_forward_def ebind_def t_full_def
                     numel_def split: option.splits)
next
  assume s: "input_shape_of inp = Some s"
  show "AlbertModel_forward m (inp\<lparr>in_token_type_ids := None\<rparr>)
        = AlbertModel_forward m
            (inp\<lparr>in_token_type_ids := Some \<lparr>shape = s, elems = replicate (prod_list s) 0\<rparr>\<rparr>)"
    using s by (auto simp add: input_shape_of_def AlbertModel_forward_def ebind_def t_full_def
                     numel_def split: option.splits)
next
  assume s: "input_shape_of inp = Some s"
  show "AlbertModel_forward m (inp\<lparr>in_attention_mask := None, in_token_type_ids := None\<rparr>)
        = AlbertModel_forward m
            (inp\<lparr>in_attention_mask := Some \<lparr>shape = s, elems = replicate (prod_list s) 1\<rparr>,
                 in_token_type_ids := Some \<lparr>shape = s, elems = replicate (prod_list s) 0\<rparr>\<rparr>)"
    using s by (auto simp add: input_shape_of_def AlbertModel_forward_def ebind_def t_full_def
                     numel_def split: option.splits)
qed

theorem input_selection_and_defaults_witness:
  "AlbertModel_forward probe_model
     (demo_inputs\<lparr>in_inputs_embeds := Some \<lparr>shape = [1, 2, 1], elems = [1, 2]\<rparr>\<rparr>)
   = Inl (ValueError ''You cannot specify both input_ids and inputs_embeds at the same time'')
   \<and> AlbertModel_forward probe_model (demo_inputs\<lparr>in_input_ids := None\<rparr>)
   = Inl (ValueError ''You have to specify either input_ids or inputs_embeds'')
   \<and> input_shape_of demo_inputs = Some [1, 2]
   \<and> AlbertModel_forward probe_model demo_inputs
   = Inr [Ten \<lparr>shape = [1, 2, 1], elems = [346, 602]\<rparr>, Ten \<lparr>shape = [1, 1], elems = [346]\<rparr>]
   \<and> AlbertModel_forward probe_model
       (demo_inputs\<lparr>in_attention_mask := Some \<lparr>shape = [1, 2], elems = [1, 1]\<rparr>,
                     in_token_type_ids := Some \<lparr>shape = [1, 2], elems = [0, 0]\<rparr>\<rparr>)
   = Inr [Ten \<lparr>shape = [1, 2, 1], elems = [346, 602]\<rparr>, Ten \<lparr>shape = [1, 1], elems = [346]\<rparr>]
   \<and> AlbertModel_forward probe_model
       (demo_inputs\<lparr>in_attention_mask := Some \<lparr>shape = [1, 2], elems = [0, 0]\<rparr>,
                     in_token_type_ids := Some \<lparr>shape = [1, 2], elems = [0, 0]\<rparr>\<rparr>)
   = Inr [Ten \<lparr>shape = [1, 2, 1], elems = [- 1699654, - 1699398]\<rparr>,
          Ten \<lparr>shape = [1, 1], elems = [- 1699654]\<rparr>]
   \<and> AlbertModel_forward probe_model
       (demo_inputs\<lparr>in_attention_mask := Some \<lparr>shape = [1, 2], elems = [1, 1]\<rparr>,
                     in_token_type_ids := Some \<lparr>shape = [1, 2], elems = [5, 9]\<rparr>\<rparr>)
   = Inr [Ten \<lparr>shape = [1, 2, 1], elems = [13146, 23642]\<rparr>, Ten \<lparr>shape = [1, 1], elems = [13146]\<rparr>]"
proof -
  have s: "input_shape_of demo_inputs = Some [1, 2]"
    by (simp add: input_shape_of_def demo_inputs_def)
  have d: "demo_inputs\<lparr>in_attention_mask := None, in_token_type_ids := None\<rparr> = demo_inputs"
    by (simp add: demo_inputs_def)
  have f: "replicate (prod_list [1, 2]) (1::rat) = [1, 1]"
          "replicate (prod_list [1, 2]) (0::int) = [0, 0]"
    by (simp_all add: eval_nat_numeral)
  have e1: "AlbertModel_forward probe_model
              (demo_inputs\<lparr>in_inputs_embeds := Some \<lparr>shape = [1, 2, 1], elems = [1, 2]\<rparr>\<rparr>)
            = Inl (ValueError ''You cannot specify both input_ids and inputs_embeds at the same time'')"
    using input_selection_and_defaults
            [of "demo_inputs\<lparr>in_inputs_embeds := Some \<lparr>shape = [1, 2, 1], elems = [1, 2]\<rparr>\<rparr>"
                probe_model "[]"]
    by (simp add: demo_inputs_def)
  have e2: "AlbertModel_forward probe_model (demo_inputs\<lparr>in_input_ids := None\<rparr>)
            = Inl (ValueError ''You have to specify either input_ids or inputs_embeds'')"
    using input_selection_and_defaults [of "demo_inputs\<lparr>in_input_ids := None\<rparr>" probe_model "[]"]
    by (simp add: demo_inputs_def)
  have e3: "AlbertModel_forward probe_model
       (demo_inputs\<lparr>in_attention_mask := Some \<lparr>shape = [1, 2], elems = [1, 1]\<rparr>,
                     in_token_type_ids := Some \<lparr>shape = [1, 2], elems = [0, 0]\<rparr>\<rparr>)
      = Inr [Ten \<lparr>shape = [1, 2, 1], elems = [346, 602]\<rparr>, Ten \<lparr>shape = [1, 1], elems = [346]\<rparr>]"
    using probe_model_forward [where ma = 1 and mb = 1 and ta = 0 and tb = 0] by simp
  have "AlbertModel_forward probe_model (demo_inputs\<lparr>in_attention_mask := None, in_token_type_ids := None\<rparr>)
        = AlbertModel_forward probe_model
            (demo_inputs\<lparr>in_attention_mask := Some \<lparr>shape = [1, 2], elems = replicate (prod_list [1, 2]) 1\<rparr>,
                          in_token_type_ids := Some \<lparr>shape = [1, 2], elems = replicate (prod_list [1, 2]) 0\<rparr>\<rparr>)"
    using input_selection_and_defaults [of demo_inputs probe_model "[1, 2]"] s by blast
  then have e4: "AlbertModel_forward probe_model demo_inputs
      = Inr [Ten \<lparr>shape = [1, 2, 1], elems = [346, 602]\<rparr>, Ten \<lparr>shape = [1, 1], elems = [346]\<rparr>]"
    using e3 by (simp only: d f)
  have e5: "AlbertModel_forward probe_model
       (demo_inputs\<lparr>in_attention_mask := Some \<lparr>shape = [1, 2], elems = [0, 0]\<rparr>,
                     in_token_type_ids := Some \<lparr>shape = [1, 2], elems = [0, 0]\<rparr>\<rparr>)
      = Inr [Ten \<lparr>shape = [1, 2, 1], elems = [- 1699654, - 1699398]\<rparr>,
             Ten \<lparr>shape = [1, 1], elems = [- 1699654]\<rparr>]"
    using probe_model_forward [where ma = 0 and mb = 0 and ta = 0 and tb = 0] by simp
  have e6: "AlbertModel_forward probe_model
       (demo_inputs\<lparr>in_attention_mask := Some \<lparr>shape = [1, 2], elems = [1, 1]\<rparr>,
                     in_token_type_ids := Some \<lparr>shape = [1, 2], elems = [5, 9]\<rparr>\<rparr>)
      = Inr [Ten \<lparr>shape = [1, 2, 1], elems = [13146, 23642]\<rparr>, Ten \<lparr>shape = [1, 1], elems = [13146]\<rparr>]"
    using probe_model_forward [where ma = 1 and mb = 1 and ta = 5 and tb = 9] by simp
  show ?thesis using e1 e2 s e3 e4 e5 e6 by blast
qed
text \<open>
  Claim C6. Let the head have produced start logits of shape \<open>(B, S)\<close>. When both label
  tensors are given, their elements are clamped into \<open>[0, S]\<close>, the two cross-entropy
  losses are computed with \<open>ignore_index = S\<close> on the clamped labels, and the loss put in
  front of the outputs is half the sum of the two losses. When a label tensor is absent
  the outputs are returned without a loss.
\<close>

theorem qa_loss_definition:
  assumes "qa_logits m inp = Inr (start_logits, end_logits, outputs)"
    and "shape start_logits = [B, S]"
  shows "(let st' = clamp_inplace 0 (int S) (label_view ep) (clamp_inplace 0 (int S) (label_view sp) st);
              start_positions = t_read st' (label_view sp);
              end_positions = t_read st' (label_view ep)
          in (\<forall>x \<in> set (elems start_positions) \<union> set (elems end_positions). 0 \<le> x \<and> x \<le> int S)
             \<and> fst (AlbertForQuestionAnswering_forward nn m inp (Some sp) (Some ep) st) = st'
             \<and> (\<forall>start_loss end_loss.
                   CrossEntropyLoss nn (int S) start_logits start_positions = Inr start_loss
                   \<and> CrossEntropyLoss nn (int S) end_logits end_positions = Inr end_loss
                   \<and> shape start_loss = shape end_loss
                   \<longrightarrow> snd (AlbertForQuestionAnswering_forward nn m inp (Some sp) (Some ep) st)
                       = Inr (Ten \<lparr> shape = shape start_loss,
                                     elems = map2 (\<lambda>x y. (x + y) / 2) (elems start_loss) (elems end_loss) \<rparr>
                              # outputs)))
         \<and> (sp' = None \<or> ep' = None \<longrightarrow>
              AlbertForQuestionAnswering_forward nn m inp sp' ep' st = (st, Inr outputs))"
proof -
  let ?st' = "clamp_inplace 0 (int S) (label_view ep) (clamp_inplace 0 (int S) (label_view sp) st)"
  have range: "\<forall>x \<in> set (elems (t_read ?st' (label_view sp))) \<union> set (elems (t_read ?st' (label_view ep))).
                 0 \<le> x \<and> x \<le> int S"
    by (auto simp add: t_read_def clamp_twice)
  have both: "AlbertForQuestionAnswering_forward nn m inp (Some sp) (Some ep) st =
          (?st',
               ebind (CrossEntropyLoss nn (int S) start_logits (t_read ?st' (label_view sp))) (\<lambda>start_loss.
               ebind (CrossEntropyLoss nn (int S) end_logits (t_read ?st' (label_view ep))) (\<lambda>end_loss.
               ebind (t_add start_loss end_loss) (\<lambda>s.
               Inr ([Ten (t_map (\<lambda>x. x / 2) s)] @ outputs)))))"
    using qa_forward_both [OF assms, of nn sp ep st] by (simp add: Let_def)
  have loss: "\<forall>start_loss end_loss.
                   CrossEntropyLoss nn (int S) start_logits (t_read ?st' (label_view sp)) = Inr start_loss
                   \<and> CrossEntropyLoss nn (int S) end_logits (t_read ?st' (label_view ep)) = Inr end_loss
                   \<and> shape start_loss = shape end_loss
                   \<longrightarrow> snd (AlbertForQuestionAnswering_forward nn m inp (Some sp) (Some ep) st)
                       = Inr (Ten \<lparr> shape = shape start_loss,
                                     elems = map2 (\<lambda>x y. (x + y) / 2) (elems start_loss) (elems end_loss) \<rparr>
                              # outputs)"
    by (simp add: both t_add_def t_map_def map_zip_map2 split_def)
  have absent: "sp' = None \<or> ep' = None \<longrightarrow>
              AlbertForQuestionAnswering_forward nn m inp sp' ep' st = (st, Inr outputs)"
    using qa_forward_absent [OF assms(1)] by blast
  show ?thesis
    using range loss absent by (simp add: Let_def both)
qed

theorem qa_loss_definition_witness:
  "fst (AlbertForQuestionAnswering_forward demo_losses demo_qa demo_inputs
          (Some demo_start) (Some demo_end) demo_store) = (\<lambda>a. 7)(0 := 2, 1 := 0)
   \<and> snd (AlbertForQuestionAnswering_forward demo_losses demo_qa demo_inputs
          (Some demo_start) (Some demo_end) demo_store)
     = Inr [Ten \<lparr>shape = [], elems = [1422]\<rparr>,
            Ten \<lparr>shape = [1, 2], elems = [346, 602]\<rparr>,
            Ten \<lparr>shape = [1, 2], elems = [692, 1204]\<rparr>]
   \<and> AlbertForQuestionAnswering_forward demo_losses demo_qa demo_inputs
          (Some demo_start) None demo_store
     = (demo_store, Inr [Ten \<lparr>shape = [1, 2], elems = [346, 602]\<rparr>,
                         Ten \<lparr>shape = [1, 2], elems = [692, 1204]\<rparr>])"
proof -
  have sh: "shape \<lparr>shape = [Suc 0, 2], elems = [346, 602::rat]\<rparr> = [Suc 0, 2]" by simp
  note t = qa_loss_definition [OF demo_qa_logits sh, of demo_end demo_start demo_store demo_losses
                                "Some demo_start" None,
                               unfolded Let_def demo_clamped demo_label_reads]
  from t have a: "fst (AlbertForQuestionAnswering_forward demo_losses demo_qa demo_inputs
          (Some demo_start) (Some demo_end) demo_store) = (\<lambda>a. 7)(0 := 2, 1 := 0)"
    by blast
  from t demo_cross_entropies
  have "snd (AlbertForQuestionAnswering_forward demo_losses demo_qa demo_inputs
          (Some demo_start) (Some demo_end) demo_store)
        = Inr (Ten \<lparr> shape = shape \<lparr>shape = [], elems = [948::rat]\<rparr>,
                      elems = map2 (\<lambda>x y. (x + y) / 2) (elems \<lparr>shape = [], elems = [948::rat]\<rparr>)
                                   (elems \<lparr>shape = [], elems = [1896::rat]\<rparr>) \<rparr>
               # [Ten \<lparr>shape = [Suc 0, 2], elems = [346, 602]\<rparr>,
                  Ten \<lparr>shape = [Suc 0, 2], elems = [692, 1204]\<rparr>])"
    by (metis tensor.select_convs(1))
  then have b: "snd (AlbertForQuestionAnswering_forward demo_losses demo_qa demo_inputs
          (Some demo_start) (Some demo_end) demo_store)
     = Inr [Ten \<lparr>shape = [], elems = [1422]\<rparr>,
            Ten \<lparr>shape = [1, 2], elems = [346, 602]\<rparr>,
            Ten \<lparr>shape = [1, 2], elems = [692, 1204]\<rparr>]"
    by simp
  from t have c: "AlbertForQuestionAnswering_forward demo_losses demo_qa demo_inputs
          (Some demo_start) None demo_store
     = (demo_store, Inr [Ten \<lparr>shape = [1, 2], elems = [346, 602]\<rparr>,
                         Ten \<lparr>shape = [1, 2], elems = [692, 1204]\<rparr>])"
    by simp
  show ?thesis using a b c by blast
qed



text \<open>
  Claim C7. The logits are the classifier applied to the pooled output after dropout.
  With labels, the loss put in front of the outputs is the mean-squared error of the
  flattened logits and labels when \<open>num_labels = 1\<close>, and otherwise the cross-entropy of
  the logits viewed as rows of \<open>num_labels\<close> entries and the flattened labels.
\<close>

theorem sequence_classification_loss:
  assumes "AlbertModel_forward (sc_albert m) inp = Inr (sequence_output # Ten pooled_output # rest)"
    and "Linear_forward (classifier m) (sc_dropout m pooled_output) = Inr logits"
  shows "AlbertForSequenceClassification_forward nn m inp None = Inr (Ten logits # rest)
       \<and> AlbertForSequenceClassification_forward nn m inp (Some labels)
           = (if sc_num_labels m = 1
              then ebind (MSELoss nn (view_flat logits) (view_flat labels)) (\<lambda>loss.
                     Inr (Ten loss # Ten logits # rest))
              else ebind (view_rows (sc_num_labels m) logits) (\<lambda>reshaped.
                   ebind (CrossEntropyLoss nn (- 100) reshaped (view_flat labels)) (\<lambda>loss.
                     Inr (Ten loss # Ten logits # rest))))
       \<and> shape (view_flat logits) = [numel (shape logits)]
       \<and> elems (view_flat logits) = elems logits
       \<and> shape (view_flat labels) = [numel (shape labels)]
       \<and> elems (view_flat labels) = elems labels
       \<and> (shape logits = [B, sc_num_labels m] \<and> 0 < sc_num_labels m \<longrightarrow>
            view_rows (sc_num_labels m) logits = Inr logits)"
proof -
  have none: "AlbertForSequenceClassification_forward nn m inp None = Inr (Ten logits # rest)"
    using assms by (simp add: AlbertForSequenceClassification_forward_def py_index_def)
  have some: "AlbertForSequenceClassification_forward nn m inp (Some labels)
           = (if sc_num_labels m = 1
              then ebind (MSELoss nn (view_flat logits) (view_flat labels)) (\<lambda>loss.
                     Inr (Ten loss # Ten logits # rest))
              else ebind (view_rows (sc_num_labels m) logits) (\<lambda>reshaped.
                   ebind (CrossEntropyLoss nn (- 100) reshaped (view_flat labels)) (\<lambda>loss.
                     Inr (Ten loss # Ten logits # rest))))"
    using assms
    by (simp add: AlbertForSequenceClassification_forward_def py_index_def ebind_def
             split: sum.splits)
  have rows: "shape logits = [B, sc_num_labels m] \<and> 0 < sc_num_labels m \<longrightarrow>
            view_rows (sc_num_labels m) logits = Inr logits"
    by (simp add: view_rows_def numel_def)
  show ?thesis using none some rows by (simp add: view_flat_def)
qed

theorem sequence_classification_loss_witness:
  "AlbertForSequenceClassification_forward demo_losses demo_sc demo_inputs None
     = Inr [Ten \<lparr>shape = [1, 2], elems = [346, 692]\<rparr>]
   \<and> AlbertForSequenceClassification_forward demo_losses demo_sc demo_inputs
       (Some \<lparr>shape = [1], elems = [1]\<rparr>)
     = Inr [Ten \<lparr>shape = [], elems = [1039]\<rparr>, Ten \<lparr>shape = [1, 2], elems = [346, 692]\<rparr>]
   \<and> AlbertForSequenceClassification_forward demo_losses demo_sc1 demo_inputs
       (Some \<lparr>shape = [1], elems = [1]\<rparr>)
     = Inr [Ten \<lparr>shape = [], elems = [345]\<rparr>, Ten \<lparr>shape = [1, 1], elems = [346]\<rparr>]"
proof -
  have a: "AlbertModel_forward (sc_albert demo_sc) demo_inputs
           = Inr (Ten \<lparr>shape = [Suc 0, 2, Suc 0], elems = [346, 602]\<rparr>
                  # Ten \<lparr>shape = [Suc 0, Suc 0], elems = [346]\<rparr> # [])"
    by (simp add: demo_sc_def demo_model_forward)
  have l: "Linear_forward (classifier demo_sc) (sc_dropout demo_sc \<lparr>shape = [Suc 0, Suc 0], elems = [346]\<rparr>)
           = Inr \<lparr>shape = [Suc 0, 2], elems = [346, 692]\<rparr>"
    by (simp add: demo_sc_def demo_head_forward)
  have a1: "AlbertModel_forward (sc_albert demo_sc1) demo_inputs
           = Inr (Ten \<lparr>shape = [Suc 0, 2, Suc 0], elems = [346, 602]\<rparr>
                  # Ten \<lparr>shape = [Suc 0, Suc 0], elems = [346]\<rparr> # [])"
    by (simp add: demo_sc1_def demo_model_forward)
  have l1: "Linear_forward (classifier demo_sc1) (sc_dropout demo_sc1 \<lparr>shape = [Suc 0, Suc 0], elems = [346]\<rparr>)
           = Inr \<lparr>shape = [Suc 0, Suc 0], elems = [346]\<rparr>"
    by (simp add: demo_sc1_def Linear_forward_def demo_linear_def numel_def blocks_def dot_def)
  note t = sequence_classification_loss [OF a l, of demo_losses "\<lparr>shape = [1], elems = [1]\<rparr>" 1]
  note t1 = sequence_classification_loss [OF a1 l1, of demo_losses "\<lparr>shape = [1], elems = [1]\<rparr>" 1]
  have n: "sc_num_labels demo_sc = 2" "sc_num_labels demo_sc1 = 1"
    by (simp_all add: demo_sc_def demo_sc1_def)
  from t have e1: "AlbertForSequenceClassification_forward demo_losses demo_sc demo_inputs None
     = Inr [Ten \<lparr>shape = [1, 2], elems = [346, 692]\<rparr>]" by simp
  from t have e2: "AlbertForSequenceClassification_forward demo_losses demo_sc demo_inputs
       (Some \<lparr>shape = [1], elems = [1]\<rparr>)
     = Inr [Ten \<lparr>shape = [], elems = [1039]\<rparr>, Ten \<lparr>shape = [1, 2], elems = [346, 692]\<rparr>]"
    by (simp add: n view_rows_def view_flat_def numel_def demo_losses_def)
  from t1 have e3: "AlbertForSequenceClassification_forward demo_losses demo_sc1 demo_inputs
       (Some \<lparr>shape = [1], elems = [1]\<rparr>)
     = Inr [Ten \<lparr>shape = [], elems = [345]\<rparr>, Ten \<lparr>shape = [1, 1], elems = [346]\<rparr>]"
    by (simp add: n view_flat_def numel_def demo_losses_def)
  show ?thesis using e1 e2 e3 by blast
qed

text \<open>
  Claim C10 as stated speaks of an in-place squeeze. \<^verbatim>\<open>squeeze(-1)\<close> is not in place: after
  the call the caller's start positions, of shape \<open>(1, 1)\<close>, hold the clamped value and
  still have shape \<open>(1, 1)\<close>, not the squeezed shape \<open>(1)\<close>.
\<close>

theorem squeeze_is_not_in_place:
  "t_read (fst (AlbertForQuestionAnswering_forward demo_losses demo_qa demo_inputs
                  (Some demo_start) (Some demo_end) demo_store)) demo_start
     = \<lparr>shape = [1, 1], elems = [2]\<rparr>
   \<and> t_read demo_store demo_start = \<lparr>shape = [1, 1], elems = [5]\<rparr>
   \<and> ref_shape (ref_squeeze_last demo_start) = [1]
   \<and> shape (t_read (fst (AlbertForQuestionAnswering_forward demo_losses demo_qa demo_inputs
                  (Some demo_start) (Some demo_end) demo_store)) demo_start)
       \<noteq> ref_shape (ref_squeeze_last demo_start)"
proof -
  have sh: "shape \<lparr>shape = [Suc 0, 2], elems = [346, 602::rat]\<rparr> = [Suc 0, 2]" by simp
  have "fst (AlbertForQuestionAnswering_forward demo_losses demo_qa demo_inputs
          (Some demo_start) (Some demo_end) demo_store) = (\<lambda>a. 7)(0 := 2, 1 := 0)"
    using qa_forward_both [OF demo_qa_logits sh, of demo_losses demo_start demo_end demo_store,
                           unfolded Let_def demo_clamped]
    by simp
  then show ?thesis
    by (simp add: t_read_def demo_start_def demo_store_def ref_squeeze_last_def)
qed

text \<open>
  Claim C10, as amended. When both label tensors are given and the head has produced start
  logits of shape \<open>(B, S)\<close>, the call overwrites exactly the elements of the two label
  tensors, each with its value clamped into \<open>[0, S]\<close>; every other element of the store
  keeps its value. The clamping goes through the view that \<^verbatim>\<open>squeeze(-1)\<close> returns, which
  shares the elements of the caller's tensor; the caller's tensor keeps its shape. When a
  label tensor is absent nothing is overwritten.
\<close>

theorem label_tensors_clamped_through_views:
  assumes "qa_logits m inp = Inr (start_logits, end_logits, outputs)"
    and "shape start_logits = [B, S]"
  shows "fst (AlbertForQuestionAnswering_forward nn m inp (Some sp) (Some ep) st)
           = (\<lambda>a. if a \<in> set (cells sp) \<union> set (cells ep) then min (max (st a) 0) (int S) else st a)
       \<and> (sp' = None \<or> ep' = None \<longrightarrow>
            fst (AlbertForQuestionAnswering_forward nn m inp sp' ep' st) = st)"
  using qa_forward_both [OF assms, of nn sp ep st] qa_forward_absent [OF assms(1), of sp' ep' nn st]
  by (auto simp add: Let_def clamp_twice)

lemma demo_clamped_cells:
  "(\<lambda>a. if a \<in> set (cells demo_start) \<union> set (cells demo_end)
              then min (max (demo_store a) 0) (int 2) else demo_store a)
        = (\<lambda>a. 7)(0 := 2, 1 := 0)"
  by (rule ext) (simp add: demo_start_def demo_end_def demo_store_def)

theorem label_tensors_clamped_through_views_witness:
  "fst (AlbertForQuestionAnswering_forward demo_losses demo_qa demo_inputs
          (Some demo_start) (Some demo_end) demo_store) = (\<lambda>a. 7)(0 := 2, 1 := 0)
   \<and> fst (AlbertForQuestionAnswering_forward demo_losses demo_qa demo_inputs
          None (Some demo_end) demo_store) = demo_store"
proof -
  have sh: "shape \<lparr>shape = [Suc 0, 2], elems = [346, 602::rat]\<rparr> = [Suc 0, 2]" by simp
  note t = label_tensors_clamped_through_views
             [OF demo_qa_logits sh, of demo_losses demo_start demo_end demo_store None "Some demo_end",
              unfolded demo_clamped_cells]
  then show ?thesis by blast
qed

subsection \<open>The output projection in exact arithmetic\<close>

text \<open>
  For a well-formed context layer of shape \<open>(b, f, n, d)\<close> and a dense layer with weight of
  shape \<open>(hs, n * d)\<close> and bias of shape \<open>(hs)\<close>, the einsum over the transposed, reshaped
  weight plus the bias and the dense layer on the reshaped context layer are the same sums
  of the same products, grouped differently: with elements of a semiring, where sums can be
  regrouped, the two tensors are equal. The framework adds rounded floating-point numbers,
  in an order that its kernels choose; what the two computations give there is not
  determined by this model. The reshaped context layer does not enter the result: once its
  \<^verbatim>\<open>view\<close> has succeeded the projection is the einsum path alone.
\<close>

lemma projection_in_exact_arithmetic:
  fixes a :: "'a::semiring_0 AlbertAttention"
  assumes c: "shape context_layer = [b, f, n, d]" "wf_tensor context_layer"
    and a: "num_attention_heads a = n" "attention_head_size a = d" "all_head_size a = n * d"
           "hidden_size a = hs"
    and w: "shape (weight (dense a)) = [hs, n * d]" "wf_tensor (weight (dense a))"
    and bs: "shape (bias (dense a)) = [hs]" "wf_tensor (bias (dense a))"
  shows "\<exists>reshaped_context_layer projected_context_layer.
           t_view (take (length (shape context_layer) - 2) (shape context_layer) @ [all_head_size a])
                  context_layer = Inr reshaped_context_layer
         \<and> shape reshaped_context_layer = [b, f, n * d]
         \<and> elems reshaped_context_layer = elems context_layer
         \<and> project_context a context_layer = Inr projected_context_layer
         \<and> Linear_forward (dense a) reshaped_context_layer = Inr projected_context_layer
         \<and> shape projected_context_layer = [b, f, hs]
         \<and> project_context a context_layer
             = ebind (weight_as_heads (num_attention_heads a) (attention_head_size a) (hidden_size a)
                                      (weight (dense a))) (\<lambda>w.
               ebind (einsum_bfnd_ndh context_layer w) (\<lambda>p.
               add_bias p (bias (dense a))))"
proof -
  let ?K = "n * d"
  let ?W = "weight (dense a)"
  let ?B = "elems (bias (dense a))"
  let ?rows = "blocks (b * f) ?K (elems context_layer)"
  let ?G = "\<lambda>row. map (\<lambda>j. sum_list (map (\<lambda>i. sum_list (map (\<lambda>k. row ! (i * d + k)
                         * elems (np_transpose ?W) ! ((i * d + k) * hs + j)) [0 ..< d])) [0 ..< n]))
                      [0 ..< hs]"
  let ?r = "context_layer\<lparr> shape := [b, f, ?K] \<rparr>"
  have clen: "length (elems context_layer) = (b * f) * ?K"
    using c by (simp add: wf_tensor_def numel_def mult.assoc)
  have wlen: "length (elems ?W) = hs * ?K" using w by (simp add: wf_tensor_def numel_def)
  have blen: "length ?B = hs" using bs by (simp add: wf_tensor_def numel_def)
  have view: "t_view (take (length (shape context_layer) - 2) (shape context_layer) @ [all_head_size a])
                     context_layer = Inr ?r"
    using c(1) a(3) by (simp add: t_view_def numel_def mult.assoc)
  have heads: "weight_as_heads (num_attention_heads a) (attention_head_size a) (hidden_size a) ?W
               = Inr ((np_transpose ?W)\<lparr> shape := [n, d, hs] \<rparr>)"
    using w(1) a by (simp add: weight_as_heads_def)
  have ein: "einsum_bfnd_ndh context_layer ((np_transpose ?W)\<lparr> shape := [n, d, hs] \<rparr>)
             = Inr \<lparr> shape = [b, f, hs], elems = concat (map ?G ?rows) \<rparr>"
    using c(1) by (simp add: einsum_bfnd_ndh_def)
  have bl: "blocks (b * f) hs (concat (map ?G ?rows)) = map ?G ?rows"
  proof -
    have "blocks (length (map ?G ?rows)) hs (concat (map ?G ?rows)) = map ?G ?rows"
      by (rule blocks_concat) auto
    moreover have "length (map ?G ?rows) = b * f" by (simp add: blocks_def)
    ultimately show ?thesis by simp
  qed
  let ?P = "\<lparr> shape = [b, f, hs],
               elems = concat (map (\<lambda>row. map (\<lambda>j. dot row (take ?K (drop (j * ?K) (elems ?W))) + ?B ! j)
                                              [0 ..< hs]) ?rows) \<rparr>"
  have rowwise: "map (\<lambda>row. map2 (+) (?G row) ?B) ?rows
                 = map (\<lambda>row. map (\<lambda>j. dot row (take ?K (drop (j * ?K) (elems ?W))) + ?B ! j) [0 ..< hs])
                       ?rows"
  proof (rule map_cong [OF refl])
    fix row assume "row \<in> set ?rows"
    then have rl: "length row = ?K" using clen by (rule blocks_lengths [rotated])
    have "map2 (+) (?G row) ?B
          = map (\<lambda>j. sum_list (map (\<lambda>i. sum_list (map (\<lambda>k. row ! (i * d + k)
                         * elems (np_transpose ?W) ! ((i * d + k) * hs + j)) [0 ..< d])) [0 ..< n])
                     + ?B ! j) [0 ..< hs]"
      using blen by (rule map2_add_indexed)
    also have "\<dots> = map (\<lambda>j. dot row (take ?K (drop (j * ?K) (elems ?W))) + ?B ! j) [0 ..< hs]"
    proof (rule map_cong [OF refl])
      fix j assume "j \<in> set [0 ..< hs]"
      then have "j < hs" by simp
      then show "sum_list (map (\<lambda>i. sum_list (map (\<lambda>k. row ! (i * d + k)
                         * elems (np_transpose ?W) ! ((i * d + k) * hs + j)) [0 ..< d])) [0 ..< n])
                     + ?B ! j
                 = dot row (take ?K (drop (j * ?K) (elems ?W))) + ?B ! j"
        using projection_row [OF w(1) wlen rl] by simp
    qed
    finally show "map2 (+) (?G row) ?B
                  = map (\<lambda>j. dot row (take ?K (drop (j * ?K) (elems ?W))) + ?B ! j) [0 ..< hs]" .
  qed
  have bias: "add_bias \<lparr> shape = [b, f, hs], elems = concat (map ?G ?rows) \<rparr> (bias (dense a)) = Inr ?P"
    using bs(1) by (simp add: add_bias_def numel_def bl comp_def rowwise)
  have proj: "project_context a context_layer = Inr ?P"
    by (simp add: project_context_def view heads ein bias)
  have lin: "Linear_forward (dense a) ?r = Inr ?P"
    using w(1) bs(1) by (simp add: Linear_forward_def numel_def)
  have unused: "project_context a context_layer
             = ebind (weight_as_heads (num_attention_heads a) (attention_head_size a) (hidden_size a)
                                      (weight (dense a))) (\<lambda>w.
               ebind (einsum_bfnd_ndh context_layer w) (\<lambda>p.
               add_bias p (bias (dense a))))"
    by (simp add: project_context_def view)
  show ?thesis
    using view proj lin unused by (intro exI [of _ ?r] exI [of _ ?P]) simp
qed

lemma projection_in_exact_arithmetic_example:
  "project_context demo_projection \<lparr> shape = [1, 1, 2, 1], elems = [5, 6] \<rparr>
     = Inr \<lparr> shape = [1, 1, 2], elems = [27, 59] \<rparr>
   \<and> Linear_forward (dense demo_projection) \<lparr> shape = [1, 1, 2], elems = [5, 6] \<rparr>
     = Inr \<lparr> shape = [1, 1, 2], elems = [27, 59] \<rparr>"
proof -
  let ?c = "\<lparr> shape = [1, 1, 2, 1], elems = [5, 6::int] \<rparr>"
  have h: "shape ?c = [1, 1, 2, 1]" "wf_tensor ?c"
    "num_attention_heads demo_projection = 2" "attention_head_size demo_projection = 1"
    "all_head_size demo_projection = 2 * 1" "hidden_size demo_projection = 2"
    "shape (weight (dense demo_projection)) = [2, 2 * 1]" "wf_tensor (weight (dense demo_projection))"
    "shape (bias (dense demo_projection)) = [2]" "wf_tensor (bias (dense demo_projection))"
    by (simp_all add: demo_projection_def wf_tensor_def numel_def)
  obtain r p where v: "t_view (take (length (shape ?c) - 2) (shape ?c) @ [all_head_size demo_projection]) ?c = Inr r"
    and pr: "project_context demo_projection ?c = Inr p"
    and l: "Linear_forward (dense demo_projection) r = Inr p"
    using projection_in_exact_arithmetic [OF h] by blast
  have r: "r = \<lparr> shape = [1, 1, 2], elems = [5, 6] \<rparr>"
    using v by (simp add: t_view_def numel_def demo_projection_def)
  have lv: "Linear_forward (dense demo_projection) \<lparr> shape = [1, 1, 2], elems = [5, 6] \<rparr>
            = Inr \<lparr> shape = [1, 1, 2], elems = [27, 59] \<rparr>"
    by (simp add: Linear_forward_def demo_projection_def numel_def blocks_def dot_def upt_2)
  show ?thesis using pr l r lv by simp
qed

text \<open>
  Claim C1 as stated speaks of every configuration. With no group and one layer the
  forward pass raises ZeroDivisionError before any module is applied; with two groups and
  one layer the slice of the head mask is empty and the first group raises IndexError; and
  with 18 layers in 14 groups the index computed in floating point for iteration 9 is 6,
  while the floor of \<open>9 / (18 / 14)\<close> is 7.
\<close>

theorem layer_groups_claim_fails:
  "AlbertTransformer_forward (AlbertTransformer_init zero_groups_config (demo_linear 0) demo_mk)
     \<lparr>shape = [1, 2, 1], elems = [1, 2]\<rparr> None (HMList [None]) = Inl ZeroDivisionError
   \<and> AlbertTransformer_forward (AlbertTransformer_init many_groups_config (demo_linear 0) demo_mk)
     \<lparr>shape = [1, 2, 1], elems = [1, 2]\<rparr> None (HMList [None]) = Inl IndexError
   \<and> group_idx_of float_config 9 = Inr 6
   \<and> \<lfloor>(9::rat) / (18 / 14)\<rfloor> = 7"
proof -
  have r1: "py_range 1 = [0]" by (simp add: py_range_def)
  have z: "layers_per_group_of zero_groups_config = Inl ZeroDivisionError"
    by (simp add: layers_per_group_of_def py_int_truediv_def failing_configs)
  have a: "AlbertTransformer_forward (AlbertTransformer_init zero_groups_config (demo_linear 0) demo_mk)
     \<lparr>shape = [1, 2, 1], elems = [1, 2]\<rparr> None (HMList [None]) = Inl ZeroDivisionError"
    by (simp add: AlbertTransformer_forward_def init_groups demo_mapping transformer_step_def z r1
          failing_configs)
  have l: "layers_per_group_of many_groups_config = Inr 0"
    using layers_per_group_floor [of many_groups_config] by (simp add: failing_configs)
  have g: "group_idx_of many_groups_config 0 = Inr 0"
    by (rule group_idx_zero) (simp_all add: failing_configs)
  have gr: "py_index (albert_layer_groups (AlbertTransformer_init many_groups_config (demo_linear 0) demo_mk)) 0
            = Inr (AlbertLayerGroup_init many_groups_config (demo_mk 0))"
    using init_groups(6) [of 0 many_groups_config "demo_linear 0" demo_mk]
    by (simp add: failing_configs)
  have gf: "AlbertLayerGroup_forward (AlbertLayerGroup_init many_groups_config (demo_mk 0)) x None (HMList [])
            = Inl IndexError" for x
    by (simp add: AlbertLayerGroup_forward_def AlbertLayerGroup_init_def failing_configs py_index_def)
  have b: "AlbertTransformer_forward (AlbertTransformer_init many_groups_config (demo_linear 0) demo_mk)
     \<lparr>shape = [1, 2, 1], elems = [1, 2]\<rparr> None (HMList [None]) = Inl IndexError"
    by (simp add: AlbertTransformer_forward_def init_groups(2-5) demo_mapping transformer_step_def l g r1
          failing_configs apply_group_def gr py_slice_def gf)
  have c: "\<lfloor>(9::rat) / (18 / 14)\<rfloor> = 7" by simp
  show ?thesis using a b c group_idx_18_14_9 by blast
qed

text \<open>
  Claim C1, as amended. Let the encoder be built from a configuration with \<open>L\<close> hidden
  layers and \<open>G\<close> hidden groups. Whenever its forward pass returns, it is the input
  mapping followed by the application of \<open>L\<close> group modules, one for each iteration; the
  module of iteration \<open>i\<close> is the one created for the group index that the code computes in
  floating point, an index from \<open>0\<close> to \<open>G - 1\<close>. When \<open>0 \<le> G < L\<close>, two different
  iterations use the same module. When \<open>G \<ge> 1\<close> divides \<open>L < 2 ^ 53\<close>, the index of iteration
  \<open>i\<close> is \<open>i div (L div G)\<close>, the floor of \<open>i / (L / G)\<close>.

  The forward pass does return when \<open>G \<ge> 1\<close> divides \<open>L < 2 ^ 53\<close>, the number of layers
  inside a group is at most \<open>L div G\<close>, the head mask is a list or a well-formed tensor with
  at least \<open>L\<close> entries, the input mapping returns, and every layer returns on the hidden
  states, the attention mask and the head mask entry that this call hands it, and has been
  created to output its attention probabilities if the configuration asks for them. When
  \<open>G = 0\<close>, \<open>L \<ge> 1\<close> and the input mapping returns, the forward pass raises
  ZeroDivisionError.
\<close>

theorem layer_groups_shared:
  fixes t :: "'a::semiring_0 AlbertTransformer"
  assumes t: "t = AlbertTransformer_init config mapping_in mk"
  shows "(\<forall>outputs. AlbertTransformer_forward t hidden_states attention_mask head_mask = Inr outputs \<longrightarrow>
           (\<exists>gs layers_per_group h0 st.
              length gs = nat (num_hidden_layers config)
            \<and> (\<forall>i < nat (num_hidden_layers config).
                   group_idx_of config (int i) = Inr (gs ! i)
                 \<and> 0 \<le> gs ! i \<and> gs ! i < num_hidden_groups config
                 \<and> py_index (albert_layer_groups t) (gs ! i)
                     = Inr (AlbertLayerGroup_init config (mk (nat (gs ! i)))))
            \<and> Linear_forward mapping_in hidden_states = Inr h0
            \<and> apply_groups t attention_mask head_mask layers_per_group gs
                  (h0, [], if output_hidden_states config then [Ten h0] else []) = Inr st
            \<and> outputs = transformer_outputs t st
            \<and> (0 \<le> num_hidden_groups config \<and> num_hidden_groups config < num_hidden_layers config \<longrightarrow>
                  (\<exists>i j. i < j \<and> j < nat (num_hidden_layers config) \<and> gs ! i = gs ! j))
            \<and> (1 \<le> num_hidden_groups config \<and> num_hidden_groups config dvd num_hidden_layers config
                 \<and> num_hidden_layers config < 2 ^ 53 \<longrightarrow>
                  (\<forall>i < nat (num_hidden_layers config).
                     gs ! i = int i div (num_hidden_layers config div num_hidden_groups config)
                   \<and> gs ! i = \<lfloor>(of_int (int i) :: rat)
                                  / (of_int (num_hidden_layers config) / of_int (num_hidden_groups config))\<rfloor>))))
       \<and> (layers_return config mk attention_mask (head_mask_entries head_mask) P
            \<and> 1 \<le> num_hidden_groups config \<and> num_hidden_groups config dvd num_hidden_layers config
            \<and> num_hidden_layers config < 2 ^ 53
            \<and> inner_group_num config \<le> num_hidden_layers config div num_hidden_groups config
            \<and> head_mask_covers head_mask (num_hidden_layers config)
            \<and> (\<exists>h0. Linear_forward mapping_in hidden_states = Inr h0 \<and> P h0) \<longrightarrow>
            (\<exists>outputs. AlbertTransformer_forward t hidden_states attention_mask head_mask = Inr outputs))
       \<and> (num_hidden_groups config = 0 \<and> 1 \<le> num_hidden_layers config
            \<and> (\<exists>h0. Linear_forward mapping_in hidden_states = Inr h0) \<longrightarrow>
            AlbertTransformer_forward t hidden_states attention_mask head_mask = Inl ZeroDivisionError)"
proof (intro conjI allI impI)
  fix outputs
  assume "AlbertTransformer_forward t hidden_states attention_mask head_mask = Inr outputs"
  with t show "\<exists>gs layers_per_group h0 st.
              length gs = nat (num_hidden_layers config)
            \<and> (\<forall>i < nat (num_hidden_layers config).
                   group_idx_of config (int i) = Inr (gs ! i)
                 \<and> 0 \<le> gs ! i \<and> gs ! i < num_hidden_groups config
                 \<and> py_index (albert_layer_groups t) (gs ! i)
                     = Inr (AlbertLayerGroup_init config (mk (nat (gs ! i)))))
            \<and> Linear_forward mapping_in hidden_states = Inr h0
            \<and> apply_groups t attention_mask head_mask layers_per_group gs
                  (h0, [], if output_hidden_states config then [Ten h0] else []) = Inr st
            \<and> outputs = transformer_outputs t st
            \<and> (0 \<le> num_hidden_groups config \<and> num_hidden_groups config < num_hidden_layers config \<longrightarrow>
                  (\<exists>i j. i < j \<and> j < nat (num_hidden_layers config) \<and> gs ! i = gs ! j))
            \<and> (1 \<le> num_hidden_groups config \<and> num_hidden_groups config dvd num_hidden_layers config
                 \<and> num_hidden_layers config < 2 ^ 53 \<longrightarrow>
                  (\<forall>i < nat (num_hidden_layers config).
                     gs ! i = int i div (num_hidden_layers config div num_hidden_groups config)
                   \<and> gs ! i = \<lfloor>(of_int (int i) :: rat)
                                  / (of_int (num_hidden_layers config) / of_int (num_hidden_groups config))\<rfloor>))"
    by (rule forward_trace)
next
  assume a: "layers_return config mk attention_mask (head_mask_entries head_mask) P
            \<and> 1 \<le> num_hidden_groups config \<and> num_hidden_groups config dvd num_hidden_layers config
            \<and> num_hidden_layers config < 2 ^ 53
            \<and> inner_group_num config \<le> num_hidden_layers config div num_hidden_groups config
            \<and> head_mask_covers head_mask (num_hidden_layers config)
            \<and> (\<exists>h0. Linear_forward mapping_in hidden_states = Inr h0 \<and> P h0)"
  then obtain h0 where "Linear_forward mapping_in hidden_states = Inr h0" "P h0" by blast
  with a t show "\<exists>outputs. AlbertTransformer_forward t hidden_states attention_mask head_mask = Inr outputs"
    by (intro forward_returns [of t config mapping_in mk attention_mask head_mask P hidden_states h0])
       simp_all
next
  assume a: "num_hidden_groups config = 0 \<and> 1 \<le> num_hidden_layers config
            \<and> (\<exists>h0. Linear_forward mapping_in hidden_states = Inr h0)"
  then obtain h0 where "Linear_forward mapping_in hidden_states = Inr h0" by blast
  with a t show "AlbertTransformer_forward t hidden_states attention_mask head_mask = Inl ZeroDivisionError"
    by (intro forward_zero_groups [of t config mapping_in mk hidden_states h0]) simp_all
qed

theorem layer_groups_shared_witness:
  "(\<exists>gs layers_per_group st.
        gs = [0, 0, 1, 1]
      \<and> apply_groups (AlbertTransformer_init demo_config (demo_linear 0) probe_mk)
            (Some \<lparr>shape = [1, 1, 1, 2], elems = [0, 0]\<rparr>) (HMList [None, None, None, None])
            layers_per_group gs (\<lparr>shape = [1, 2, 1], elems = [1, 2]\<rparr>, [], []) = Inr st
      \<and> transformer_outputs (AlbertTransformer_init demo_config (demo_linear 0) probe_mk) st
          = [Ten \<lparr>shape = [1, 2, 1], elems = [346, 602]\<rparr>])
   \<and> (\<exists>outputs. AlbertTransformer_forward (AlbertTransformer_init demo_config (demo_linear 0) probe_mk)
                    \<lparr>shape = [1, 2, 1], elems = [1, 2]\<rparr>
                    (Some \<lparr>shape = [1, 1, 1, 2], elems = [0, 0]\<rparr>)
                    (HMList [None, None, None, None]) = Inr outputs)
   \<and> (\<exists>outputs. AlbertTransformer_forward (AlbertTransformer_init demo_config (demo_linear 0) probe_mk)
                    \<lparr>shape = [1, 2, 1], elems = [1, 2]\<rparr>
                    (Some \<lparr>shape = [1, 1, 1, 2], elems = [0, 0]\<rparr>)
                    (HMTensor \<lparr>shape = [4, 1], elems = [1, 1, 1, 1]\<rparr>) = Inr outputs)
   \<and> AlbertLayer_forward (probe_mk 0 0) \<lparr>shape = [1, 2, 1], elems = [1, 2]\<rparr>
        (Some \<lparr>shape = [1, 1, 1, 3], elems = [0, 0, 0]\<rparr>) None = Inl RuntimeError
   \<and> AlbertTransformer_forward (AlbertTransformer_init zero_groups_config (demo_linear 0) probe_mk)
        \<lparr>shape = [1, 2, 1], elems = [1, 2]\<rparr> (Some \<lparr>shape = [1, 1, 1, 2], elems = [0, 0]\<rparr>)
        (HMList [None]) = Inl ZeroDivisionError"
proof -
  let ?t = "AlbertTransformer_init demo_config (demo_linear 0) probe_mk"
  let ?x = "\<lparr>shape = [1, 2, 1], elems = [1, 2::rat]\<rparr>"
  let ?am = "Some \<lparr>shape = [1, 1, 1, 2], elems = [0, 0::rat]\<rparr>"
  let ?hm = "HMList [None, None, None, None] :: rat hmask"
  let ?ht = "HMTensor \<lparr>shape = [4, 1], elems = [1, 1, 1, 1::rat]\<rparr>"
  note T = layer_groups_shared [OF refl, where config = demo_config and mapping_in = "demo_linear 0"
             and mk = probe_mk and hidden_states = ?x and attention_mask = ?am and head_mask = ?hm
             and P = demo_state]
  note U = layer_groups_shared [OF refl, where config = demo_config and mapping_in = "demo_linear 0"
             and mk = probe_mk and hidden_states = ?x and attention_mask = ?am and head_mask = ?ht
             and P = demo_state]
  note Z = layer_groups_shared [OF refl, where config = zero_groups_config
             and mapping_in = "demo_linear 0" and mk = probe_mk and hidden_states = ?x
             and attention_mask = ?am and head_mask = "HMList [None]"]
  have cfg: "num_hidden_layers demo_config = 4" "num_hidden_groups demo_config = 2"
    "inner_group_num demo_config = 1" "output_hidden_states demo_config = False"
    by (simp_all add: demo_config_def)
  have run: "AlbertTransformer_forward ?t ?x ?am ?hm
             = Inr [Ten \<lparr>shape = [1, 2, 1], elems = [346, 602]\<rparr>]"
    using probe_transformer_forward [of 1 2 0 0] by simp
  have m: "Linear_forward (demo_linear 0) ?x = Inr ?x" using demo_mapping [of 1 2] by simp
  from T run obtain gs lpg h0 st where
      len: "length gs = nat (num_hidden_layers demo_config)"
    and lin: "Linear_forward (demo_linear 0) ?x = Inr h0"
    and ag: "apply_groups ?t ?am ?hm lpg gs
               (h0, [], if output_hidden_states demo_config then [Ten h0] else []) = Inr st"
    and out: "[Ten \<lparr>shape = [1, 2, 1], elems = [346, 602::rat]\<rparr>] = transformer_outputs ?t st"
    and f: "1 \<le> num_hidden_groups demo_config
            \<and> num_hidden_groups demo_config dvd num_hidden_layers demo_config
            \<and> num_hidden_layers demo_config < 2 ^ 53 \<longrightarrow>
            (\<forall>i < nat (num_hidden_layers demo_config).
                gs ! i = int i div (num_hidden_layers demo_config div num_hidden_groups demo_config)
              \<and> gs ! i = \<lfloor>(of_int (int i) :: rat)
                            / (of_int (num_hidden_layers demo_config) / of_int (num_hidden_groups demo_config))\<rfloor>)"
    by blast
  have h0: "h0 = ?x" using lin m by simp
  have g: "\<forall>i < 4. gs ! i = int i div 2" using f by (simp add: cfg)
  have l4: "length gs = 4" using len by (simp add: cfg)
  have "gs ! 0 = 0" "gs ! 1 = 0" "gs ! 2 = 1" "gs ! 3 = 1" using g by simp_all
  then have gs: "gs = [0, 0, 1, 1]" using list4 [OF l4] by simp
  have A: "\<exists>gs layers_per_group st.
        gs = [0, 0, 1, 1]
      \<and> apply_groups ?t ?am ?hm layers_per_group gs (?x, [], []) = Inr st
      \<and> transformer_outputs ?t st = [Ten \<lparr>shape = [1, 2, 1], elems = [346, 602]\<rparr>]"
    using ag out gs h0 by (intro exI [of _ gs] exI [of _ lpg] exI [of _ st]) (simp add: cfg)
  have P: "demo_state ?x" by (simp add: demo_state_def)
  have lr: "layers_return demo_config probe_mk ?am masks demo_state" for masks
    using probe_layers_return [of 0 0 masks] by simp
  have c1: "head_mask_covers ?hm (num_hidden_layers demo_config)"
    by (simp add: head_mask_covers_def cfg)
  have c2: "head_mask_covers ?ht (num_hidden_layers demo_config)"
    by (simp add: head_mask_covers_def cfg wf_tensor_def numel_def)
  have B: "\<exists>outputs. AlbertTransformer_forward ?t ?x ?am ?hm = Inr outputs"
    using T lr c1 m P by (simp add: cfg)
  have C: "\<exists>outputs. AlbertTransformer_forward ?t ?x ?am ?ht = Inr outputs"
    using U lr c2 m P by (simp add: cfg)
  have D: "AlbertLayer_forward (probe_mk 0 0) ?x
             (Some \<lparr>shape = [1, 1, 1, 3], elems = [0, 0, 0]\<rparr>) None = Inl RuntimeError"
    using probe_layer_raises by simp
  have E: "AlbertTransformer_forward (AlbertTransformer_init zero_groups_config (demo_linear 0) probe_mk)
             ?x ?am (HMList [None]) = Inl ZeroDivisionError"
    using Z m by (simp add: failing_configs)
  show ?thesis using A B C D E by blast
qed
end
